theory Spec2Isabelle
  imports Main "HOL-Library.Word"
begin

section \<open>Board, environment and output log\<close>

text \<open>
  The firmware revisions V1 .. V5 of the parking-gate controller run on an ESP32:
  \<^verbatim>\<open>unsigned long\<close> and \<^verbatim>\<open>unsigned int\<close> are 32-bit and wrap around.
  The wall clock is a natural number of milliseconds since boot; \<^verbatim>\<open>millis()\<close> is that
  number truncated to 32 bits. Only \<^verbatim>\<open>delay(ms)\<close> advances the clock: every other statement
  is taken to run in zero time, so all reads between two delays sample the inputs at the
  same instant. Inputs are functions of the time at which they are read. Everything the
  program writes (serial narration, buzzer, servo, LEDs) is appended, with the time of the
  write, to a log. The log has one entry for each line the program prints (and one for each
  progress mark it prints while connecting to the network): a line of fixed text is kept as
  its text (in ASCII, without accents and without leading or trailing white space), a line
  built from constants is kept as the text it comes to, and a line that carries a variable
  is kept as that value. The EEPROM cell that holds the counter is a field of the state.
\<close>

type_synonym u32 = "32 word"

datatype mensagem =
    Texto string
  | TicketData string
  | TicketHora string
  | TicketNumero u32
  | TotalVeiculos u32
  | StatusCancela bool u32

datatype evento =
    Serial mensagem
  | Buzzer bool
  | Servo nat
  | LedVerde bool
  | LedVermelho bool
  | LedAmarelo bool

record placa =
  agora :: nat
  eventos :: "(nat \<times> evento) list"

record ambiente =
  sensorEntrada :: "nat \<Rightarrow> bool"
  sensorSaida :: "nat \<Rightarrow> bool"
  botaoTicket :: "nat \<Rightarrow> bool"
  sensorRetiradaTicket :: "nat \<Rightarrow> bool"
  chaveManual :: "nat \<Rightarrow> bool"
  distanciaEntrada :: "nat \<Rightarrow> nat"
  distanciaSaida :: "nat \<Rightarrow> nat"
  wifiConectado :: "nat \<Rightarrow> bool"
  ntpAtualizou :: "nat \<Rightarrow> bool"
  ntpData :: "nat \<Rightarrow> string"
  ntpHora :: "nat \<Rightarrow> string"
  dataCompilacao :: string
  horaCompilacao :: string

definition millis :: "'a placa_scheme \<Rightarrow> u32" where
  "millis s = of_nat (agora s)"

definition delay :: "u32 \<Rightarrow> 'a placa_scheme \<Rightarrow> 'a placa_scheme" where
  "delay ms s = s\<lparr>agora := agora s + unat ms\<rparr>"

definition emitir :: "evento \<Rightarrow> 'a placa_scheme \<Rightarrow> 'a placa_scheme" where
  "emitir ev s = s\<lparr>eventos := eventos s @ [(agora s, ev)]\<rparr>"

definition println :: "string \<Rightarrow> 'a placa_scheme \<Rightarrow> 'a placa_scheme" where
  "println txt = emitir (Serial (Texto txt))"

text \<open>A block of statements, run in the order in which the source lists them.\<close>

definition executar :: "('s \<Rightarrow> 's) list \<Rightarrow> 's \<Rightarrow> 's" where
  "executar fs s = fold (\<lambda>f. f) fs s"

subsection \<open>Elapsed time on the 32-bit clock\<close>

lemma unat_mais:
  fixes x :: u32
  assumes "x \<le> lim" and "unat lim + unat d < 2 ^ 32"
  shows "unat (x + d) = unat x + unat d"
proof -
  have "unat x \<le> unat lim" using assms(1) by (simp add: word_le_nat_alt)
  then have "unat x + unat d < 2 ^ LENGTH(32)" using assms(2) by simp
  then show ?thesis by (simp only: unat_add_lem)
qed

lemma millis_delay: "millis (delay d s) = millis s + d"
  by (simp add: millis_def delay_def)

lemma decorrido_delay:
  assumes "\<not> millis s - t0 > lim" and "unat lim + unat d < 2 ^ 32"
  shows "unat (millis (delay d s) - t0) = unat (millis s - t0) + unat d"
proof -
  have eq: "millis (delay d s) - t0 = (millis s - t0) + d" by (simp add: millis_delay)
  have "millis s - t0 \<le> lim" using assms(1) by simp
  then show ?thesis unfolding eq by (rule unat_mais [OF _ assms(2)])
qed

text \<open>A polling loop that goes on only while the elapsed time is at most \<open>lim\<close>, and
  sleeps a positive time between polls, makes progress towards its deadline.\<close>

lemma laco_diminui:
  assumes "\<not> millis s - t0 > lim" and "unat lim + unat d < 2 ^ 32" and "0 < unat d"
    and "n = Suc (unat lim)" and "millis s' = millis s"
  shows "n - unat (millis (delay d s') - t0) < n - unat (millis s - t0)"
proof -
  have a: "\<not> millis s' - t0 > lim" using assms(1,5) by simp
  have "unat (millis s - t0) \<le> unat lim"
    using assms(1) by (simp add: word_le_nat_alt not_less)
  then show ?thesis
    using decorrido_delay [OF a assms(2)] assms(3,4,5) by simp
qed

lemma millis_emitir [simp]: "millis (emitir ev s) = millis s"
  by (simp add: millis_def emitir_def)

lemma millis_println [simp]: "millis (println txt s) = millis s"
  by (simp add: println_def)

section \<open>Revision V3 (V3/V3.ino)\<close>

definition SERVO_POSICAO_ABERTA :: nat where "SERVO_POSICAO_ABERTA = 500"
definition SERVO_POSICAO_FECHADA :: nat where "SERVO_POSICAO_FECHADA = 1495"

definition TIMEOUT_OPERACAO_V3 :: u32 where "TIMEOUT_OPERACAO_V3 = 30000"
definition DURACAO_IMPRESSAO_V3 :: u32 where "DURACAO_IMPRESSAO_V3 = 3000"
definition INTERVALO_MENSAGEM_STATUS_V3 :: u32 where "INTERVALO_MENSAGEM_STATUS_V3 = 5000"
definition DELAY_MOVIMENTO_CANCELA_V3 :: u32 where "DELAY_MOVIMENTO_CANCELA_V3 = 500"
definition DELAY_POS_SAIDA_V3 :: u32 where "DELAY_POS_SAIDA_V3 = 2000"
definition BEEP_AVISO_TIMEOUT_V3 :: nat where "BEEP_AVISO_TIMEOUT_V3 = 5"
definition DURACAO_BEEP_V3 :: u32 where "DURACAO_BEEP_V3 = 200"

record estado_V3 = placa +
  contadorVeiculos_V3 :: u32
  estadoCancelaAberta_V3 :: bool
  ultimaDataReset_V3 :: string
  ultimoTempoStatus_V3 :: u32
  eeprom_V3 :: u32

definition obterDataFormatada_V3 :: "ambiente \<Rightarrow> estado_V3 \<Rightarrow> string" where
  "obterDataFormatada_V3 e s =
     (if \<not> wifiConectado e (agora s) then dataCompilacao e else ntpData e (agora s))"

definition obterHoraFormatada_V3 :: "ambiente \<Rightarrow> estado_V3 \<Rightarrow> string" where
  "obterHoraFormatada_V3 e s =
     (if \<not> wifiConectado e (agora s) then horaCompilacao e else ntpHora e (agora s))"

definition atualizarRelogio_V3 :: "ambiente \<Rightarrow> estado_V3 \<Rightarrow> estado_V3" where
  "atualizarRelogio_V3 e s =
     (if ultimaDataReset_V3 s = [] then s\<lparr>ultimaDataReset_V3 := obterDataFormatada_V3 e s\<rparr>
      else s)"

definition fecharCancela_V3 :: "estado_V3 \<Rightarrow> estado_V3" where
  "fecharCancela_V3 = executar
     [emitir (LedAmarelo False),
      emitir (LedVerde False),
      emitir (LedVermelho True),
      emitir (Servo SERVO_POSICAO_FECHADA),
      (\<lambda>s. s\<lparr>estadoCancelaAberta_V3 := False\<rparr>),
      println ''[ACAO] Cancela Fechada.'',
      delay DELAY_MOVIMENTO_CANCELA_V3]"

definition beep_V3 :: "estado_V3 \<Rightarrow> estado_V3" where
  "beep_V3 = executar
     [emitir (Buzzer True),
      delay DURACAO_BEEP_V3,
      emitir (Buzzer False),
      delay (1000 - DURACAO_BEEP_V3)]"

definition emitirAvisoFechamento_V3 :: "estado_V3 \<Rightarrow> estado_V3" where
  "emitirAvisoFechamento_V3 = executar
     [println ''[ALERTA] A cancela sera fechada em 5 segundos!'',
      beep_V3 ^^ BEEP_AVISO_TIMEOUT_V3,
      fecharCancela_V3]"

definition simularImpressaoTicket_V3 :: "ambiente \<Rightarrow> estado_V3 \<Rightarrow> estado_V3" where
  "simularImpressaoTicket_V3 e = executar
     [println ''Imprimindo ticket...'',
      emitir (LedAmarelo True),
      delay (DURACAO_IMPRESSAO_V3 div 2),
      println ''| ==================== |'',
      println ''|   Ticket de Entrada'',
      (\<lambda>s. emitir (Serial (TicketData (obterDataFormatada_V3 e s))) s),
      (\<lambda>s. emitir (Serial (TicketHora (obterHoraFormatada_V3 e s))) s),
      (\<lambda>s. emitir (Serial (TicketNumero (contadorVeiculos_V3 s + 1))) s),
      println ''| ==================== |'',
      delay (DURACAO_IMPRESSAO_V3 div 2),
      emitir (LedAmarelo False),
      println ''Ticket impresso. Retire-o para liberar a passagem.'']"

definition abrirCancela_V3 :: "estado_V3 \<Rightarrow> estado_V3" where
  "abrirCancela_V3 = executar
     [println ''[ACAO] Abrindo a cancela...'',
      emitir (LedVermelho False),
      emitir (LedVerde True),
      emitir (Servo SERVO_POSICAO_ABERTA),
      (\<lambda>s. s\<lparr>estadoCancelaAberta_V3 := True\<rparr>),
      println ''[ACAO] Cancela Aberta. Prossiga.'',
      delay DELAY_MOVIMENTO_CANCELA_V3]"

text \<open>
  \<^verbatim>\<open>aguardarRetiradaTicket\<close> polls the ticket sensor with no deadline: it returns only if
  the sensor is ever read low, so the model is a partial function and \<open>None\<close> stands for
  a wait that never ends.
\<close>

partial_function (option) aguardarRetiradaTicket_laco ::
    "ambiente \<Rightarrow> u32 \<Rightarrow> estado_V3 \<Rightarrow> estado_V3 option" where
  "aguardarRetiradaTicket_laco e tempoMsg s =
     (if sensorRetiradaTicket e (agora s) then
        (if millis s - tempoMsg > INTERVALO_MENSAGEM_STATUS_V3
         then aguardarRetiradaTicket_laco e (millis s)
                (delay 10 (println ''[AGUARDANDO] Por favor, retire o ticket.'' s))
         else aguardarRetiradaTicket_laco e tempoMsg (delay 10 s))
      else Some (println ''[INFO] Ticket retirado.'' s))"

declare aguardarRetiradaTicket_laco.simps [code]

definition aguardarRetiradaTicket_V3 :: "ambiente \<Rightarrow> estado_V3 \<Rightarrow> estado_V3 option" where
  "aguardarRetiradaTicket_V3 e s = aguardarRetiradaTicket_laco e (millis s) s"

text \<open>
  The two supervised waits. Each is the \<^verbatim>\<open>while\<close> loop of the source with the local
  \<^verbatim>\<open>tempoInicio\<close> as a parameter; one call of the function is one poll (one tick).
  The result is the returned flag (\<open>True\<close>: the operation failed) and the new state.
\<close>

function monitorarPassagemEntrada_laco ::
    "ambiente \<Rightarrow> u32 \<Rightarrow> estado_V3 \<Rightarrow> bool \<times> estado_V3" where
  "monitorarPassagemEntrada_laco e tempoInicio s =
     (if sensorEntrada e (agora s) then
        (if millis s - tempoInicio > TIMEOUT_OPERACAO_V3
         then (True, emitirAvisoFechamento_V3 s)
         else monitorarPassagemEntrada_laco e tempoInicio (delay 10 s))
      else (False, println ''[INFO] Veiculo liberou o sensor de entrada.'' s))"
  by pat_completeness auto

termination
  by (relation "measure (\<lambda>(e, t0, s). 30001 - unat (millis s - t0))")
     (auto intro!: laco_diminui [where lim = 30000] simp: TIMEOUT_OPERACAO_V3_def)

declare monitorarPassagemEntrada_laco.simps [simp del]

definition monitorarPassagemEntrada_V3 :: "ambiente \<Rightarrow> estado_V3 \<Rightarrow> bool \<times> estado_V3" where
  "monitorarPassagemEntrada_V3 e s = monitorarPassagemEntrada_laco e (millis s) s"

function monitorarPassagemSaida_laco ::
    "ambiente \<Rightarrow> u32 \<Rightarrow> estado_V3 \<Rightarrow> bool \<times> estado_V3" where
  "monitorarPassagemSaida_laco e tempoInicio s =
     (if \<not> sensorSaida e (agora s) then
        (if sensorEntrada e (agora s)
         then (True, fecharCancela_V3
                 (println ''[ALERTA] Fraude detectada! Veiculo nao autorizado tentou entrar. Fechando cancela.'' s))
         else if millis s - tempoInicio > TIMEOUT_OPERACAO_V3
         then (True, emitirAvisoFechamento_V3 s)
         else monitorarPassagemSaida_laco e tempoInicio (delay 10 s))
      else (False, executar
              [println ''[INFO] Veiculo detectado no sensor de saida. Fechando em 2s.'',
               delay DELAY_POS_SAIDA_V3,
               fecharCancela_V3] s))"
  by pat_completeness auto
termination
  by (relation "measure (\<lambda>(e, t0, s). 30001 - unat (millis s - t0))")
     (auto intro!: laco_diminui [where lim = 30000] simp: TIMEOUT_OPERACAO_V3_def)

declare monitorarPassagemSaida_laco.simps [simp del]

definition monitorarPassagemSaida_V3 :: "ambiente \<Rightarrow> estado_V3 \<Rightarrow> bool \<times> estado_V3" where
  "monitorarPassagemSaida_V3 e s = monitorarPassagemSaida_laco e (millis s) s"

definition gerenciarStatusOcioso_V3 :: "ambiente \<Rightarrow> estado_V3 \<Rightarrow> estado_V3" where
  "gerenciarStatusOcioso_V3 e s =
     (if millis s - ultimoTempoStatus_V3 s > INTERVALO_MENSAGEM_STATUS_V3 then
        (let sensorEntradaLido = sensorEntrada e (agora s);
             botaoPressionado = botaoTicket e (agora s)
         in executar
              [if sensorEntradaLido \<and> \<not> botaoPressionado
               then println ''[STATUS] Veiculo posicionado. Aguardando acionamento do botao.''
               else if \<not> sensorEntradaLido \<and> botaoPressionado
               then println ''[STATUS] Botao acionado sem veiculo na entrada.''
               else println ''[STATUS] Sistema ocioso. Aguardando veiculo...'',
               (\<lambda>s. println (if estadoCancelaAberta_V3 s then ''(Status da Cancela: Aberta)''
                               else ''(Status da Cancela: Fechada)'') s),
               (\<lambda>s. s\<lparr>ultimoTempoStatus_V3 := millis s\<rparr>)] s)
      else s)"

definition verificarResetDiarioContador_V3 :: "ambiente \<Rightarrow> estado_V3 \<Rightarrow> estado_V3" where
  "verificarResetDiarioContador_V3 e s =
     (let dataAtual = obterDataFormatada_V3 e s
      in if dataAtual \<noteq> ultimaDataReset_V3 s \<and> ultimaDataReset_V3 s \<noteq> [] then
           executar
             [println ''[INFO] Novo dia detectado! Resetando contador de veiculos.'',
              (\<lambda>s. s\<lparr>contadorVeiculos_V3 := 0\<rparr>),
              (\<lambda>s. s\<lparr>eeprom_V3 := 0\<rparr>),
              (\<lambda>s. s\<lparr>ultimaDataReset_V3 := dataAtual\<rparr>)] s
         else s)"

text \<open>Lines 159--174 of \<^verbatim>\<open>loop()\<close>: the two supervised waits and the bookkeeping that
  follows them.\<close>

definition passagem_V3 :: "ambiente \<Rightarrow> estado_V3 \<Rightarrow> estado_V3" where
  "passagem_V3 e s =
     (case monitorarPassagemEntrada_V3 e s of (timeoutEntrada, s1) \<Rightarrow>
        if timeoutEntrada
        then println ''[AVISO] Operacao cancelada por timeout na entrada.'' s1
        else (case monitorarPassagemSaida_V3 e s1 of (timeoutSaida, s2) \<Rightarrow>
          if timeoutSaida
          then println ''[AVISO] Operacao cancelada por timeout na saida.'' s2
          else executar
                 [(\<lambda>s. s\<lparr>contadorVeiculos_V3 := contadorVeiculos_V3 s + 1\<rparr>),
                  (\<lambda>s. s\<lparr>eeprom_V3 := contadorVeiculos_V3 s\<rparr>),
                  (\<lambda>s. emitir (Serial (TotalVeiculos (contadorVeiculos_V3 s))) s),
                  println ''Sistema pronto para o proximo veiculo.''] s2))"

definition loop_V3 :: "ambiente \<Rightarrow> estado_V3 \<Rightarrow> estado_V3 option" where
  "loop_V3 e s0 =
     (let s = verificarResetDiarioContador_V3 e (atualizarRelogio_V3 e s0);
          sensorEntradaAtivado = sensorEntrada e (agora s);
          botaoTicketPressionado = botaoTicket e (agora s)
      in if sensorEntradaAtivado \<and> botaoTicketPressionado then
           (case aguardarRetiradaTicket_V3 e
                   (simularImpressaoTicket_V3 e
                      (println ''[INFO] Veiculo detectado e botao pressionado. Iniciando operacao.'' s))
            of None \<Rightarrow> None
             | Some s1 \<Rightarrow> Some (passagem_V3 e (abrirCancela_V3 s1)))
         else Some (gerenciarStatusOcioso_V3 e s))"

function conectarWiFi_laco :: "ambiente \<Rightarrow> u32 \<Rightarrow> estado_V3 \<Rightarrow> estado_V3" where
  "conectarWiFi_laco e inicioTentativa s =
     (if \<not> wifiConectado e (agora s) \<and> millis s - inicioTentativa < 15000
      then conectarWiFi_laco e inicioTentativa (delay 500 (println ''.'' s))
      else s)"
  by pat_completeness auto
termination
proof (relation "measure (\<lambda>(e, t0, s). 15000 - unat (millis s - t0))")
  fix e :: ambiente and inicioTentativa :: u32 and s :: estado_V3
  assume "\<not> wifiConectado e (agora s) \<and> millis s - inicioTentativa < 15000"
  then have a: "\<not> millis s - inicioTentativa > 14999"
    by (simp add: word_less_nat_alt not_less word_le_nat_alt)
  show "((e, inicioTentativa, delay 500 (println ''.'' s)), e, inicioTentativa, s)
      \<in> measure (\<lambda>(e, t0, s). 15000 - unat (millis s - t0))"
    using laco_diminui [OF a, of 500 15000 "println ''.'' s"] by simp
qed simp

declare conectarWiFi_laco.simps [simp del]

definition conectarWiFi_V3 :: "ambiente \<Rightarrow> estado_V3 \<Rightarrow> estado_V3" where
  "conectarWiFi_V3 e = executar
     [println ''Conectando ao Wi-Fi'',
      (\<lambda>s. conectarWiFi_laco e (millis s) s),
      (\<lambda>s. if wifiConectado e (agora s) then println ''WiFi conectado!'' s
            else println ''Falha ao conectar ao Wi-Fi. Usando tempo de compilacao.'' s)]"

text \<open>The globals as the program initialises them at power-on; the EEPROM keeps whatever
  an earlier run (or the factory) left there.\<close>

definition estadoInicial_V3 :: "u32 \<Rightarrow> estado_V3" where
  "estadoInicial_V3 gravado =
     \<lparr>agora = 0, eventos = [], contadorVeiculos_V3 = 0, estadoCancelaAberta_V3 = False,
      ultimaDataReset_V3 = [], ultimoTempoStatus_V3 = 0, eeprom_V3 = gravado\<rparr>"

definition setup_V3 :: "ambiente \<Rightarrow> estado_V3 \<Rightarrow> estado_V3" where
  "setup_V3 e = executar
     [conectarWiFi_V3 e,
      atualizarRelogio_V3 e,
      (\<lambda>s. s\<lparr>contadorVeiculos_V3 := eeprom_V3 s\<rparr>),
      fecharCancela_V3,
      println ''============================================='',
      println ''Sistema de Controle de Cancela Iniciado.'',
      println ''============================================='']"

text \<open>The states the running program can be in when \<^verbatim>\<open>loop()\<close> is entered.\<close>

inductive alcancavel_V3 :: "ambiente \<Rightarrow> estado_V3 \<Rightarrow> bool" for e :: ambiente where
  inicio: "alcancavel_V3 e (setup_V3 e (estadoInicial_V3 gravado))"
| passo: "alcancavel_V3 e s \<Longrightarrow> loop_V3 e s = Some s' \<Longrightarrow> alcancavel_V3 e s'"


section \<open>Revision V4 (V4/V4.ino)\<close>

definition DISTANCIA_PRESENCA_VEICULO_CM_V4 :: nat where "DISTANCIA_PRESENCA_VEICULO_CM_V4 = 5"
definition TIMEOUT_OPERACAO_V4 :: u32 where "TIMEOUT_OPERACAO_V4 = 30000"
definition DURACAO_EMISSAO_TICKET_V4 :: u32 where "DURACAO_EMISSAO_TICKET_V4 = 1500"
definition ATRASO_FECHAMENTO_V4 :: u32 where "ATRASO_FECHAMENTO_V4 = 2000"
definition DURACAO_MOV_CANCELA_V4 :: u32 where "DURACAO_MOV_CANCELA_V4 = 500"
definition INTERVALO_MSG_STATUS_V4 :: u32 where "INTERVALO_MSG_STATUS_V4 = 2000"
definition QTD_AVISOS_SONOROS_V4 :: nat where "QTD_AVISOS_SONOROS_V4 = 5"
definition DURACAO_BEEP_BUZZER_V4 :: u32 where "DURACAO_BEEP_BUZZER_V4 = 500"

record estado_V4 = placa +
  estadoCancelaAberta_V4 :: bool
  contadorVeiculosDia_V4 :: u32
  dataAtual_V4 :: string
  horaAtual_V4 :: string
  ultimaDataResetContador_V4 :: string
  ultimoTempoMsgStatus_V4 :: u32
  timeoutEntradaOcorrido_V4 :: bool
  timeoutSaidaOcorrido_V4 :: bool
  primeiraExecucao_V4 :: bool
  eeprom_V4 :: u32

text \<open>Without the network \<^verbatim>\<open>sincronizarDataHora\<close> parses \<^verbatim>\<open>__DATE__\<close> and \<^verbatim>\<open>__TIME__\<close> and
  prints them again with \<^verbatim>\<open>strftime\<close>; for V4 (and V2) the fields \<open>dataCompilacao\<close> and
  \<open>horaCompilacao\<close> of the environment stand for the strings so printed. The program only
  prints these strings and compares them for equality.\<close>

definition sincronizarDataHora_V4 :: "ambiente \<Rightarrow> estado_V4 \<Rightarrow> estado_V4" where
  "sincronizarDataHora_V4 e s =
     (let sucesso = (wifiConectado e (agora s) \<and> ntpAtualizou e (agora s));
          s1 = s\<lparr>dataAtual_V4 := (if sucesso then ntpData e (agora s) else dataCompilacao e),
                 horaAtual_V4 := (if sucesso then ntpHora e (agora s) else horaCompilacao e)\<rparr>
      in if primeiraExecucao_V4 s1
         then s1\<lparr>ultimaDataResetContador_V4 := dataAtual_V4 s1, primeiraExecucao_V4 := False\<rparr>
         else s1)"

definition fecharCancela_V4 :: "estado_V4 \<Rightarrow> estado_V4" where
  "fecharCancela_V4 = executar
     [emitir (LedAmarelo False),
      emitir (LedVerde False),
      emitir (LedVermelho True),
      emitir (Servo SERVO_POSICAO_FECHADA),
      (\<lambda>s. s\<lparr>estadoCancelaAberta_V4 := False\<rparr>),
      println ''-> Cancela fechada.'',
      delay DURACAO_MOV_CANCELA_V4]"

definition beep_V4 :: "estado_V4 \<Rightarrow> estado_V4" where
  "beep_V4 = executar
     [emitir (Buzzer True),
      delay (DURACAO_BEEP_BUZZER_V4 div 2),
      emitir (Buzzer False),
      delay (DURACAO_BEEP_BUZZER_V4 div 2)]"

definition emitirAvisoSonoroFechamento_V4 :: "estado_V4 \<Rightarrow> estado_V4" where
  "emitirAvisoSonoroFechamento_V4 = executar
     [println ''AVISO: A cancela fechara em 5 segundos!'',
      beep_V4 ^^ QTD_AVISOS_SONOROS_V4,
      fecharCancela_V4]"

definition abrirCancela_V4 :: "estado_V4 \<Rightarrow> estado_V4" where
  "abrirCancela_V4 = executar
     [println ''Abrindo cancela...'',
      emitir (LedAmarelo False),
      emitir (LedVermelho False),
      emitir (LedVerde True),
      emitir (Servo SERVO_POSICAO_ABERTA),
      (\<lambda>s. s\<lparr>estadoCancelaAberta_V4 := True\<rparr>),
      println ''-> Cancela aberta.'',
      delay DURACAO_MOV_CANCELA_V4]"

definition emitirTicket_V4 :: "ambiente \<Rightarrow> estado_V4 \<Rightarrow> estado_V4" where
  "emitirTicket_V4 e = executar
     [sincronizarDataHora_V4 e,
      println ''Emitindo ticket...'',
      emitir (LedAmarelo True),
      delay DURACAO_EMISSAO_TICKET_V4,
      (\<lambda>s. s\<lparr>contadorVeiculosDia_V4 := contadorVeiculosDia_V4 s + 1\<rparr>),
      println ''| ==================== |'',
      println ''|   TICKET DE ENTRADA  |'',
      (\<lambda>s. emitir (Serial (TicketData (dataAtual_V4 s))) s),
      (\<lambda>s. emitir (Serial (TicketHora (horaAtual_V4 s))) s),
      (\<lambda>s. emitir (Serial (TicketNumero (contadorVeiculosDia_V4 s))) s),
      println ''| ==================== |'',
      delay DURACAO_EMISSAO_TICKET_V4,
      emitir (LedAmarelo False),
      println ''-> Ticket emitido.'']"

text \<open>The waits of V4 return nothing: they leave their verdict in the two global flags.
  The parameters of the loop functions are the locals \<^verbatim>\<open>tempoInicioEspera\<close> and
  \<^verbatim>\<open>ultimoTempoMsg\<close>.\<close>

function gerenciarSegurancaEntrada_laco ::
    "ambiente \<Rightarrow> u32 \<Rightarrow> u32 \<Rightarrow> estado_V4 \<Rightarrow> estado_V4" where
  "gerenciarSegurancaEntrada_laco e tempoInicioEspera ultimoTempoMsg s =
     (if distanciaEntrada e (agora s) \<le> DISTANCIA_PRESENCA_VEICULO_CM_V4 then
        (if millis s - tempoInicioEspera > TIMEOUT_OPERACAO_V4
         then executar
                [println ''TIMEOUT: Veiculo demorou para avancar. Cancelando operacao.'',
                 emitirAvisoSonoroFechamento_V4,
                 (\<lambda>s. s\<lparr>timeoutEntradaOcorrido_V4 := True\<rparr>)] s
         else if millis s - ultimoTempoMsg > INTERVALO_MSG_STATUS_V4
         then gerenciarSegurancaEntrada_laco e tempoInicioEspera (millis s)
                (delay 10 (println ''Aguardando veiculo avancar...'' s))
         else gerenciarSegurancaEntrada_laco e tempoInicioEspera ultimoTempoMsg (delay 10 s))
      else println ''Veiculo liberou a area de entrada.'' s)"
  by pat_completeness auto
termination
  by (relation "measure (\<lambda>(e, t0, u, s). 30001 - unat (millis s - t0))")
     (auto intro!: laco_diminui [where lim = 30000]
           simp: TIMEOUT_OPERACAO_V4_def)

declare gerenciarSegurancaEntrada_laco.simps [simp del]

definition gerenciarSegurancaEntrada_V4 :: "ambiente \<Rightarrow> estado_V4 \<Rightarrow> estado_V4" where
  "gerenciarSegurancaEntrada_V4 e s0 =
     (let s = s0\<lparr>timeoutEntradaOcorrido_V4 := False\<rparr>
      in gerenciarSegurancaEntrada_laco e (millis s) 0 s)"

function gerenciarSegurancaSaida_laco ::
    "ambiente \<Rightarrow> u32 \<Rightarrow> u32 \<Rightarrow> estado_V4 \<Rightarrow> estado_V4" where
  "gerenciarSegurancaSaida_laco e tempoInicioEspera ultimoTempoMsg s =
     (if \<not> sensorSaida e (agora s) then
        (if millis s - tempoInicioEspera > TIMEOUT_OPERACAO_V4
         then executar
                [println ''TIMEOUT: Veiculo nao alcancou a saida. Cancelando operacao.'',
                 emitirAvisoSonoroFechamento_V4,
                 (\<lambda>s. s\<lparr>timeoutSaidaOcorrido_V4 := True\<rparr>)] s
         else if distanciaEntrada e (agora s) \<le> DISTANCIA_PRESENCA_VEICULO_CM_V4
         then executar
                [println ''ANTI-FRAUDE: Segundo veiculo detectado na entrada. Fechando imediatamente!'',
                 fecharCancela_V4,
                 (\<lambda>s. s\<lparr>timeoutSaidaOcorrido_V4 := True\<rparr>)] s
         else if millis s - ultimoTempoMsg > INTERVALO_MSG_STATUS_V4
         then gerenciarSegurancaSaida_laco e tempoInicioEspera (millis s)
                (delay 10 (println ''Aguardando veiculo passar pelo sensor de saida...'' s))
         else gerenciarSegurancaSaida_laco e tempoInicioEspera ultimoTempoMsg (delay 10 s))
      else executar
             [println ''Veiculo detectado na saida. Fechando a cancela em 2 segundos.'',
              delay ATRASO_FECHAMENTO_V4,
              fecharCancela_V4] s)"
  by pat_completeness auto
termination
  by (relation "measure (\<lambda>(e, t0, u, s). 30001 - unat (millis s - t0))")
     (auto intro!: laco_diminui [where lim = 30000]
           simp: TIMEOUT_OPERACAO_V4_def)

declare gerenciarSegurancaSaida_laco.simps [simp del]

definition gerenciarSegurancaSaida_V4 :: "ambiente \<Rightarrow> estado_V4 \<Rightarrow> estado_V4" where
  "gerenciarSegurancaSaida_V4 e s0 =
     (if timeoutEntradaOcorrido_V4 s0 then s0
      else (let s = s0\<lparr>timeoutSaidaOcorrido_V4 := False\<rparr>
            in gerenciarSegurancaSaida_laco e (millis s) 0 s))"




text \<open>Lines 344--351 of \<^verbatim>\<open>loop()\<close>: the daily reset of the counter.\<close>

definition resetDiario_V4 :: "estado_V4 \<Rightarrow> estado_V4" where
  "resetDiario_V4 s =
     (if dataAtual_V4 s \<noteq> ultimaDataResetContador_V4 s then
        executar
          [println ''Novo dia detectado! Resetando contador de veiculos.'',
           (\<lambda>s. s\<lparr>contadorVeiculosDia_V4 := 0\<rparr>),
           (\<lambda>s. s\<lparr>eeprom_V4 := 0\<rparr>),
           (\<lambda>s. s\<lparr>ultimaDataResetContador_V4 := dataAtual_V4 s\<rparr>)] s
      else s)"

text \<open>Lines 371--386 of \<^verbatim>\<open>loop()\<close>: what the caller does with the two flags once both
  waits have returned.\<close>

definition registrarResultado_V4 :: "estado_V4 \<Rightarrow> estado_V4" where
  "registrarResultado_V4 s =
     (let s1 = (if timeoutEntradaOcorrido_V4 s \<or> timeoutSaidaOcorrido_V4 s then
                  (let s2 = println ''Operacao cancelada por timeout. O veiculo nao sera registrado.'' s
                   in if contadorVeiculosDia_V4 s2 > 0
                      then s2\<lparr>contadorVeiculosDia_V4 := contadorVeiculosDia_V4 s2 - 1\<rparr>
                      else s2)
                else executar
                       [(\<lambda>s. s\<lparr>eeprom_V4 := contadorVeiculosDia_V4 s\<rparr>),
                        println ''Veiculo registrado com sucesso.'',
                        println ''Sistema pronto para o proximo veiculo.''] s)
      in s1\<lparr>timeoutEntradaOcorrido_V4 := False, timeoutSaidaOcorrido_V4 := False\<rparr>)"

text \<open>Lines 363--387 of \<^verbatim>\<open>loop()\<close>: one admitted vehicle, from the ticket to the
  bookkeeping. \<open>aposEsperas_V4\<close> is the state in which the two waits leave the program,
  just before line 371.\<close>

definition aposEsperas_V4 :: "ambiente \<Rightarrow> estado_V4 \<Rightarrow> estado_V4" where
  "aposEsperas_V4 e = executar
     [println ''Veiculo na posicao e botao pressionado. Iniciando processo de entrada.'',
      emitirTicket_V4 e,
      abrirCancela_V4,
      gerenciarSegurancaEntrada_V4 e,
      gerenciarSegurancaSaida_V4 e]"

definition entradaVeiculo_V4 :: "ambiente \<Rightarrow> estado_V4 \<Rightarrow> estado_V4" where
  "entradaVeiculo_V4 e = executar
     [println ''Veiculo na posicao e botao pressionado. Iniciando processo de entrada.'',
      emitirTicket_V4 e,
      abrirCancela_V4,
      gerenciarSegurancaEntrada_V4 e,
      gerenciarSegurancaSaida_V4 e,
      registrarResultado_V4]"








section \<open>Revision V2 (V2.ino)\<close>

definition TIMEOUT_OPERACAO_V2 :: u32 where "TIMEOUT_OPERACAO_V2 = 30000"
definition DURACAO_IMPRESSAO_V2 :: u32 where "DURACAO_IMPRESSAO_V2 = 3000"
definition ESPERA_PARA_FECHAR_V2 :: u32 where "ESPERA_PARA_FECHAR_V2 = 2000"
definition TEMPO_MOVIMENTO_CANCELA_V2 :: u32 where "TEMPO_MOVIMENTO_CANCELA_V2 = 500"
definition INTERVALO_MSG_STATUS_V2 :: u32 where "INTERVALO_MSG_STATUS_V2 = 5000"
definition REPETICOES_AVISO_BUZZER_V2 :: nat where "REPETICOES_AVISO_BUZZER_V2 = 5"
definition DURACAO_BIP_BUZZER_V2 :: u32 where "DURACAO_BIP_BUZZER_V2 = 500"

record estado_V2 = placa +
  dataAtualFormatada_V2 :: string
  horaAtualFormatada_V2 :: string
  ultimaDataResetContador_V2 :: string
  primeiraExecucao_V2 :: bool
  contadorVeiculos_V2 :: u32
  estadoCancelaAberta_V2 :: bool
  timestampUltimaMsg_V2 :: u32
  eeprom_V2 :: u32

definition sincronizarRelogio_V2 :: "ambiente \<Rightarrow> estado_V2 \<Rightarrow> estado_V2" where
  "sincronizarRelogio_V2 e s =
     (let sucessoNtp = (wifiConectado e (agora s) \<and> ntpAtualizou e (agora s));
          s1 = s\<lparr>dataAtualFormatada_V2 :=
                    (if sucessoNtp then ntpData e (agora s) else dataCompilacao e),
                 horaAtualFormatada_V2 :=
                    (if sucessoNtp then ntpHora e (agora s) else horaCompilacao e)\<rparr>
      in if primeiraExecucao_V2 s1
         then s1\<lparr>ultimaDataResetContador_V2 := dataAtualFormatada_V2 s1,
                 primeiraExecucao_V2 := False\<rparr>
         else s1)"

definition fecharCancela_V2 :: "estado_V2 \<Rightarrow> estado_V2" where
  "fecharCancela_V2 = executar
     [emitir (LedAmarelo False),
      emitir (LedVerde False),
      emitir (LedVermelho True),
      println ''-> Cancela fechada.'',
      delay TEMPO_MOVIMENTO_CANCELA_V2,
      (\<lambda>s. s\<lparr>estadoCancelaAberta_V2 := False\<rparr>)]"

definition bip_V2 :: "estado_V2 \<Rightarrow> estado_V2" where
  "bip_V2 = executar
     [emitir (Buzzer True),
      delay DURACAO_BIP_BUZZER_V2,
      emitir (Buzzer False),
      delay DURACAO_BIP_BUZZER_V2]"

definition acionarAvisoSonoroFechamento_V2 :: "estado_V2 \<Rightarrow> estado_V2" where
  "acionarAvisoSonoroFechamento_V2 = executar
     [println ''AVISO: A cancela sera fechada em 5 segundos!'',
      bip_V2 ^^ REPETICOES_AVISO_BUZZER_V2,
      fecharCancela_V2]"

definition emitirTicket_V2 :: "ambiente \<Rightarrow> estado_V2 \<Rightarrow> estado_V2" where
  "emitirTicket_V2 e = executar
     [sincronizarRelogio_V2 e,
      println ''Imprimindo ticket...'',
      emitir (LedAmarelo True),
      println ''| ==================== |'',
      println ''|   Ticket de Entrada    |'',
      (\<lambda>s. emitir (Serial (TicketData (dataAtualFormatada_V2 s))) s),
      (\<lambda>s. emitir (Serial (TicketHora (horaAtualFormatada_V2 s))) s),
      (\<lambda>s. emitir (Serial (TicketNumero (contadorVeiculos_V2 s + 1))) s),
      println ''| ==================== |'',
      delay DURACAO_IMPRESSAO_V2,
      emitir (LedAmarelo False),
      println ''-> Ticket impresso. Retire o ticket e avance.'']"

definition abrirCancela_V2 :: "estado_V2 \<Rightarrow> estado_V2" where
  "abrirCancela_V2 = executar
     [println ''-> Abrindo a cancela...'',
      emitir (LedVermelho False),
      emitir (LedVerde True),
      delay TEMPO_MOVIMENTO_CANCELA_V2,
      println ''-> Cancela aberta.'',
      (\<lambda>s. s\<lparr>estadoCancelaAberta_V2 := True\<rparr>)]"

definition salvarContador_V2 :: "estado_V2 \<Rightarrow> estado_V2" where
  "salvarContador_V2 s = s\<lparr>eeprom_V2 := contadorVeiculos_V2 s\<rparr>"

text \<open>The \<^verbatim>\<open>while (estadoCancelaAberta)\<close> loop of \<^verbatim>\<open>loop()\<close>, lines 252--287. Its
  parameters are the locals \<^verbatim>\<open>timestampInicioPassagem\<close> and \<^verbatim>\<open>passouPelaEntrada\<close>; the
  flag it returns is the local \<^verbatim>\<open>operacaoCancelada\<close>.\<close>

function gerenciarPassagem_laco_V2 ::
    "ambiente \<Rightarrow> u32 \<Rightarrow> bool \<Rightarrow> estado_V2 \<Rightarrow> bool \<times> estado_V2" where
  "gerenciarPassagem_laco_V2 e timestampInicioPassagem passouPelaEntrada s =
     (if estadoCancelaAberta_V2 s then
        (if millis s - timestampInicioPassagem > TIMEOUT_OPERACAO_V2
         then (True, acionarAvisoSonoroFechamento_V2
                 (println ''ERRO: Timeout! O veiculo demorou demais para passar.'' s))
         else if passouPelaEntrada then
           (if sensorEntrada e (agora s)
            then (True, fecharCancela_V2
                    (println ''ALERTA: Tentativa de fraude detectada! Fechando a cancela.'' s))
            else if sensorSaida e (agora s)
            then (False, executar
                    [println ''Veiculo passando pelo sensor de saida.'',
                     delay ESPERA_PARA_FECHAR_V2,
                     fecharCancela_V2] s)
            else gerenciarPassagem_laco_V2 e timestampInicioPassagem True (delay 50 s))
         else if \<not> sensorEntrada e (agora s)
         then gerenciarPassagem_laco_V2 e timestampInicioPassagem True
                (delay 50 (println ''Veiculo liberou o sensor de entrada. Aguardando saida...'' s))
         else gerenciarPassagem_laco_V2 e timestampInicioPassagem False (delay 50 s))
      else (False, s))"
  by pat_completeness auto
termination
  by (relation "measure (\<lambda>(e, t0, p, s). 30001 - unat (millis s - t0))")
     (auto intro!: laco_diminui [where lim = 30000] simp: TIMEOUT_OPERACAO_V2_def)

declare gerenciarPassagem_laco_V2.simps [simp del]

definition resetDiario_V2 :: "estado_V2 \<Rightarrow> estado_V2" where
  "resetDiario_V2 s =
     (if dataAtualFormatada_V2 s \<noteq> ultimaDataResetContador_V2 s then
        executar
          [println ''--- DETECTADA MUDANCA DE DIA ---'',
           println ''Resetando contador de veiculos para o novo dia.'',
           (\<lambda>s. s\<lparr>contadorVeiculos_V2 := 0\<rparr>),
           salvarContador_V2,
           (\<lambda>s. s\<lparr>ultimaDataResetContador_V2 := dataAtualFormatada_V2 s\<rparr>),
           println ''Contador zerado. Sistema pronto.''] s
      else s)"

text \<open>Lines 244--298 of \<^verbatim>\<open>loop()\<close>: one admitted vehicle.\<close>

definition entradaVeiculo_V2 :: "ambiente \<Rightarrow> estado_V2 \<Rightarrow> estado_V2" where
  "entradaVeiculo_V2 e s0 =
     (let s = abrirCancela_V2 (emitirTicket_V2 e s0)
      in case gerenciarPassagem_laco_V2 e (millis s) False s of (operacaoCancelada, s1) \<Rightarrow>
           if \<not> operacaoCancelada
           then executar
                  [(\<lambda>s. s\<lparr>contadorVeiculos_V2 := contadorVeiculos_V2 s + 1\<rparr>),
                   salvarContador_V2,
                   (\<lambda>s. emitir (Serial (TotalVeiculos (contadorVeiculos_V2 s))) s),
                   println ''Sistema pronto para o proximo veiculo.''] s1
           else executar
                  [println ''Operacao cancelada. O contador de veiculos nao foi incrementado.'',
                   println ''Sistema pronto para o proximo veiculo.''] s1)"

definition loop_V2 :: "ambiente \<Rightarrow> estado_V2 \<Rightarrow> estado_V2" where
  "loop_V2 e s0 =
     (let s = resetDiario_V2 (sincronizarRelogio_V2 e s0);
          sensorEntradaAtivado = sensorEntrada e (agora s);
          botaoPressionado = botaoTicket e (agora s)
      in if sensorEntradaAtivado \<and> botaoPressionado \<and> \<not> estadoCancelaAberta_V2 s
         then entradaVeiculo_V2 e s
         else if \<not> estadoCancelaAberta_V2 s
                 \<and> millis s - timestampUltimaMsg_V2 s > INTERVALO_MSG_STATUS_V2
         then executar
                [if sensorEntradaAtivado \<and> \<not> botaoPressionado
                 then println ''Status: Veiculo posicionado. Aguardando acionamento do botao.''
                 else if \<not> sensorEntradaAtivado \<and> botaoPressionado
                 then println ''Status: Botao acionado sem veiculo na posicao.''
                 else println ''Status: Sistema ocioso, aguardando veiculo.'',
                 (\<lambda>s. s\<lparr>timestampUltimaMsg_V2 := millis s\<rparr>)] s
         else s)"

section \<open>Revision V1 (V1.ino): the entry wait\<close>

definition ATRASO_OPERACAO_CANCELA_MS_V1 :: u32 where "ATRASO_OPERACAO_CANCELA_MS_V1 = 500"
definition TIMEOUT_ENTRADA_MS_V1 :: u32 where "TIMEOUT_ENTRADA_MS_V1 = 30000"
definition DURACAO_ALERTA_SEGUNDOS_V1 :: nat where "DURACAO_ALERTA_SEGUNDOS_V1 = 5"
definition INTERVALO_BEEP_BUZZER_MS_V1 :: u32 where "INTERVALO_BEEP_BUZZER_MS_V1 = 500"

record estado_V1 = placa +
  contagemVeiculos_V1 :: u32
  ultimoResetContador_V1 :: u32
  ultimoUpdateStatus_V1 :: u32
  cancelaAberta_V1 :: bool

definition fecharCancela_V1 :: "estado_V1 \<Rightarrow> estado_V1" where
  "fecharCancela_V1 = executar
     [emitir (LedAmarelo False),
      emitir (LedVerde False),
      emitir (LedVermelho True),
      (\<lambda>s. s\<lparr>cancelaAberta_V1 := False\<rparr>),
      println ''STATUS: Cancela fechada.'',
      delay ATRASO_OPERACAO_CANCELA_MS_V1]"

definition beep_V1 :: "estado_V1 \<Rightarrow> estado_V1" where
  "beep_V1 = executar
     [emitir (Buzzer True),
      delay (INTERVALO_BEEP_BUZZER_MS_V1 div 2),
      emitir (Buzzer False),
      delay (INTERVALO_BEEP_BUZZER_MS_V1 div 2)]"

definition acionarAlertaEFechar_V1 :: "estado_V1 \<Rightarrow> estado_V1" where
  "acionarAlertaEFechar_V1 = executar
     [println ''ALERTA: A cancela sera fechada em 5 segundos.'',
      beep_V1 ^^ DURACAO_ALERTA_SEGUNDOS_V1,
      fecharCancela_V1]"

text \<open>\<^verbatim>\<open>gerenciarEntradaVeiculo\<close> of V1 returns \<open>True\<close> when the vehicle cleared the entry
  sensor and \<open>False\<close> on a timeout; its comparison is \<^verbatim>\<open>>=\<close> and it polls every 50 ms.\<close>

function gerenciarEntradaVeiculo_laco ::
    "ambiente \<Rightarrow> u32 \<Rightarrow> estado_V1 \<Rightarrow> bool \<times> estado_V1" where
  "gerenciarEntradaVeiculo_laco e tempoInicioEntrada s =
     (if sensorEntrada e (agora s) then
        (if millis s - tempoInicioEntrada \<ge> TIMEOUT_ENTRADA_MS_V1
         then (False, acionarAlertaEFechar_V1
                 (println ''ERRO: Timeout na entrada. Cancelando operacao.'' s))
         else gerenciarEntradaVeiculo_laco e tempoInicioEntrada (delay 50 s))
      else (True, println ''INFO: Veiculo liberou o sensor de entrada.'' s))"
  by pat_completeness auto
termination
proof (relation "measure (\<lambda>(e, t0, s). 30000 - unat (millis s - t0))")
  fix e :: ambiente and tempoInicioEntrada :: u32 and s :: estado_V1
  assume "\<not> TIMEOUT_ENTRADA_MS_V1 \<le> millis s - tempoInicioEntrada"
  then have a: "\<not> millis s - tempoInicioEntrada > 29999"
    by (simp add: TIMEOUT_ENTRADA_MS_V1_def word_less_nat_alt not_less word_le_nat_alt)
  show "((e, tempoInicioEntrada, delay 50 s), e, tempoInicioEntrada, s)
      \<in> measure (\<lambda>(e, t0, s). 30000 - unat (millis s - t0))"
    using laco_diminui [OF a, of 50 30000 s] by simp
qed simp

declare gerenciarEntradaVeiculo_laco.simps [simp del]

definition gerenciarEntradaVeiculo_V1 :: "ambiente \<Rightarrow> estado_V1 \<Rightarrow> bool \<times> estado_V1" where
  "gerenciarEntradaVeiculo_V1 e s =
     gerenciarEntradaVeiculo_laco e (millis s)
       (println ''INFO: Aguardando veiculo passar pelo sensor de entrada...'' s)"

section \<open>Revision V5 (sistema\_cancela\_estacionamento.ino)\<close>

definition DISTANCIA_DETECCAO_CM_V5 :: nat where "DISTANCIA_DETECCAO_CM_V5 = 50"
definition INTERVALO_RESET_CONTADOR_V5 :: u32 where
  "INTERVALO_RESET_CONTADOR_V5 = 24 * 60 * 60 * 1000"
definition TIMEOUT_PASSAGEM_VEICULO_V5 :: u32 where "TIMEOUT_PASSAGEM_VEICULO_V5 = 30000"
definition DURACAO_SIMULACAO_IMPRESSAO_V5 :: u32 where "DURACAO_SIMULACAO_IMPRESSAO_V5 = 3000"
definition ATRASO_FECHAMENTO_APOS_SAIDA_V5 :: u32 where "ATRASO_FECHAMENTO_APOS_SAIDA_V5 = 2000"
definition INTERVALO_MENSAGEM_STATUS_V5 :: u32 where "INTERVALO_MENSAGEM_STATUS_V5 = 5000"
definition DURACAO_AVISO_SONORO_S_V5 :: nat where "DURACAO_AVISO_SONORO_S_V5 = 5"
definition PERIODO_PISCA_BUZZER_MS_V5 :: u32 where "PERIODO_PISCA_BUZZER_MS_V5 = 500"

record estado_V5 = placa +
  cancelaAberta_V5 :: bool
  contadorVeiculos_V5 :: u32
  tempoUltimoResetContador_V5 :: u32
  tempoUltimaMensagemStatus_V5 :: u32

definition fecharCancela_V5 :: "estado_V5 \<Rightarrow> estado_V5" where
  "fecharCancela_V5 = executar
     [emitir (LedAmarelo False),
      emitir (LedVerde False),
      emitir (LedVermelho True),
      emitir (Servo SERVO_POSICAO_FECHADA),
      (\<lambda>s. s\<lparr>cancelaAberta_V5 := False\<rparr>),
      println ''-> Cancela fechada.'']"

definition abrirCancela_V5 :: "estado_V5 \<Rightarrow> estado_V5" where
  "abrirCancela_V5 = executar
     [println ''Abrindo cancela...'',
      emitir (LedAmarelo False),
      emitir (LedVermelho False),
      emitir (LedVerde True),
      emitir (Servo SERVO_POSICAO_ABERTA),
      (\<lambda>s. s\<lparr>cancelaAberta_V5 := True\<rparr>),
      println ''-> Cancela aberta.'']"

definition pisca_V5 :: "estado_V5 \<Rightarrow> estado_V5" where
  "pisca_V5 = executar
     [emitir (Buzzer True),
      delay (PERIODO_PISCA_BUZZER_MS_V5 div 2),
      emitir (Buzzer False),
      delay (PERIODO_PISCA_BUZZER_MS_V5 div 2)]"

definition emitirAvisoSonoroEFechar_V5 :: "estado_V5 \<Rightarrow> estado_V5" where
  "emitirAvisoSonoroEFechar_V5 = executar
     [println ''AVISO: A cancela fechara em 5 segundos.'',
      pisca_V5 ^^ (DURACAO_AVISO_SONORO_S_V5 * 2),
      fecharCancela_V5]"

definition simularImpressaoTicket_V5 :: "ambiente \<Rightarrow> estado_V5 \<Rightarrow> estado_V5" where
  "simularImpressaoTicket_V5 e s0 =
     (let dataAtual = ntpData e (agora s0); horaAtual = ntpHora e (agora s0)
      in executar
           [println ''Imprimindo ticket...'',
            emitir (LedAmarelo True),
            delay (DURACAO_SIMULACAO_IMPRESSAO_V5 div 2),
            println ''| ==================== |'',
            println ''|  Ticket de Entrada   |'',
            emitir (Serial (TicketData dataAtual)),
            emitir (Serial (TicketHora horaAtual)),
            (\<lambda>s. emitir (Serial (TicketNumero (contadorVeiculos_V5 s + 1))) s),
            println ''| ==================== |'',
            delay (DURACAO_SIMULACAO_IMPRESSAO_V5 div 2),
            emitir (LedAmarelo False),
            println ''Ticket impresso. Retire o ticket e avance.''] s0)"

text \<open>In V5 both waits return \<open>True\<close> for a completed passage and \<open>False\<close> for a failure.\<close>

function monitorarPassagemEntrada_laco_V5 ::
    "ambiente \<Rightarrow> u32 \<Rightarrow> estado_V5 \<Rightarrow> bool \<times> estado_V5" where
  "monitorarPassagemEntrada_laco_V5 e tempoInicio s =
     (if distanciaEntrada e (agora s) \<le> DISTANCIA_DETECCAO_CM_V5 then
        (if millis s - tempoInicio > TIMEOUT_PASSAGEM_VEICULO_V5
         then (False, emitirAvisoSonoroEFechar_V5
                 (println ''ERRO: Tempo limite de passagem na entrada excedido!'' s))
         else monitorarPassagemEntrada_laco_V5 e tempoInicio (delay 100 s))
      else (True, println ''Veiculo liberou o sensor de entrada.'' s))"
  by pat_completeness auto
termination
  by (relation "measure (\<lambda>(e, t0, s). 30001 - unat (millis s - t0))")
     (auto intro!: laco_diminui [where lim = 30000] simp: TIMEOUT_PASSAGEM_VEICULO_V5_def)

declare monitorarPassagemEntrada_laco_V5.simps [simp del]

definition monitorarPassagemEntrada_V5 :: "ambiente \<Rightarrow> estado_V5 \<Rightarrow> bool \<times> estado_V5" where
  "monitorarPassagemEntrada_V5 e s0 =
     (let s = println ''Aguardando veiculo passar pelo sensor de entrada...'' s0
      in monitorarPassagemEntrada_laco_V5 e (millis s) s)"

function monitorarSaidaEAntifraude_laco ::
    "ambiente \<Rightarrow> u32 \<Rightarrow> estado_V5 \<Rightarrow> bool \<times> estado_V5" where
  "monitorarSaidaEAntifraude_laco e tempoInicio s =
     (if distanciaSaida e (agora s) > DISTANCIA_DETECCAO_CM_V5 then
        (if distanciaEntrada e (agora s) \<le> DISTANCIA_DETECCAO_CM_V5
         then (False, fecharCancela_V5
                 (println ''ALERTA: Segundo veiculo detectado na entrada! Fechando cancela imediatamente.'' s))
         else if millis s - tempoInicio > TIMEOUT_PASSAGEM_VEICULO_V5
         then (False, emitirAvisoSonoroEFechar_V5
                 (println ''ERRO: Tempo limite de passagem na saida excedido!'' s))
         else monitorarSaidaEAntifraude_laco e tempoInicio (delay 100 s))
      else (True, executar
              [println ''Veiculo detectado no sensor de saida. Passagem completa.'',
               delay ATRASO_FECHAMENTO_APOS_SAIDA_V5,
               fecharCancela_V5] s))"
  by pat_completeness auto
termination
  by (relation "measure (\<lambda>(e, t0, s). 30001 - unat (millis s - t0))")
     (auto intro!: laco_diminui [where lim = 30000] simp: TIMEOUT_PASSAGEM_VEICULO_V5_def)

declare monitorarSaidaEAntifraude_laco.simps [simp del]

definition monitorarSaidaEAntifraude_V5 :: "ambiente \<Rightarrow> estado_V5 \<Rightarrow> bool \<times> estado_V5" where
  "monitorarSaidaEAntifraude_V5 e s0 =
     (let s = println ''Aguardando veiculo passar pelo sensor de saida...'' s0
      in monitorarSaidaEAntifraude_laco e (millis s) s)"

definition iniciarProcessoEntradaVeiculo_V5 :: "ambiente \<Rightarrow> estado_V5 \<Rightarrow> estado_V5" where
  "iniciarProcessoEntradaVeiculo_V5 e s0 =
     (let s = executar
                [println ''--- INICIO DO PROCESSO DE ENTRADA ---'',
                 println ''Botao pressionado por veiculo na entrada.'',
                 simularImpressaoTicket_V5 e,
                 abrirCancela_V5] s0;
          s3 = (case monitorarPassagemEntrada_V5 e s of (passouEntrada, s1) \<Rightarrow>
                  if passouEntrada then
                    (case monitorarSaidaEAntifraude_V5 e s1 of (passouSaida, s2) \<Rightarrow>
                       if passouSaida
                       then executar
                              [(\<lambda>s. s\<lparr>contadorVeiculos_V5 := contadorVeiculos_V5 s + 1\<rparr>),
                               println ''Processo concluido com sucesso. Veiculo registrado.'',
                               (\<lambda>s. emitir (Serial (TotalVeiculos (contadorVeiculos_V5 s))) s)] s2
                       else println ''Falha no processo (anti-fraude ou timeout na saida). Veiculo nao foi registrado.'' s2)
                  else println ''Falha no processo (timeout na entrada). Veiculo nao foi registrado.'' s1)
      in println ''Sistema pronto para o proximo veiculo.'' s3)"

partial_function (option) operarModoManual_laco ::
    "ambiente \<Rightarrow> u32 \<Rightarrow> estado_V5 \<Rightarrow> estado_V5 option" where
  "operarModoManual_laco e tempoMsgManual s =
     (if chaveManual e (agora s) then
        (if millis s - tempoMsgManual > INTERVALO_MENSAGEM_STATUS_V5
         then operarModoManual_laco e (millis s)
                (delay 100 (println ''A cancela esta em modo de operacao manual.'' s))
         else operarModoManual_laco e tempoMsgManual (delay 100 s))
      else Some (fecharCancela_V5 (println ''--- MODO MANUAL DESATIVADO ---'' s)))"

declare operarModoManual_laco.simps [code]

definition operarModoManual_V5 :: "ambiente \<Rightarrow> estado_V5 \<Rightarrow> estado_V5 option" where
  "operarModoManual_V5 e s0 =
     (let s = abrirCancela_V5 (println ''--- MODO MANUAL ATIVADO ---'' s0)
      in operarModoManual_laco e (millis s) s)"

definition exibirStatusPeriodico_V5 :: "bool \<Rightarrow> bool \<Rightarrow> estado_V5 \<Rightarrow> estado_V5" where
  "exibirStatusPeriodico_V5 veiculoPresente botaoPressionado s =
     (if millis s - tempoUltimaMensagemStatus_V5 s > INTERVALO_MENSAGEM_STATUS_V5 then
        executar
          [if veiculoPresente \<and> \<not> botaoPressionado
           then println ''Status: Veiculo posicionado, aguardando acionamento do botao.''
           else if \<not> veiculoPresente \<and> \<not> botaoPressionado
           then println ''Status: Sistema ocioso, aguardando veiculo.''
           else if \<not> veiculoPresente \<and> botaoPressionado
           then println ''Status: Botao acionado sem veiculo na posicao.''
           else (\<lambda>s. s),
           (\<lambda>s. s\<lparr>tempoUltimaMensagemStatus_V5 := millis s\<rparr>)] s
      else s)"

definition loop_V5 :: "ambiente \<Rightarrow> estado_V5 \<Rightarrow> estado_V5 option" where
  "loop_V5 e s0 =
     (if chaveManual e (agora s0) then operarModoManual_V5 e s0
      else (let s = (if millis s0 - tempoUltimoResetContador_V5 s0 \<ge> INTERVALO_RESET_CONTADOR_V5
                     then println ''INFO: Contador de veiculos foi reiniciado (ciclo de 24h).''
                            (s0\<lparr>contadorVeiculos_V5 := 0,
                                tempoUltimoResetContador_V5 := millis s0\<rparr>)
                     else s0);
                veiculoPresenteNaEntrada =
                  (distanciaEntrada e (agora s) \<le> DISTANCIA_DETECCAO_CM_V5);
                botaoPressionado = botaoTicket e (agora s)
            in if veiculoPresenteNaEntrada \<and> botaoPressionado \<and> \<not> cancelaAberta_V5 s
               then Some (iniciarProcessoEntradaVeiculo_V5 e s)
               else Some (exibirStatusPeriodico_V5 veiculoPresenteNaEntrada botaoPressionado s)))"

section \<open>Reading the log\<close>

text \<open>The positions the servo was commanded to, and the numbers printed on tickets, in
  the order in which the program wrote them.\<close>

fun comandosNoLog :: "(nat \<times> evento) list \<Rightarrow> nat list" where
  "comandosNoLog [] = []"
| "comandosNoLog ((t, Servo p) # evs) = p # comandosNoLog evs"
| "comandosNoLog (ev # evs) = comandosNoLog evs"

definition comandosServo :: "'a placa_scheme \<Rightarrow> nat list" where
  "comandosServo s = comandosNoLog (eventos s)"

fun ticketsNoLog :: "(nat \<times> evento) list \<Rightarrow> u32 list" where
  "ticketsNoLog [] = []"
| "ticketsNoLog ((t, Serial (TicketNumero n)) # evs) = n # ticketsNoLog evs"
| "ticketsNoLog (ev # evs) = ticketsNoLog evs"

definition ticketsEmitidos :: "'a placa_scheme \<Rightarrow> u32 list" where
  "ticketsEmitidos s = ticketsNoLog (eventos s)"

section \<open>Test inputs\<close>

text \<open>An environment given by the two presence signals; the ultrasonic distances follow
  them (3 cm when a vehicle is there, 100 cm otherwise), the button is held during the
  first 100 ms, the ticket is taken at once, the lever is off and there is no network.\<close>

definition ambiente_teste :: "(nat \<Rightarrow> bool) \<Rightarrow> (nat \<Rightarrow> bool) \<Rightarrow> ambiente" where
  "ambiente_teste entrada saida =
     \<lparr>sensorEntrada = entrada, sensorSaida = saida, botaoTicket = (\<lambda>t. t < 100),
      sensorRetiradaTicket = (\<lambda>t. False), chaveManual = (\<lambda>t. False),
      distanciaEntrada = (\<lambda>t. if entrada t then 3 else 100),
      distanciaSaida = (\<lambda>t. if saida t then 3 else 100),
      wifiConectado = (\<lambda>t. False), ntpAtualizou = (\<lambda>t. False),
      ntpData = (\<lambda>t. []), ntpHora = (\<lambda>t. []),
      dataCompilacao = ''Jul 10 2025'', horaCompilacao = ''12:00:00''\<rparr>"

definition estado_teste_V3 :: "nat \<Rightarrow> u32 \<Rightarrow> bool \<Rightarrow> estado_V3" where
  "estado_teste_V3 t n aberta =
     \<lparr>agora = t, eventos = [], contadorVeiculos_V3 = n, estadoCancelaAberta_V3 = aberta,
      ultimaDataReset_V3 = ''Jul 10 2025'', ultimoTempoStatus_V3 = 0, eeprom_V3 = n\<rparr>"

definition estado_teste_V4 :: "nat \<Rightarrow> u32 \<Rightarrow> bool \<Rightarrow> estado_V4" where
  "estado_teste_V4 t n aberta =
     \<lparr>agora = t, eventos = [], estadoCancelaAberta_V4 = aberta, contadorVeiculosDia_V4 = n,
      dataAtual_V4 = ''Jul 10 2025'', horaAtual_V4 = ''12:00:00'',
      ultimaDataResetContador_V4 = ''Jul 10 2025'', ultimoTempoMsgStatus_V4 = 0,
      timeoutEntradaOcorrido_V4 = False, timeoutSaidaOcorrido_V4 = False,
      primeiraExecucao_V4 = False, eeprom_V4 = n\<rparr>"

definition estado_teste_V2 :: "nat \<Rightarrow> u32 \<Rightarrow> bool \<Rightarrow> estado_V2" where
  "estado_teste_V2 t n aberta =
     \<lparr>agora = t, eventos = [], dataAtualFormatada_V2 = ''Jul 10 2025'',
      horaAtualFormatada_V2 = ''12:00:00'', ultimaDataResetContador_V2 = ''Jul 10 2025'',
      primeiraExecucao_V2 = False, contadorVeiculos_V2 = n, estadoCancelaAberta_V2 = aberta,
      timestampUltimaMsg_V2 = 0, eeprom_V2 = n\<rparr>"

definition estado_teste_V5 :: "nat \<Rightarrow> u32 \<Rightarrow> bool \<Rightarrow> estado_V5" where
  "estado_teste_V5 t n aberta =
     \<lparr>agora = t, eventos = [], cancelaAberta_V5 = aberta, contadorVeiculos_V5 = n,
      tempoUltimoResetContador_V5 = 0, tempoUltimaMensagemStatus_V5 = 0\<rparr>"

definition estado_teste_V1 :: "nat \<Rightarrow> u32 \<Rightarrow> bool \<Rightarrow> estado_V1" where
  "estado_teste_V1 t n aberta =
     \<lparr>agora = t, eventos = [], contagemVeiculos_V1 = n, ultimoResetContador_V1 = 0,
      ultimoUpdateStatus_V1 = 0, cancelaAberta_V1 = aberta\<rparr>"





text \<open>A vehicle that keeps the button pressed, leaves the entry sensor at 4000 ms and
  is at the exit sensor from then on, with the network up.\<close>

definition ambiente_passagem :: ambiente where
  "ambiente_passagem = (ambiente_teste (\<lambda>t. t < 4000) (\<lambda>t. 4000 \<le> t))
     \<lparr>botaoTicket := (\<lambda>t. True), wifiConectado := (\<lambda>t. True),
      ntpData := (\<lambda>t. ''10/07/2025''), ntpHora := (\<lambda>t. ''12:00:00'')\<rparr>"

section \<open>The actions of each revision, computed\<close>

lemma comandosNoLog_append [simp]:
  "comandosNoLog (xs @ ys) = comandosNoLog xs @ comandosNoLog ys"
  by (induction xs rule: comandosNoLog.induct) simp_all

lemma ticketsNoLog_append [simp]:
  "ticketsNoLog (xs @ ys) = ticketsNoLog xs @ ticketsNoLog ys"
  by (induction xs rule: ticketsNoLog.induct) simp_all

lemmas placa_defs = millis_def delay_def emitir_def println_def executar_def

lemma fecharCancela_V3_eq:
  "fecharCancela_V3 s = s\<lparr>agora := agora s + 500,
      eventos := eventos s @ [(agora s, LedAmarelo False), (agora s, LedVerde False),
         (agora s, LedVermelho True), (agora s, Servo SERVO_POSICAO_FECHADA),
         (agora s, Serial (Texto ''[ACAO] Cancela Fechada.''))],
      estadoCancelaAberta_V3 := False\<rparr>"
  by (simp add: fecharCancela_V3_def placa_defs DELAY_MOVIMENTO_CANCELA_V3_def)

lemma beep_V3_eq:
  "beep_V3 s = s\<lparr>agora := agora s + 1000,
      eventos := eventos s @ [(agora s, Buzzer True), (agora s + 200, Buzzer False)]\<rparr>"
  by (simp add: beep_V3_def placa_defs DURACAO_BEEP_V3_def)

lemma cinco_vezes: "(f ^^ 5) s = f (f (f (f (f s))))"
  by (simp add: eval_nat_numeral)

lemma emitirAvisoFechamento_V3_eq:
  "emitirAvisoFechamento_V3 s = s\<lparr>agora := agora s + 5500,
      eventos := eventos s @
        [(agora s, Serial (Texto ''[ALERTA] A cancela sera fechada em 5 segundos!'')),
         (agora s, Buzzer True), (agora s + 200, Buzzer False),
         (agora s + 1000, Buzzer True), (agora s + 1200, Buzzer False),
         (agora s + 2000, Buzzer True), (agora s + 2200, Buzzer False),
         (agora s + 3000, Buzzer True), (agora s + 3200, Buzzer False),
         (agora s + 4000, Buzzer True), (agora s + 4200, Buzzer False),
         (agora s + 5000, LedAmarelo False), (agora s + 5000, LedVerde False),
         (agora s + 5000, LedVermelho True), (agora s + 5000, Servo SERVO_POSICAO_FECHADA),
         (agora s + 5000, Serial (Texto ''[ACAO] Cancela Fechada.''))],
      estadoCancelaAberta_V3 := False\<rparr>"
  by (simp add: emitirAvisoFechamento_V3_def executar_def println_def emitir_def
       BEEP_AVISO_TIMEOUT_V3_def beep_V3_eq fecharCancela_V3_eq cinco_vezes)

lemma fecharCancela_V4_eq:
  "fecharCancela_V4 s = s\<lparr>agora := agora s + 500,
      eventos := eventos s @ [(agora s, LedAmarelo False), (agora s, LedVerde False),
         (agora s, LedVermelho True), (agora s, Servo SERVO_POSICAO_FECHADA),
         (agora s, Serial (Texto ''-> Cancela fechada.''))],
      estadoCancelaAberta_V4 := False\<rparr>"
  by (simp add: fecharCancela_V4_def placa_defs DURACAO_MOV_CANCELA_V4_def)

lemma beep_V4_eq:
  "beep_V4 s = s\<lparr>agora := agora s + 500,
      eventos := eventos s @ [(agora s, Buzzer True), (agora s + 250, Buzzer False)]\<rparr>"
  by (simp add: beep_V4_def placa_defs DURACAO_BEEP_BUZZER_V4_def)

lemma emitirAvisoSonoroFechamento_V4_eq:
  "emitirAvisoSonoroFechamento_V4 s = s\<lparr>agora := agora s + 3000,
      eventos := eventos s @
        [(agora s, Serial (Texto ''AVISO: A cancela fechara em 5 segundos!'')),
         (agora s, Buzzer True), (agora s + 250, Buzzer False),
         (agora s + 500, Buzzer True), (agora s + 750, Buzzer False),
         (agora s + 1000, Buzzer True), (agora s + 1250, Buzzer False),
         (agora s + 1500, Buzzer True), (agora s + 1750, Buzzer False),
         (agora s + 2000, Buzzer True), (agora s + 2250, Buzzer False),
         (agora s + 2500, LedAmarelo False), (agora s + 2500, LedVerde False),
         (agora s + 2500, LedVermelho True), (agora s + 2500, Servo SERVO_POSICAO_FECHADA),
         (agora s + 2500, Serial (Texto ''-> Cancela fechada.''))],
      estadoCancelaAberta_V4 := False\<rparr>"
  by (simp add: emitirAvisoSonoroFechamento_V4_def executar_def println_def emitir_def
       QTD_AVISOS_SONOROS_V4_def beep_V4_eq fecharCancela_V4_eq cinco_vezes)

lemma abrirCancela_V3_eq:
  "abrirCancela_V3 s = s\<lparr>agora := agora s + 500,
      eventos := eventos s @ [(agora s, Serial (Texto ''[ACAO] Abrindo a cancela...'')),
         (agora s, LedVermelho False), (agora s, LedVerde True),
         (agora s, Servo SERVO_POSICAO_ABERTA),
         (agora s, Serial (Texto ''[ACAO] Cancela Aberta. Prossiga.''))],
      estadoCancelaAberta_V3 := True\<rparr>"
  by (simp add: abrirCancela_V3_def placa_defs DELAY_MOVIMENTO_CANCELA_V3_def)


section \<open>What the supervised waits leave unchanged\<close>

lemmas log_defs = comandosServo_def ticketsEmitidos_def

lemma println_quadro [simp]:
  "agora (println txt s) = agora s"
  "comandosServo (println txt s) = comandosServo s"
  "ticketsEmitidos (println txt s) = ticketsEmitidos s"
  by (simp_all add: println_def emitir_def log_defs)

lemma delay_quadro [simp]:
  "eventos (delay d s) = eventos s"
  "comandosServo (delay d s) = comandosServo s"
  "ticketsEmitidos (delay d s) = ticketsEmitidos s"
  by (simp_all add: delay_def log_defs)

lemma println_V3 [simp]:
  "contadorVeiculos_V3 (println txt s) = contadorVeiculos_V3 s"
  "estadoCancelaAberta_V3 (println txt s) = estadoCancelaAberta_V3 s"
  by (simp_all add: println_def emitir_def)

lemma println_V5 [simp]:
  "contadorVeiculos_V5 (println txt s) = contadorVeiculos_V5 s"
  "cancelaAberta_V5 (println txt s) = cancelaAberta_V5 s"
  by (simp_all add: println_def emitir_def)

lemma entrada_laco_V3_quadro:
  "contadorVeiculos_V3 (snd (monitorarPassagemEntrada_laco e t0 s)) = contadorVeiculos_V3 s
   \<and> estadoCancelaAberta_V3 (snd (monitorarPassagemEntrada_laco e t0 s))
       = (\<not> fst (monitorarPassagemEntrada_laco e t0 s) \<and> estadoCancelaAberta_V3 s)
   \<and> comandosServo (snd (monitorarPassagemEntrada_laco e t0 s))
       = (if fst (monitorarPassagemEntrada_laco e t0 s)
          then comandosServo s @ [SERVO_POSICAO_FECHADA] else comandosServo s)
   \<and> ticketsEmitidos (snd (monitorarPassagemEntrada_laco e t0 s)) = ticketsEmitidos s"
proof (induction e t0 s rule: monitorarPassagemEntrada_laco.induct)
  case (1 e tempoInicio s)
  consider (livre) "\<not> sensorEntrada e (agora s)"
    | (timeout) "sensorEntrada e (agora s)" "millis s - tempoInicio > TIMEOUT_OPERACAO_V3"
    | (espera) "sensorEntrada e (agora s)" "\<not> millis s - tempoInicio > TIMEOUT_OPERACAO_V3"
    by blast
  then show ?case
  proof cases
    case livre
    then have "monitorarPassagemEntrada_laco e tempoInicio s
        = (False, println ''[INFO] Veiculo liberou o sensor de entrada.'' s)"
      by (subst monitorarPassagemEntrada_laco.simps) simp
    then show ?thesis by (simp add: println_def emitir_def log_defs)
  next
    case timeout
    then have "monitorarPassagemEntrada_laco e tempoInicio s = (True, emitirAvisoFechamento_V3 s)"
      by (subst monitorarPassagemEntrada_laco.simps) simp
    then show ?thesis by (simp add: emitirAvisoFechamento_V3_eq log_defs)
  next
    case espera
    then have "monitorarPassagemEntrada_laco e tempoInicio s
        = monitorarPassagemEntrada_laco e tempoInicio (delay 10 s)"
      by (subst monitorarPassagemEntrada_laco.simps) simp
    then show ?thesis
      using 1 espera by (simp add: delay_def log_defs)
  qed
qed

lemma saida_laco_V3_quadro:
  "contadorVeiculos_V3 (snd (monitorarPassagemSaida_laco e t0 s)) = contadorVeiculos_V3 s
   \<and> \<not> estadoCancelaAberta_V3 (snd (monitorarPassagemSaida_laco e t0 s))
   \<and> comandosServo (snd (monitorarPassagemSaida_laco e t0 s))
       = comandosServo s @ [SERVO_POSICAO_FECHADA]
   \<and> ticketsEmitidos (snd (monitorarPassagemSaida_laco e t0 s)) = ticketsEmitidos s"
proof (induction e t0 s rule: monitorarPassagemSaida_laco.induct)
  case (1 e tempoInicio s)
  consider (saiu) "sensorSaida e (agora s)"
    | (fraude) "\<not> sensorSaida e (agora s)" "sensorEntrada e (agora s)"
    | (timeout) "\<not> sensorSaida e (agora s)" "\<not> sensorEntrada e (agora s)"
        "millis s - tempoInicio > TIMEOUT_OPERACAO_V3"
    | (espera) "\<not> sensorSaida e (agora s)" "\<not> sensorEntrada e (agora s)"
        "\<not> millis s - tempoInicio > TIMEOUT_OPERACAO_V3"
    by blast
  then show ?case
  proof cases
    case saiu
    then have "monitorarPassagemSaida_laco e tempoInicio s
        = (False, fecharCancela_V3 (delay DELAY_POS_SAIDA_V3
           (println ''[INFO] Veiculo detectado no sensor de saida. Fechando em 2s.'' s)))"
      by (subst monitorarPassagemSaida_laco.simps) (simp add: executar_def)
    then show ?thesis
      by (simp add: fecharCancela_V3_eq println_def emitir_def delay_def log_defs)
  next
    case fraude
    then have "monitorarPassagemSaida_laco e tempoInicio s
        = (True, fecharCancela_V3 (println ''[ALERTA] Fraude detectada! Veiculo nao autorizado tentou entrar. Fechando cancela.'' s))"
      by (subst monitorarPassagemSaida_laco.simps) simp
    then show ?thesis by (simp add: fecharCancela_V3_eq println_def emitir_def log_defs)
  next
    case timeout
    then have "monitorarPassagemSaida_laco e tempoInicio s = (True, emitirAvisoFechamento_V3 s)"
      by (subst monitorarPassagemSaida_laco.simps) simp
    then show ?thesis by (simp add: emitirAvisoFechamento_V3_eq log_defs)
  next
    case espera
    then have "monitorarPassagemSaida_laco e tempoInicio s
        = monitorarPassagemSaida_laco e tempoInicio (delay 10 s)"
      by (subst monitorarPassagemSaida_laco.simps) simp
    then show ?thesis
      using 1 espera by (simp add: delay_def log_defs)
  qed
qed

lemma passagem_V3_casos:
  "passagem_V3 e s =
     (if fst (monitorarPassagemEntrada_V3 e s)
      then println ''[AVISO] Operacao cancelada por timeout na entrada.''
             (snd (monitorarPassagemEntrada_V3 e s))
      else if fst (monitorarPassagemSaida_V3 e (snd (monitorarPassagemEntrada_V3 e s)))
      then println ''[AVISO] Operacao cancelada por timeout na saida.''
             (snd (monitorarPassagemSaida_V3 e (snd (monitorarPassagemEntrada_V3 e s))))
      else executar
             [(\<lambda>s. s\<lparr>contadorVeiculos_V3 := contadorVeiculos_V3 s + 1\<rparr>),
              (\<lambda>s. s\<lparr>eeprom_V3 := contadorVeiculos_V3 s\<rparr>),
                            (\<lambda>s. emitir (Serial (TotalVeiculos (contadorVeiculos_V3 s))) s),
              println ''Sistema pronto para o proximo veiculo.'']
             (snd (monitorarPassagemSaida_V3 e (snd (monitorarPassagemEntrada_V3 e s)))))"
  by (simp add: passagem_V3_def split_beta)

text \<open>V3 counts a vehicle exactly when neither wait reported a failure, and then by one
  (in 32-bit arithmetic); after a failure the counter is what it was.\<close>

lemma passagem_V3_contador:
  "contadorVeiculos_V3 (passagem_V3 e s) =
     (if fst (monitorarPassagemEntrada_V3 e s)
         \<or> fst (monitorarPassagemSaida_V3 e (snd (monitorarPassagemEntrada_V3 e s)))
      then contadorVeiculos_V3 s else contadorVeiculos_V3 s + 1)"
  by (simp add: passagem_V3_casos monitorarPassagemEntrada_V3_def monitorarPassagemSaida_V3_def
        entrada_laco_V3_quadro saida_laco_V3_quadro executar_def println_def emitir_def)

lemma passagem_V3_fecha: "\<not> estadoCancelaAberta_V3 (passagem_V3 e s)"
  by (simp add: passagem_V3_casos monitorarPassagemEntrada_V3_def monitorarPassagemSaida_V3_def
        entrada_laco_V3_quadro saida_laco_V3_quadro executar_def println_def emitir_def)

lemma passagem_V3_servo:
  "comandosServo (passagem_V3 e s) = comandosServo s @ [SERVO_POSICAO_FECHADA]"
  using entrada_laco_V3_quadro [of e "millis s" s]
        saida_laco_V3_quadro [of e "millis (snd (monitorarPassagemEntrada_V3 e s))"
          "snd (monitorarPassagemEntrada_V3 e s)"]
  by (simp add: passagem_V3_casos monitorarPassagemEntrada_V3_def monitorarPassagemSaida_V3_def
        executar_def println_def emitir_def log_defs)

lemma entrada_laco_V4_quadro:
  "contadorVeiculosDia_V4 (gerenciarSegurancaEntrada_laco e t0 u s) = contadorVeiculosDia_V4 s
   \<and> timeoutSaidaOcorrido_V4 (gerenciarSegurancaEntrada_laco e t0 u s)
       = timeoutSaidaOcorrido_V4 s"
proof (induction e t0 u s rule: gerenciarSegurancaEntrada_laco.induct)
  case (1 e tempoInicioEspera ultimoTempoMsg s)
  show ?case
    using 1
    by (subst (1 2) gerenciarSegurancaEntrada_laco.simps)
       (simp add: emitirAvisoSonoroFechamento_V4_eq executar_def println_def emitir_def
          delay_def)
qed

lemma saida_laco_V4_quadro:
  "contadorVeiculosDia_V4 (gerenciarSegurancaSaida_laco e t0 u s) = contadorVeiculosDia_V4 s
   \<and> timeoutEntradaOcorrido_V4 (gerenciarSegurancaSaida_laco e t0 u s)
       = timeoutEntradaOcorrido_V4 s"
proof (induction e t0 u s rule: gerenciarSegurancaSaida_laco.induct)
  case (1 e tempoInicioEspera ultimoTempoMsg s)
  show ?case
    using 1
    by (subst (1 2) gerenciarSegurancaSaida_laco.simps)
       (simp add: emitirAvisoSonoroFechamento_V4_eq fecharCancela_V4_eq executar_def
          println_def emitir_def delay_def)
qed

lemma esperas_V4_contador:
  "contadorVeiculosDia_V4 (gerenciarSegurancaSaida_V4 e (gerenciarSegurancaEntrada_V4 e s))
     = contadorVeiculosDia_V4 s"
  by (simp add: gerenciarSegurancaSaida_V4_def gerenciarSegurancaEntrada_V4_def Let_def
        entrada_laco_V4_quadro saida_laco_V4_quadro)

lemma registrarResultado_V4_contador:
  "contadorVeiculosDia_V4 (registrarResultado_V4 s) =
     (if timeoutEntradaOcorrido_V4 s \<or> timeoutSaidaOcorrido_V4 s
      then (if contadorVeiculosDia_V4 s > 0 then contadorVeiculosDia_V4 s - 1
            else contadorVeiculosDia_V4 s)
      else contadorVeiculosDia_V4 s)"
  by (simp add: registrarResultado_V4_def Let_def placa_defs)

text \<open>V4 increments the counter when it issues the ticket and takes the increment back
  after a failure, unless the incremented counter is 0: starting from the largest 32-bit
  value the increment wraps to 0, the guard \<^verbatim>\<open>contadorVeiculosDia > 0\<close> fails, and the
  counter stays 0.\<close>

lemma entradaVeiculo_V4_contador:
  "contadorVeiculosDia_V4 (entradaVeiculo_V4 e s) =
     (if timeoutEntradaOcorrido_V4 (aposEsperas_V4 e s)
         \<or> timeoutSaidaOcorrido_V4 (aposEsperas_V4 e s)
      then (if contadorVeiculosDia_V4 s = - 1 then 0 else contadorVeiculosDia_V4 s)
      else contadorVeiculosDia_V4 s + 1)"
proof -
  have a: "entradaVeiculo_V4 e s = registrarResultado_V4 (aposEsperas_V4 e s)"
    by (simp add: entradaVeiculo_V4_def aposEsperas_V4_def executar_def)
  have b: "contadorVeiculosDia_V4 (aposEsperas_V4 e s) = contadorVeiculosDia_V4 s + 1"
    by (simp add: aposEsperas_V4_def esperas_V4_contador abrirCancela_V4_def
          emitirTicket_V4_def sincronizarDataHora_V4_def Let_def placa_defs)
  have c: "(contadorVeiculosDia_V4 s + 1 = 0) = (contadorVeiculosDia_V4 s = - 1)"
    by (simp add: eq_neg_iff_add_eq_0)
  show ?thesis
    by (simp add: a registrarResultado_V4_contador b c word_greater_zero_iff)
qed

lemma fecharCancela_V5_eq:
  "fecharCancela_V5 s = s\<lparr>
      eventos := eventos s @ [(agora s, LedAmarelo False), (agora s, LedVerde False),
         (agora s, LedVermelho True), (agora s, Servo SERVO_POSICAO_FECHADA),
         (agora s, Serial (Texto ''-> Cancela fechada.''))],
      cancelaAberta_V5 := False\<rparr>"
  by (simp add: fecharCancela_V5_def placa_defs)

lemma pisca_V5_quadro:
  "comandosServo ((pisca_V5 ^^ n) s) = comandosServo s
   \<and> ticketsEmitidos ((pisca_V5 ^^ n) s) = ticketsEmitidos s"
  by (induction n arbitrary: s) (simp_all add: pisca_V5_def placa_defs log_defs)

lemma emitirAvisoSonoroEFechar_V5_quadro:
  "\<not> cancelaAberta_V5 (emitirAvisoSonoroEFechar_V5 s)
   \<and> comandosServo (emitirAvisoSonoroEFechar_V5 s) = comandosServo s @ [SERVO_POSICAO_FECHADA]
   \<and> ticketsEmitidos (emitirAvisoSonoroEFechar_V5 s) = ticketsEmitidos s"
proof -
  define s1 where "s1 = println ''AVISO: A cancela fechara em 5 segundos.'' s"
  have a: "emitirAvisoSonoroEFechar_V5 s
      = fecharCancela_V5 ((pisca_V5 ^^ (DURACAO_AVISO_SONORO_S_V5 * 2)) s1)"
    by (simp add: emitirAvisoSonoroEFechar_V5_def executar_def s1_def)
  have b: "comandosServo s1 = comandosServo s \<and> ticketsEmitidos s1 = ticketsEmitidos s"
    by (simp add: s1_def println_def emitir_def log_defs)
  show ?thesis
    using pisca_V5_quadro [of "DURACAO_AVISO_SONORO_S_V5 * 2" s1] b
    by (simp add: a fecharCancela_V5_eq log_defs)
qed

lemma entrada_laco_V5_quadro:
  "cancelaAberta_V5 (snd (monitorarPassagemEntrada_laco_V5 e t0 s))
       = (fst (monitorarPassagemEntrada_laco_V5 e t0 s) \<and> cancelaAberta_V5 s)
   \<and> comandosServo (snd (monitorarPassagemEntrada_laco_V5 e t0 s))
       = (if fst (monitorarPassagemEntrada_laco_V5 e t0 s) then comandosServo s
          else comandosServo s @ [SERVO_POSICAO_FECHADA])"
proof (induction e t0 s rule: monitorarPassagemEntrada_laco_V5.induct)
  case (1 e tempoInicio s)
  consider (livre) "\<not> distanciaEntrada e (agora s) \<le> DISTANCIA_DETECCAO_CM_V5"
    | (timeout) "distanciaEntrada e (agora s) \<le> DISTANCIA_DETECCAO_CM_V5"
        "millis s - tempoInicio > TIMEOUT_PASSAGEM_VEICULO_V5"
    | (espera) "distanciaEntrada e (agora s) \<le> DISTANCIA_DETECCAO_CM_V5"
        "\<not> millis s - tempoInicio > TIMEOUT_PASSAGEM_VEICULO_V5"
    by blast
  then show ?case
  proof cases
    case livre
    then have "monitorarPassagemEntrada_laco_V5 e tempoInicio s
        = (True, println ''Veiculo liberou o sensor de entrada.'' s)"
      by (subst monitorarPassagemEntrada_laco_V5.simps) simp
    then show ?thesis by (simp add: println_def emitir_def log_defs)
  next
    case timeout
    then have "monitorarPassagemEntrada_laco_V5 e tempoInicio s
        = (False, emitirAvisoSonoroEFechar_V5
             (println ''ERRO: Tempo limite de passagem na entrada excedido!'' s))"
      by (subst monitorarPassagemEntrada_laco_V5.simps) simp
    then show ?thesis
      using emitirAvisoSonoroEFechar_V5_quadro
              [of "println ''ERRO: Tempo limite de passagem na entrada excedido!'' s"]
      by (simp add: println_def emitir_def log_defs)
  next
    case espera
    then have "monitorarPassagemEntrada_laco_V5 e tempoInicio s
        = monitorarPassagemEntrada_laco_V5 e tempoInicio (delay 100 s)"
      by (subst monitorarPassagemEntrada_laco_V5.simps) simp
    then show ?thesis
      using 1 espera by (simp add: delay_def log_defs)
  qed
qed

lemma saida_laco_V5_quadro:
  "\<not> cancelaAberta_V5 (snd (monitorarSaidaEAntifraude_laco e t0 s))
   \<and> comandosServo (snd (monitorarSaidaEAntifraude_laco e t0 s))
       = comandosServo s @ [SERVO_POSICAO_FECHADA]"
proof (induction e t0 s rule: monitorarSaidaEAntifraude_laco.induct)
  case (1 e tempoInicio s)
  consider (saiu) "\<not> distanciaSaida e (agora s) > DISTANCIA_DETECCAO_CM_V5"
    | (fraude) "distanciaSaida e (agora s) > DISTANCIA_DETECCAO_CM_V5"
        "distanciaEntrada e (agora s) \<le> DISTANCIA_DETECCAO_CM_V5"
    | (timeout) "distanciaSaida e (agora s) > DISTANCIA_DETECCAO_CM_V5"
        "\<not> distanciaEntrada e (agora s) \<le> DISTANCIA_DETECCAO_CM_V5"
        "millis s - tempoInicio > TIMEOUT_PASSAGEM_VEICULO_V5"
    | (espera) "distanciaSaida e (agora s) > DISTANCIA_DETECCAO_CM_V5"
        "\<not> distanciaEntrada e (agora s) \<le> DISTANCIA_DETECCAO_CM_V5"
        "\<not> millis s - tempoInicio > TIMEOUT_PASSAGEM_VEICULO_V5"
    by blast
  then show ?case
  proof cases
    case saiu
    then have "monitorarSaidaEAntifraude_laco e tempoInicio s
        = (True, fecharCancela_V5 (delay ATRASO_FECHAMENTO_APOS_SAIDA_V5
             (println ''Veiculo detectado no sensor de saida. Passagem completa.'' s)))"
      by (subst monitorarSaidaEAntifraude_laco.simps) (simp add: executar_def)
    then show ?thesis
      by (simp add: fecharCancela_V5_eq println_def emitir_def delay_def log_defs)
  next
    case fraude
    then have "monitorarSaidaEAntifraude_laco e tempoInicio s
        = (False, fecharCancela_V5 (println
             ''ALERTA: Segundo veiculo detectado na entrada! Fechando cancela imediatamente.'' s))"
      by (subst monitorarSaidaEAntifraude_laco.simps) simp
    then show ?thesis by (simp add: fecharCancela_V5_eq println_def emitir_def log_defs)
  next
    case timeout
    then have "monitorarSaidaEAntifraude_laco e tempoInicio s
        = (False, emitirAvisoSonoroEFechar_V5
             (println ''ERRO: Tempo limite de passagem na saida excedido!'' s))"
      by (subst monitorarSaidaEAntifraude_laco.simps) simp
    then show ?thesis
      using emitirAvisoSonoroEFechar_V5_quadro
              [of "println ''ERRO: Tempo limite de passagem na saida excedido!'' s"]
      by (simp add: println_def emitir_def log_defs)
  next
    case espera
    then have "monitorarSaidaEAntifraude_laco e tempoInicio s
        = monitorarSaidaEAntifraude_laco e tempoInicio (delay 100 s)"
      by (subst monitorarSaidaEAntifraude_laco.simps) simp
    then show ?thesis
      using 1 espera by (simp add: delay_def log_defs)
  qed
qed

lemma iniciarProcesso_V5_quadro:
  "\<not> cancelaAberta_V5 (iniciarProcessoEntradaVeiculo_V5 e s)
   \<and> comandosServo (iniciarProcessoEntradaVeiculo_V5 e s)
       = comandosServo s @ [SERVO_POSICAO_ABERTA, SERVO_POSICAO_FECHADA]"
proof -
  define s0 where "s0 = executar
                [println ''--- INICIO DO PROCESSO DE ENTRADA ---'',
                 println ''Botao pressionado por veiculo na entrada.'',
                 simularImpressaoTicket_V5 e,
                 abrirCancela_V5] s"
  define r1 where "r1 = monitorarPassagemEntrada_V5 e s0"
  define r2 where "r2 = monitorarSaidaEAntifraude_V5 e (snd r1)"
  have a0: "comandosServo s0 = comandosServo s @ [SERVO_POSICAO_ABERTA]"
    by (simp add: s0_def simularImpressaoTicket_V5_def abrirCancela_V5_def Let_def
          placa_defs log_defs)
  have a1: "cancelaAberta_V5 (snd r1) = (fst r1 \<and> cancelaAberta_V5 s0)
      \<and> comandosServo (snd r1)
          = (if fst r1 then comandosServo s0 else comandosServo s0 @ [SERVO_POSICAO_FECHADA])"
    using entrada_laco_V5_quadro [of e "millis s0"
            "println ''Aguardando veiculo passar pelo sensor de entrada...'' s0"]
    by (simp add: r1_def monitorarPassagemEntrada_V5_def Let_def)
  have a2: "\<not> cancelaAberta_V5 (snd r2)
      \<and> comandosServo (snd r2) = comandosServo (snd r1) @ [SERVO_POSICAO_FECHADA]"
    using saida_laco_V5_quadro [of e "millis (snd r1)"
            "println ''Aguardando veiculo passar pelo sensor de saida...'' (snd r1)"]
    by (simp add: r2_def monitorarSaidaEAntifraude_V5_def Let_def)
  have b: "iniciarProcessoEntradaVeiculo_V5 e s =
      println ''Sistema pronto para o proximo veiculo.''
        (if fst r1 then
           (if fst r2
            then executar
                   [(\<lambda>s. s\<lparr>contadorVeiculos_V5 := contadorVeiculos_V5 s + 1\<rparr>),
                    println ''Processo concluido com sucesso. Veiculo registrado.'',
                    (\<lambda>s. emitir (Serial (TotalVeiculos (contadorVeiculos_V5 s))) s)] (snd r2)
            else println ''Falha no processo (anti-fraude ou timeout na saida). Veiculo nao foi registrado.'' (snd r2))
         else println ''Falha no processo (timeout na entrada). Veiculo nao foi registrado.'' (snd r1))"
    unfolding iniciarProcessoEntradaVeiculo_V5_def Let_def s0_def [symmetric]
    by (simp add: r1_def r2_def split_beta)
  have c: "comandosServo (executar
                   [(\<lambda>s. s\<lparr>contadorVeiculos_V5 := contadorVeiculos_V5 s + 1\<rparr>),
                    println ''Processo concluido com sucesso. Veiculo registrado.'',
                    (\<lambda>s. emitir (Serial (TotalVeiculos (contadorVeiculos_V5 s))) s)] (snd r2))
              = comandosServo (snd r2)
      \<and> cancelaAberta_V5 (executar
                   [(\<lambda>s. s\<lparr>contadorVeiculos_V5 := contadorVeiculos_V5 s + 1\<rparr>),
                    println ''Processo concluido com sucesso. Veiculo registrado.'',
                    (\<lambda>s. emitir (Serial (TotalVeiculos (contadorVeiculos_V5 s))) s)] (snd r2))
              = cancelaAberta_V5 (snd r2)"
    by (simp add: executar_def println_def emitir_def log_defs)
  show ?thesis
    unfolding b using a0 a1 a2 c by simp
qed

section \<open>Runs of the supervised waits\<close>

text \<open>While the sensors keep a wait polling, \<open>k\<close> polls move the clock by \<open>k\<close> sleeps and
  change nothing else: the wait called at the start equals the wait called \<open>k\<close> polls
  later. From the start of a wait the elapsed time on the 32-bit clock is the true one.\<close>

lemma decorrido_total:
  assumes "n < 2 ^ 32"
  shows "unat (millis (s\<lparr>agora := agora s + n\<rparr>) - millis s) = n"
proof -
  have "millis (s\<lparr>agora := agora s + n\<rparr>) - millis s = (of_nat n :: u32)"
    by (simp add: millis_def)
  then show ?thesis using assms by (simp add: unat_of_nat)
qed

lemma nao_expirou: "(\<not> (w :: u32) > 30000) = (unat w \<le> 30000)"
  by (simp add: word_le_nat_alt not_less)

lemma espera_entrada_V3:
  assumes "\<forall>j<k. sensorEntrada e (agora s + 10 * j)"
    and "unat (millis s - t0) + 10 * k \<le> 30010"
  shows "monitorarPassagemEntrada_laco e t0 s
       = monitorarPassagemEntrada_laco e t0 (s\<lparr>agora := agora s + 10 * k\<rparr>)"
  using assms
proof (induction k arbitrary: s)
  case 0
  show ?case by simp
next
  case (Suc k)
  have p: "sensorEntrada e (agora s)" using Suc.prems(1) by force
  have nt: "\<not> millis s - t0 > 30000" using Suc.prems(2) by (simp add: nao_expirou)
  have passo: "monitorarPassagemEntrada_laco e t0 s
      = monitorarPassagemEntrada_laco e t0 (delay 10 s)"
    using p nt by (subst monitorarPassagemEntrada_laco.simps) (simp add: TIMEOUT_OPERACAO_V3_def)
  have el: "unat (millis (delay 10 s) - t0) = unat (millis s - t0) + 10"
    using decorrido_delay [OF nt, of 10] by simp
  have a: "\<forall>j<k. sensorEntrada e (agora (delay 10 s) + 10 * j)"
  proof (intro allI impI)
    fix j assume "j < k"
    then have "Suc j < Suc k" by simp
    with Suc.prems(1) have "sensorEntrada e (agora s + 10 * Suc j)" by blast
    then show "sensorEntrada e (agora (delay 10 s) + 10 * j)"
      by (simp add: delay_def add.assoc)
  qed
  have b: "unat (millis (delay 10 s) - t0) + 10 * k \<le> 30010"
    using el Suc.prems(2) by simp
  have "monitorarPassagemEntrada_laco e t0 (delay 10 s)
      = monitorarPassagemEntrada_laco e t0 ((delay 10 s)\<lparr>agora := agora (delay 10 s) + 10 * k\<rparr>)"
    using Suc.IH [OF a b] .
  also have "(delay 10 s)\<lparr>agora := agora (delay 10 s) + 10 * k\<rparr> = s\<lparr>agora := agora s + 10 * Suc k\<rparr>"
    by (simp add: delay_def)
  finally show ?case using passo by simp
qed

lemma entrada_V3_liberada:
  assumes "\<forall>j<k. sensorEntrada e (agora s + 10 * j)" and "k \<le> 3001"
    and "\<not> sensorEntrada e (agora s + 10 * k)"
  shows "monitorarPassagemEntrada_V3 e s
       = (False, println ''[INFO] Veiculo liberou o sensor de entrada.''
                   (s\<lparr>agora := agora s + 10 * k\<rparr>))"
proof -
  have "monitorarPassagemEntrada_V3 e s
      = monitorarPassagemEntrada_laco e (millis s) (s\<lparr>agora := agora s + 10 * k\<rparr>)"
    unfolding monitorarPassagemEntrada_V3_def
    using espera_entrada_V3 [OF assms(1), of "millis s"] assms(2) by simp
  also have "\<dots> = (False, println ''[INFO] Veiculo liberou o sensor de entrada.''
                   (s\<lparr>agora := agora s + 10 * k\<rparr>))"
    using assms(3) by (subst monitorarPassagemEntrada_laco.simps) simp
  finally show ?thesis .
qed

lemma entrada_V3_expirada:
  assumes "\<forall>j\<le>3001. sensorEntrada e (agora s + 10 * j)"
  shows "monitorarPassagemEntrada_V3 e s
       = (True, emitirAvisoFechamento_V3 (s\<lparr>agora := agora s + 30010\<rparr>))"
proof -
  have a: "\<forall>j<3001. sensorEntrada e (agora s + 10 * j)" using assms by simp
  have b: "sensorEntrada e (agora s + 30010)" using assms by force
  have c: "unat (millis (s\<lparr>agora := agora s + 30010\<rparr>) - millis s) = 30010"
    by (rule decorrido_total) simp
  have d: "millis (s\<lparr>agora := agora s + 30010\<rparr>) - millis s > TIMEOUT_OPERACAO_V3"
    using c by (simp add: TIMEOUT_OPERACAO_V3_def word_less_nat_alt)
  have "monitorarPassagemEntrada_V3 e s
      = monitorarPassagemEntrada_laco e (millis s) (s\<lparr>agora := agora s + 10 * 3001\<rparr>)"
    unfolding monitorarPassagemEntrada_V3_def
    using espera_entrada_V3 [OF a, of "millis s"] by simp
  also have "\<dots> = (True, emitirAvisoFechamento_V3 (s\<lparr>agora := agora s + 30010\<rparr>))"
    using b d by (subst monitorarPassagemEntrada_laco.simps) simp
  finally show ?thesis .
qed

lemma espera_saida_V3:
  assumes "\<forall>j<k. \<not> sensorSaida e (agora s + 10 * j) \<and> \<not> sensorEntrada e (agora s + 10 * j)"
    and "unat (millis s - t0) + 10 * k \<le> 30010"
  shows "monitorarPassagemSaida_laco e t0 s
       = monitorarPassagemSaida_laco e t0 (s\<lparr>agora := agora s + 10 * k\<rparr>)"
  using assms
proof (induction k arbitrary: s)
  case 0
  show ?case by simp
next
  case (Suc k)
  have p: "\<not> sensorSaida e (agora s) \<and> \<not> sensorEntrada e (agora s)"
    using Suc.prems(1) by force
  have nt: "\<not> millis s - t0 > 30000" using Suc.prems(2) by (simp add: nao_expirou)
  have passo: "monitorarPassagemSaida_laco e t0 s
      = monitorarPassagemSaida_laco e t0 (delay 10 s)"
    using p nt by (subst monitorarPassagemSaida_laco.simps) (simp add: TIMEOUT_OPERACAO_V3_def)
  have el: "unat (millis (delay 10 s) - t0) = unat (millis s - t0) + 10"
    using decorrido_delay [OF nt, of 10] by simp
  have a: "\<forall>j<k. \<not> sensorSaida e (agora (delay 10 s) + 10 * j)
                 \<and> \<not> sensorEntrada e (agora (delay 10 s) + 10 * j)"
  proof (intro allI impI)
    fix j assume "j < k"
    then have "Suc j < Suc k" by simp
    with Suc.prems(1) have "\<not> sensorSaida e (agora s + 10 * Suc j)
        \<and> \<not> sensorEntrada e (agora s + 10 * Suc j)" by blast
    then show "\<not> sensorSaida e (agora (delay 10 s) + 10 * j)
        \<and> \<not> sensorEntrada e (agora (delay 10 s) + 10 * j)"
      by (simp add: delay_def add.assoc)
  qed
  have b: "unat (millis (delay 10 s) - t0) + 10 * k \<le> 30010"
    using el Suc.prems(2) by simp
  have "monitorarPassagemSaida_laco e t0 (delay 10 s)
      = monitorarPassagemSaida_laco e t0 ((delay 10 s)\<lparr>agora := agora (delay 10 s) + 10 * k\<rparr>)"
    using Suc.IH [OF a b] .
  also have "(delay 10 s)\<lparr>agora := agora (delay 10 s) + 10 * k\<rparr> = s\<lparr>agora := agora s + 10 * Suc k\<rparr>"
    by (simp add: delay_def)
  finally show ?case using passo by simp
qed

lemma saida_V3_alcancada:
  assumes "\<forall>j<k. \<not> sensorSaida e (agora s + 10 * j) \<and> \<not> sensorEntrada e (agora s + 10 * j)"
    and "k \<le> 3001" and "sensorSaida e (agora s + 10 * k)"
  shows "monitorarPassagemSaida_V3 e s
       = (False, fecharCancela_V3 (delay DELAY_POS_SAIDA_V3
           (println ''[INFO] Veiculo detectado no sensor de saida. Fechando em 2s.''
              (s\<lparr>agora := agora s + 10 * k\<rparr>))))"
proof -
  have "monitorarPassagemSaida_V3 e s
      = monitorarPassagemSaida_laco e (millis s) (s\<lparr>agora := agora s + 10 * k\<rparr>)"
    unfolding monitorarPassagemSaida_V3_def
    using espera_saida_V3 [OF assms(1), of "millis s"] assms(2) by simp
  also have "\<dots> = (False, fecharCancela_V3 (delay DELAY_POS_SAIDA_V3
           (println ''[INFO] Veiculo detectado no sensor de saida. Fechando em 2s.''
              (s\<lparr>agora := agora s + 10 * k\<rparr>))))"
    using assms(3) by (subst monitorarPassagemSaida_laco.simps) (simp add: executar_def)
  finally show ?thesis .
qed

lemma saida_V3_expirada:
  assumes "\<forall>j\<le>3001. \<not> sensorSaida e (agora s + 10 * j) \<and> \<not> sensorEntrada e (agora s + 10 * j)"
  shows "monitorarPassagemSaida_V3 e s
       = (True, emitirAvisoFechamento_V3 (s\<lparr>agora := agora s + 30010\<rparr>))"
proof -
  have a: "\<forall>j<3001. \<not> sensorSaida e (agora s + 10 * j) \<and> \<not> sensorEntrada e (agora s + 10 * j)"
    using assms by simp
  have b: "\<not> sensorSaida e (agora s + 30010) \<and> \<not> sensorEntrada e (agora s + 30010)"
    using assms by force
  have c: "unat (millis (s\<lparr>agora := agora s + 30010\<rparr>) - millis s) = 30010"
    by (rule decorrido_total) simp
  have d: "millis (s\<lparr>agora := agora s + 30010\<rparr>) - millis s > TIMEOUT_OPERACAO_V3"
    using c by (simp add: TIMEOUT_OPERACAO_V3_def word_less_nat_alt)
  have "monitorarPassagemSaida_V3 e s
      = monitorarPassagemSaida_laco e (millis s) (s\<lparr>agora := agora s + 10 * 3001\<rparr>)"
    unfolding monitorarPassagemSaida_V3_def
    using espera_saida_V3 [OF a, of "millis s"] by simp
  also have "\<dots> = (True, emitirAvisoFechamento_V3 (s\<lparr>agora := agora s + 30010\<rparr>))"
    using b d by (subst monitorarPassagemSaida_laco.simps) simp
  finally show ?thesis .
qed

lemma espera_entrada_V1:
  assumes "\<forall>j<k. sensorEntrada e (agora s + 50 * j)"
    and "unat (millis s - t0) + 50 * k \<le> 30000"
  shows "gerenciarEntradaVeiculo_laco e t0 s
       = gerenciarEntradaVeiculo_laco e t0 (s\<lparr>agora := agora s + 50 * k\<rparr>)"
  using assms
proof (induction k arbitrary: s)
  case 0
  show ?case by simp
next
  case (Suc k)
  have p: "sensorEntrada e (agora s)" using Suc.prems(1) by force
  have x: "unat (millis s - t0) < 30000" using Suc.prems(2) by simp
  have nt: "\<not> millis s - t0 > 29999" using x by (simp add: word_le_nat_alt not_less)
  have nt': "\<not> millis s - t0 \<ge> TIMEOUT_ENTRADA_MS_V1"
    using x by (simp add: TIMEOUT_ENTRADA_MS_V1_def word_le_nat_alt)
  have passo: "gerenciarEntradaVeiculo_laco e t0 s
      = gerenciarEntradaVeiculo_laco e t0 (delay 50 s)"
    using p nt' by (subst gerenciarEntradaVeiculo_laco.simps) simp
  have el: "unat (millis (delay 50 s) - t0) = unat (millis s - t0) + 50"
    using decorrido_delay [OF nt, of 50] by simp
  have a: "\<forall>j<k. sensorEntrada e (agora (delay 50 s) + 50 * j)"
  proof (intro allI impI)
    fix j assume "j < k"
    then have "Suc j < Suc k" by simp
    with Suc.prems(1) have "sensorEntrada e (agora s + 50 * Suc j)" by blast
    then show "sensorEntrada e (agora (delay 50 s) + 50 * j)"
      by (simp add: delay_def add.assoc)
  qed
  have b: "unat (millis (delay 50 s) - t0) + 50 * k \<le> 30000"
    using el Suc.prems(2) by simp
  have "gerenciarEntradaVeiculo_laco e t0 (delay 50 s)
      = gerenciarEntradaVeiculo_laco e t0 ((delay 50 s)\<lparr>agora := agora (delay 50 s) + 50 * k\<rparr>)"
    using Suc.IH [OF a b] .
  also have "(delay 50 s)\<lparr>agora := agora (delay 50 s) + 50 * k\<rparr> = s\<lparr>agora := agora s + 50 * Suc k\<rparr>"
    by (simp add: delay_def)
  finally show ?case using passo by simp
qed

lemma entrada_V1_liberada:
  assumes "\<forall>j<k. sensorEntrada e (agora s + 50 * j)" and "k \<le> 600"
    and "\<not> sensorEntrada e (agora s + 50 * k)"
  shows "gerenciarEntradaVeiculo_V1 e s
       = (True, println ''INFO: Veiculo liberou o sensor de entrada.''
            ((println ''INFO: Aguardando veiculo passar pelo sensor de entrada...'' s)
               \<lparr>agora := agora s + 50 * k\<rparr>))"
proof -
  let ?s = "println ''INFO: Aguardando veiculo passar pelo sensor de entrada...'' s"
  have a: "\<forall>j<k. sensorEntrada e (agora ?s + 50 * j)" using assms(1) by simp
  have "gerenciarEntradaVeiculo_V1 e s
      = gerenciarEntradaVeiculo_laco e (millis ?s) (?s\<lparr>agora := agora ?s + 50 * k\<rparr>)"
    unfolding gerenciarEntradaVeiculo_V1_def
    using espera_entrada_V1 [OF a, of "millis ?s"] assms(2) by simp
  also have "\<dots> = (True, println ''INFO: Veiculo liberou o sensor de entrada.''
            (?s\<lparr>agora := agora s + 50 * k\<rparr>))"
    using assms(3) by (subst gerenciarEntradaVeiculo_laco.simps) simp
  finally show ?thesis .
qed

lemma entrada_V1_expirada:
  assumes "\<forall>j\<le>600. sensorEntrada e (agora s + 50 * j)"
  shows "gerenciarEntradaVeiculo_V1 e s
       = (False, acionarAlertaEFechar_V1
            (println ''ERRO: Timeout na entrada. Cancelando operacao.''
               ((println ''INFO: Aguardando veiculo passar pelo sensor de entrada...'' s)
                  \<lparr>agora := agora s + 30000\<rparr>)))"
proof -
  let ?s = "println ''INFO: Aguardando veiculo passar pelo sensor de entrada...'' s"
  have a: "\<forall>j<600. sensorEntrada e (agora ?s + 50 * j)" using assms by simp
  have b: "sensorEntrada e (agora s + 30000)" using assms by force
  have c: "unat (millis (?s\<lparr>agora := agora ?s + 30000\<rparr>) - millis ?s) = 30000"
    by (rule decorrido_total) simp
  have d: "millis (?s\<lparr>agora := agora s + 30000\<rparr>) - millis ?s \<ge> TIMEOUT_ENTRADA_MS_V1"
    using c by (simp add: TIMEOUT_ENTRADA_MS_V1_def word_le_nat_alt)
  have "gerenciarEntradaVeiculo_V1 e s
      = gerenciarEntradaVeiculo_laco e (millis ?s) (?s\<lparr>agora := agora ?s + 50 * 600\<rparr>)"
    unfolding gerenciarEntradaVeiculo_V1_def
    using espera_entrada_V1 [OF a, of "millis ?s"] by simp
  also have "\<dots> = (False, acionarAlertaEFechar_V1
            (println ''ERRO: Timeout na entrada. Cancelando operacao.''
               (?s\<lparr>agora := agora s + 30000\<rparr>)))"
    using b d by (subst gerenciarEntradaVeiculo_laco.simps) simp
  finally show ?thesis .
qed

text \<open>The single loop of V2. While it keeps polling, in either phase, \<open>k\<close> polls move the
  clock by \<open>k\<close> sleeps of 50 ms and leave \<open>timestampInicioPassagem\<close> as it was.\<close>

lemma decorrido_agora:
  assumes "agora s' = agora s + n" and "n < 2 ^ 32"
  shows "unat (millis s' - millis s) = n"
proof -
  have "millis s' - millis s = (of_nat n :: u32)"
    using assms(1) by (simp add: millis_def)
  then show ?thesis using assms(2) by (simp add: unat_of_nat)
qed

lemma espera_entrada_V2:
  assumes "\<forall>j<k. sensorEntrada e (agora s + 50 * j)"
    and "estadoCancelaAberta_V2 s"
    and "unat (millis s - t0) + 50 * k \<le> 30050"
  shows "gerenciarPassagem_laco_V2 e t0 False s
       = gerenciarPassagem_laco_V2 e t0 False (s\<lparr>agora := agora s + 50 * k\<rparr>)"
  using assms
proof (induction k arbitrary: s)
  case 0
  show ?case by simp
next
  case (Suc k)
  have p: "sensorEntrada e (agora s)" using Suc.prems(1) by force
  have nt: "\<not> millis s - t0 > 30000" using Suc.prems(3) by (simp add: nao_expirou)
  have passo: "gerenciarPassagem_laco_V2 e t0 False s
      = gerenciarPassagem_laco_V2 e t0 False (delay 50 s)"
    using p nt Suc.prems(2)
    by (subst gerenciarPassagem_laco_V2.simps) (simp add: TIMEOUT_OPERACAO_V2_def)
  have el: "unat (millis (delay 50 s) - t0) = unat (millis s - t0) + 50"
    using decorrido_delay [OF nt, of 50] by simp
  have a: "\<forall>j<k. sensorEntrada e (agora (delay 50 s) + 50 * j)"
  proof (intro allI impI)
    fix j assume "j < k"
    then have "Suc j < Suc k" by simp
    with Suc.prems(1) have "sensorEntrada e (agora s + 50 * Suc j)" by blast
    then show "sensorEntrada e (agora (delay 50 s) + 50 * j)"
      by (simp add: delay_def add.assoc)
  qed
  have g: "estadoCancelaAberta_V2 (delay 50 s)" using Suc.prems(2) by (simp add: delay_def)
  have b: "unat (millis (delay 50 s) - t0) + 50 * k \<le> 30050"
    using el Suc.prems(3) by simp
  have "gerenciarPassagem_laco_V2 e t0 False (delay 50 s)
      = gerenciarPassagem_laco_V2 e t0 False ((delay 50 s)\<lparr>agora := agora (delay 50 s) + 50 * k\<rparr>)"
    using Suc.IH [OF a g b] .
  also have "(delay 50 s)\<lparr>agora := agora (delay 50 s) + 50 * k\<rparr> = s\<lparr>agora := agora s + 50 * Suc k\<rparr>"
    by (simp add: delay_def)
  finally show ?case using passo by simp
qed

lemma espera_saida_V2:
  assumes "\<forall>j<k. \<not> sensorEntrada e (agora s + 50 * j) \<and> \<not> sensorSaida e (agora s + 50 * j)"
    and "estadoCancelaAberta_V2 s"
    and "unat (millis s - t0) + 50 * k \<le> 30050"
  shows "gerenciarPassagem_laco_V2 e t0 True s
       = gerenciarPassagem_laco_V2 e t0 True (s\<lparr>agora := agora s + 50 * k\<rparr>)"
  using assms
proof (induction k arbitrary: s)
  case 0
  show ?case by simp
next
  case (Suc k)
  have p: "\<not> sensorEntrada e (agora s) \<and> \<not> sensorSaida e (agora s)"
    using Suc.prems(1) by force
  have nt: "\<not> millis s - t0 > 30000" using Suc.prems(3) by (simp add: nao_expirou)
  have passo: "gerenciarPassagem_laco_V2 e t0 True s
      = gerenciarPassagem_laco_V2 e t0 True (delay 50 s)"
    using p nt Suc.prems(2)
    by (subst gerenciarPassagem_laco_V2.simps) (simp add: TIMEOUT_OPERACAO_V2_def)
  have el: "unat (millis (delay 50 s) - t0) = unat (millis s - t0) + 50"
    using decorrido_delay [OF nt, of 50] by simp
  have a: "\<forall>j<k. \<not> sensorEntrada e (agora (delay 50 s) + 50 * j)
                 \<and> \<not> sensorSaida e (agora (delay 50 s) + 50 * j)"
  proof (intro allI impI)
    fix j assume "j < k"
    then have "Suc j < Suc k" by simp
    with Suc.prems(1) have "\<not> sensorEntrada e (agora s + 50 * Suc j)
        \<and> \<not> sensorSaida e (agora s + 50 * Suc j)" by blast
    then show "\<not> sensorEntrada e (agora (delay 50 s) + 50 * j)
        \<and> \<not> sensorSaida e (agora (delay 50 s) + 50 * j)"
      by (simp add: delay_def add.assoc)
  qed
  have g: "estadoCancelaAberta_V2 (delay 50 s)" using Suc.prems(2) by (simp add: delay_def)
  have b: "unat (millis (delay 50 s) - t0) + 50 * k \<le> 30050"
    using el Suc.prems(3) by simp
  have "gerenciarPassagem_laco_V2 e t0 True (delay 50 s)
      = gerenciarPassagem_laco_V2 e t0 True ((delay 50 s)\<lparr>agora := agora (delay 50 s) + 50 * k\<rparr>)"
    using Suc.IH [OF a g b] .
  also have "(delay 50 s)\<lparr>agora := agora (delay 50 s) + 50 * k\<rparr> = s\<lparr>agora := agora s + 50 * Suc k\<rparr>"
    by (simp add: delay_def)
  finally show ?case using passo by simp
qed

text \<open>The entry phase of V2 for \<open>k1\<close> polls and the poll that crosses into the exit phase:
  the timestamp the loop goes on with is the one it started with.\<close>

lemma travessia_V2:
  assumes "\<forall>j<k1. sensorEntrada e (agora s + 50 * j)" and "k1 \<le> 600"
    and "\<not> sensorEntrada e (agora s + 50 * k1)" and "estadoCancelaAberta_V2 s"
  shows "gerenciarPassagem_laco_V2 e (millis s) False s
       = gerenciarPassagem_laco_V2 e (millis s) True
           ((println ''Veiculo liberou o sensor de entrada. Aguardando saida...''
               (s\<lparr>agora := agora s + 50 * k1\<rparr>))\<lparr>agora := agora s + 50 * Suc k1\<rparr>)"
proof -
  let ?s1 = "s\<lparr>agora := agora s + 50 * k1\<rparr>"
  have "gerenciarPassagem_laco_V2 e (millis s) False s
      = gerenciarPassagem_laco_V2 e (millis s) False ?s1"
    using espera_entrada_V2 [OF assms(1) assms(4), of "millis s"] assms(2) by simp
  moreover have el: "unat (millis ?s1 - millis s) = 50 * k1"
    using assms(2) by (intro decorrido_agora) simp_all
  then have nt: "\<not> millis ?s1 - millis s > TIMEOUT_OPERACAO_V2"
    using assms(2) by (simp add: TIMEOUT_OPERACAO_V2_def nao_expirou)
  have "gerenciarPassagem_laco_V2 e (millis s) False ?s1
      = gerenciarPassagem_laco_V2 e (millis s) True
          (delay 50 (println ''Veiculo liberou o sensor de entrada. Aguardando saida...'' ?s1))"
    using nt assms(3,4) by (subst gerenciarPassagem_laco_V2.simps) simp
  moreover have "delay 50 (println ''Veiculo liberou o sensor de entrada. Aguardando saida...'' ?s1)
      = (println ''Veiculo liberou o sensor de entrada. Aguardando saida...'' ?s1)
          \<lparr>agora := agora s + 50 * Suc k1\<rparr>"
    by (simp add: delay_def println_def emitir_def)
  ultimately show ?thesis by simp
qed

lemma passagem_V2_expirada:
  assumes "\<forall>j<k1. sensorEntrada e (agora s + 50 * j)" and "k1 \<le> 600"
    and "\<not> sensorEntrada e (agora s + 50 * k1)" and "estadoCancelaAberta_V2 s"
    and "\<forall>j. k1 < j \<and> j \<le> 600 \<longrightarrow>
           \<not> sensorEntrada e (agora s + 50 * j) \<and> \<not> sensorSaida e (agora s + 50 * j)"
  shows "gerenciarPassagem_laco_V2 e (millis s) False s
       = (True, acionarAvisoSonoroFechamento_V2
            (println ''ERRO: Timeout! O veiculo demorou demais para passar.''
               ((println ''Veiculo liberou o sensor de entrada. Aguardando saida...''
                   (s\<lparr>agora := agora s + 50 * k1\<rparr>))\<lparr>agora := agora s + 30050\<rparr>)))"
proof -
  let ?m = "println ''Veiculo liberou o sensor de entrada. Aguardando saida...''
               (s\<lparr>agora := agora s + 50 * k1\<rparr>)"
  let ?s2 = "?m\<lparr>agora := agora s + 50 * Suc k1\<rparr>"
  let ?s3 = "?m\<lparr>agora := agora s + 30050\<rparr>"
  have t: "gerenciarPassagem_laco_V2 e (millis s) False s
      = gerenciarPassagem_laco_V2 e (millis s) True ?s2"
    using travessia_V2 [OF assms(1-4)] .
  have a: "\<forall>j<600 - k1. \<not> sensorEntrada e (agora ?s2 + 50 * j) \<and> \<not> sensorSaida e (agora ?s2 + 50 * j)"
  proof (intro allI impI)
    fix j assume "j < 600 - k1"
    then have "k1 < Suc k1 + j \<and> Suc k1 + j \<le> 600" by simp
    with assms(5) have "\<not> sensorEntrada e (agora s + 50 * (Suc k1 + j))
        \<and> \<not> sensorSaida e (agora s + 50 * (Suc k1 + j))" by blast
    then show "\<not> sensorEntrada e (agora ?s2 + 50 * j) \<and> \<not> sensorSaida e (agora ?s2 + 50 * j)"
      by (simp add: algebra_simps)
  qed
  have g: "estadoCancelaAberta_V2 ?s2" using assms(4) by (simp add: println_def emitir_def)
  have el: "unat (millis ?s2 - millis s) = 50 * Suc k1"
    using assms(2) by (intro decorrido_agora) simp_all
  have b: "unat (millis ?s2 - millis s) + 50 * (600 - k1) \<le> 30050"
    using el assms(2) by simp
  have "gerenciarPassagem_laco_V2 e (millis s) True ?s2
      = gerenciarPassagem_laco_V2 e (millis s) True (?s2\<lparr>agora := agora ?s2 + 50 * (600 - k1)\<rparr>)"
    using espera_saida_V2 [OF a g b] .
  also have "?s2\<lparr>agora := agora ?s2 + 50 * (600 - k1)\<rparr> = ?s3"
    using assms(2) by simp
  finally have r: "gerenciarPassagem_laco_V2 e (millis s) True ?s2
      = gerenciarPassagem_laco_V2 e (millis s) True ?s3" .
  have "unat (millis ?s3 - millis s) = 30050"
    by (intro decorrido_agora) simp_all
  then have d: "millis ?s3 - millis s > TIMEOUT_OPERACAO_V2"
    by (simp add: TIMEOUT_OPERACAO_V2_def word_less_nat_alt)
  have g3: "estadoCancelaAberta_V2 ?s3" using assms(4) by (simp add: println_def emitir_def)
  have "gerenciarPassagem_laco_V2 e (millis s) True ?s3
      = (True, acionarAvisoSonoroFechamento_V2
            (println ''ERRO: Timeout! O veiculo demorou demais para passar.'' ?s3))"
    using d g3 by (subst gerenciarPassagem_laco_V2.simps) simp
  with t r show ?thesis by simp
qed

lemma passagem_V2_concluida:
  assumes "\<forall>j<k1. sensorEntrada e (agora s + 50 * j)" and "k1 < m" and "m \<le> 600"
    and "\<not> sensorEntrada e (agora s + 50 * k1)" and "estadoCancelaAberta_V2 s"
    and "\<forall>j. k1 < j \<and> j < m \<longrightarrow>
           \<not> sensorEntrada e (agora s + 50 * j) \<and> \<not> sensorSaida e (agora s + 50 * j)"
    and "\<not> sensorEntrada e (agora s + 50 * m)" and "sensorSaida e (agora s + 50 * m)"
  shows "gerenciarPassagem_laco_V2 e (millis s) False s
       = (False, fecharCancela_V2 (delay ESPERA_PARA_FECHAR_V2
            (println ''Veiculo passando pelo sensor de saida.''
               ((println ''Veiculo liberou o sensor de entrada. Aguardando saida...''
                   (s\<lparr>agora := agora s + 50 * k1\<rparr>))\<lparr>agora := agora s + 50 * m\<rparr>))))"
proof -
  let ?m = "println ''Veiculo liberou o sensor de entrada. Aguardando saida...''
               (s\<lparr>agora := agora s + 50 * k1\<rparr>)"
  let ?s2 = "?m\<lparr>agora := agora s + 50 * Suc k1\<rparr>"
  let ?s3 = "?m\<lparr>agora := agora s + 50 * m\<rparr>"
  have k: "k1 \<le> 600" using assms(2,3) by simp
  have t: "gerenciarPassagem_laco_V2 e (millis s) False s
      = gerenciarPassagem_laco_V2 e (millis s) True ?s2"
    using travessia_V2 [OF assms(1) k assms(4,5)] .
  have a: "\<forall>j<m - Suc k1. \<not> sensorEntrada e (agora ?s2 + 50 * j) \<and> \<not> sensorSaida e (agora ?s2 + 50 * j)"
  proof (intro allI impI)
    fix j assume "j < m - Suc k1"
    then have "k1 < Suc k1 + j \<and> Suc k1 + j < m" by simp
    with assms(6) have "\<not> sensorEntrada e (agora s + 50 * (Suc k1 + j))
        \<and> \<not> sensorSaida e (agora s + 50 * (Suc k1 + j))" by blast
    then show "\<not> sensorEntrada e (agora ?s2 + 50 * j) \<and> \<not> sensorSaida e (agora ?s2 + 50 * j)"
      by (simp add: algebra_simps)
  qed
  have g: "estadoCancelaAberta_V2 ?s2" using assms(5) by (simp add: println_def emitir_def)
  have el: "unat (millis ?s2 - millis s) = 50 * Suc k1"
    using k by (intro decorrido_agora) simp_all
  have b: "unat (millis ?s2 - millis s) + 50 * (m - Suc k1) \<le> 30050"
    using el assms(2,3) by simp
  have "gerenciarPassagem_laco_V2 e (millis s) True ?s2
      = gerenciarPassagem_laco_V2 e (millis s) True (?s2\<lparr>agora := agora ?s2 + 50 * (m - Suc k1)\<rparr>)"
    using espera_saida_V2 [OF a g b] .
  also have "?s2\<lparr>agora := agora ?s2 + 50 * (m - Suc k1)\<rparr> = ?s3"
    using assms(2) by (simp add: algebra_simps)
  finally have r: "gerenciarPassagem_laco_V2 e (millis s) True ?s2
      = gerenciarPassagem_laco_V2 e (millis s) True ?s3" .
  have "unat (millis ?s3 - millis s) = 50 * m"
    using assms(3) by (intro decorrido_agora) simp_all
  then have d: "\<not> millis ?s3 - millis s > TIMEOUT_OPERACAO_V2"
    using assms(3) by (simp add: TIMEOUT_OPERACAO_V2_def nao_expirou)
  have g3: "estadoCancelaAberta_V2 ?s3" using assms(5) by (simp add: println_def emitir_def)
  have "gerenciarPassagem_laco_V2 e (millis s) True ?s3
      = (False, fecharCancela_V2 (delay ESPERA_PARA_FECHAR_V2
            (println ''Veiculo passando pelo sensor de saida.'' ?s3)))"
    using d g3 assms(7,8) by (subst gerenciarPassagem_laco_V2.simps) (simp add: executar_def)
  with t r show ?thesis by simp
qed

lemma passagem_V2_expirada_na_entrada:
  assumes "\<forall>j\<le>600. sensorEntrada e (agora s + 50 * j)" and "estadoCancelaAberta_V2 s"
  shows "gerenciarPassagem_laco_V2 e (millis s) False s
       = (True, acionarAvisoSonoroFechamento_V2
            (println ''ERRO: Timeout! O veiculo demorou demais para passar.''
               (s\<lparr>agora := agora s + 30050\<rparr>)))"
proof -
  let ?s3 = "s\<lparr>agora := agora s + 30050\<rparr>"
  have a: "\<forall>j<601. sensorEntrada e (agora s + 50 * j)" using assms(1) by simp
  have "gerenciarPassagem_laco_V2 e (millis s) False s
      = gerenciarPassagem_laco_V2 e (millis s) False (s\<lparr>agora := agora s + 50 * 601\<rparr>)"
    using espera_entrada_V2 [OF a assms(2), of "millis s"] by simp
  then have r: "gerenciarPassagem_laco_V2 e (millis s) False s
      = gerenciarPassagem_laco_V2 e (millis s) False ?s3" by simp
  have "unat (millis ?s3 - millis s) = 30050"
    by (intro decorrido_agora) simp_all
  then have d: "millis ?s3 - millis s > TIMEOUT_OPERACAO_V2"
    by (simp add: TIMEOUT_OPERACAO_V2_def word_less_nat_alt)
  have "gerenciarPassagem_laco_V2 e (millis s) False ?s3
      = (True, acionarAvisoSonoroFechamento_V2
            (println ''ERRO: Timeout! O veiculo demorou demais para passar.'' ?s3))"
    using d assms(2) by (subst gerenciarPassagem_laco_V2.simps) simp
  with r show ?thesis by simp
qed

section \<open>When \<^verbatim>\<open>loop()\<close> does not start a passage\<close>

lemma operarModoManual_laco_tickets:
  assumes "operarModoManual_laco e t s = Some s'"
  shows "ticketsEmitidos s' = ticketsEmitidos s"
proof (rule operarModoManual_laco.raw_induct
         [where P = "\<lambda>e t s s'. ticketsEmitidos s' = ticketsEmitidos s", OF _ assms])
  fix laco e tempoMsgManual and s s' :: estado_V5
  assume hi: "\<And>e t s s'. laco e t s = Some s' \<Longrightarrow> ticketsEmitidos s' = ticketsEmitidos s"
    and passo: "(if chaveManual e (agora s)
      then if INTERVALO_MENSAGEM_STATUS_V5 < millis s - tempoMsgManual
           then laco e (millis s)
                 (delay 100 (println ''A cancela esta em modo de operacao manual.'' s))
           else laco e tempoMsgManual (delay 100 s)
      else Some (fecharCancela_V5 (println ''--- MODO MANUAL DESATIVADO ---'' s))) = Some s'"
  have "ticketsEmitidos (fecharCancela_V5 (println ''--- MODO MANUAL DESATIVADO ---'' s))
      = ticketsEmitidos s"
    by (simp add: fecharCancela_V5_eq println_def emitir_def log_defs)
  then show "ticketsEmitidos s' = ticketsEmitidos s"
    using passo
      hi [of e "millis s"
            "delay 100 (println ''A cancela esta em modo de operacao manual.'' s)" s']
      hi [of e tempoMsgManual "delay 100 s" s']
    by (auto split: if_splits)
qed

lemma loop_V3_fechada:
  assumes "\<not> estadoCancelaAberta_V3 s" and "loop_V3 e s = Some s'"
  shows "\<not> estadoCancelaAberta_V3 s'"
proof -
  define s2 where "s2 = verificarResetDiarioContador_V3 e (atualizarRelogio_V3 e s)"
  have a: "\<not> estadoCancelaAberta_V3 s2"
    using assms(1)
    by (simp add: s2_def verificarResetDiarioContador_V3_def atualizarRelogio_V3_def Let_def
          executar_def println_def emitir_def)
  have b: "\<not> estadoCancelaAberta_V3 (gerenciarStatusOcioso_V3 e s2)"
    using a
    by (simp add: gerenciarStatusOcioso_V3_def Let_def executar_def println_def emitir_def)
  show ?thesis
    using assms(2) b passagem_V3_fecha
    unfolding loop_V3_def Let_def s2_def [symmetric]
    by (auto split: if_splits option.splits)
qed

text \<open>V3 does not test the gate before it admits a vehicle, but whenever \<^verbatim>\<open>loop()\<close> is
  entered the gate is shut: \<^verbatim>\<open>setup()\<close> shuts it, and every pass through \<^verbatim>\<open>loop()\<close> that
  returns leaves it shut.\<close>

lemma alcancavel_V3_fechada: "alcancavel_V3 e s \<Longrightarrow> \<not> estadoCancelaAberta_V3 s"
proof (induction rule: alcancavel_V3.induct)
  case (inicio gravado)
  show ?case by (simp add: setup_V3_def executar_def fecharCancela_V3_eq)
next
  case (passo s s')
  then show ?case using loop_V3_fechada by blast
qed

lemma loop_V3_sem_pedido:
  assumes "\<not> (sensorEntrada e (agora s) \<and> botaoTicket e (agora s))"
  shows "\<exists>s'. loop_V3 e s = Some s' \<and> ticketsEmitidos s' = ticketsEmitidos s"
proof -
  define s2 where "s2 = verificarResetDiarioContador_V3 e (atualizarRelogio_V3 e s)"
  have a: "agora s2 = agora s \<and> ticketsEmitidos s2 = ticketsEmitidos s"
    by (simp add: s2_def verificarResetDiarioContador_V3_def atualizarRelogio_V3_def Let_def
          executar_def println_def emitir_def log_defs)
  have b: "ticketsEmitidos (gerenciarStatusOcioso_V3 e s2) = ticketsEmitidos s2"
    by (simp add: gerenciarStatusOcioso_V3_def Let_def executar_def println_def emitir_def
          log_defs)
  have c: "\<not> (sensorEntrada e (agora s2) \<and> botaoTicket e (agora s2))"
    using assms a by simp
  have "loop_V3 e s = Some (gerenciarStatusOcioso_V3 e s2)"
    unfolding loop_V3_def Let_def s2_def [symmetric] using c by (simp only: if_False)
  then show ?thesis using a b by simp
qed

lemma loop_V2_sem_pedido:
  assumes "\<not> (sensorEntrada e (agora s) \<and> botaoTicket e (agora s)
              \<and> \<not> estadoCancelaAberta_V2 s)"
  shows "ticketsEmitidos (loop_V2 e s) = ticketsEmitidos s"
proof -
  define s2 where "s2 = resetDiario_V2 (sincronizarRelogio_V2 e s)"
  have a: "agora s2 = agora s \<and> ticketsEmitidos s2 = ticketsEmitidos s
      \<and> estadoCancelaAberta_V2 s2 = estadoCancelaAberta_V2 s"
    by (simp add: s2_def resetDiario_V2_def sincronizarRelogio_V2_def salvarContador_V2_def
          Let_def executar_def println_def emitir_def log_defs)
  show ?thesis
    using assms a unfolding loop_V2_def Let_def s2_def [symmetric]
    by (simp add: executar_def println_def emitir_def log_defs)
qed

lemma loop_V5_sem_pedido:
  assumes "\<not> (distanciaEntrada e (agora s) \<le> DISTANCIA_DETECCAO_CM_V5
              \<and> botaoTicket e (agora s) \<and> \<not> cancelaAberta_V5 s)"
    and "loop_V5 e s = Some s'"
  shows "ticketsEmitidos s' = ticketsEmitidos s"
proof (cases "chaveManual e (agora s)")
  case True
  then have "operarModoManual_laco e
       (millis (abrirCancela_V5 (println ''--- MODO MANUAL ATIVADO ---'' s)))
       (abrirCancela_V5 (println ''--- MODO MANUAL ATIVADO ---'' s)) = Some s'"
    using assms(2) by (simp add: loop_V5_def operarModoManual_V5_def Let_def)
  then have "ticketsEmitidos s'
      = ticketsEmitidos (abrirCancela_V5 (println ''--- MODO MANUAL ATIVADO ---'' s))"
    by (rule operarModoManual_laco_tickets)
  then show ?thesis
    by (simp add: abrirCancela_V5_def placa_defs log_defs)
next
  case False
  then show ?thesis
    using assms
    by (auto simp: loop_V5_def Let_def exibirStatusPeriodico_V5_def executar_def
          println_def emitir_def log_defs split: if_splits)
qed

section \<open>Test runs\<close>

lemma setup_V3_teste:
  "setup_V3 ambiente_passagem (estadoInicial_V3 0) =
    \<lparr>agora = 500,
      eventos =
        [(0, Serial (Texto ''Conectando ao Wi-Fi'')),
         (0, Serial (Texto ''WiFi conectado!'')), (0, LedAmarelo False),
         (0, LedVerde False), (0, LedVermelho True), (0, Servo 1495),
         (0, Serial (Texto ''[ACAO] Cancela Fechada.'')),
         (500, Serial (Texto ''============================================='')),
         (500, Serial (Texto ''Sistema de Controle de Cancela Iniciado.'')),
         (500, Serial (Texto ''=============================================''))],
      contadorVeiculos_V3 = 0, estadoCancelaAberta_V3 = False,
      ultimaDataReset_V3 = ''10/07/2025'', ultimoTempoStatus_V3 = 0, eeprom_V3 = 0\<rparr>"
  by (simp add: setup_V3_def ambiente_passagem_def ambiente_teste_def estadoInicial_V3_def
        conectarWiFi_V3_def conectarWiFi_laco.simps atualizarRelogio_V3_def
        obterDataFormatada_V3_def fecharCancela_V3_eq placa_defs SERVO_POSICAO_FECHADA_def)

lemma loop_V3_teste:
  "map_option (\<lambda>s. (contadorVeiculos_V3 s, ticketsEmitidos s, comandosServo s, agora s))
     (loop_V3 ambiente_passagem (setup_V3 ambiente_passagem (estadoInicial_V3 0)))
   = Some (1, [1], [1495, 500, 1495], 6500)"
  unfolding setup_V3_teste
  by (simp add: loop_V3_def Let_def ambiente_passagem_def ambiente_teste_def
        atualizarRelogio_V3_def verificarResetDiarioContador_V3_def obterDataFormatada_V3_def
        obterHoraFormatada_V3_def
        simularImpressaoTicket_V3_def aguardarRetiradaTicket_V3_def
        aguardarRetiradaTicket_laco.simps abrirCancela_V3_eq passagem_V3_def
        monitorarPassagemEntrada_V3_def monitorarPassagemEntrada_laco.simps
        monitorarPassagemSaida_V3_def monitorarPassagemSaida_laco.simps
        fecharCancela_V3_eq placa_defs log_defs DURACAO_IMPRESSAO_V3_def DELAY_POS_SAIDA_V3_def
        SERVO_POSICAO_FECHADA_def SERVO_POSICAO_ABERTA_def)

lemma loop_V2_teste:
  "ticketsEmitidos (loop_V2 (ambiente_teste (\<lambda>t. t < 3500) (\<lambda>t. 3500 \<le> t))
                      (estado_teste_V2 0 7 False)) = [8]
   \<and> contadorVeiculos_V2 (loop_V2 (ambiente_teste (\<lambda>t. t < 3500) (\<lambda>t. 3500 \<le> t))
                      (estado_teste_V2 0 7 False)) = 8"
  by (simp add: loop_V2_def Let_def ambiente_teste_def estado_teste_V2_def
        sincronizarRelogio_V2_def resetDiario_V2_def entradaVeiculo_V2_def emitirTicket_V2_def
        abrirCancela_V2_def gerenciarPassagem_laco_V2.simps fecharCancela_V2_def
        salvarContador_V2_def placa_defs log_defs
        TIMEOUT_OPERACAO_V2_def DURACAO_IMPRESSAO_V2_def TEMPO_MOVIMENTO_CANCELA_V2_def
        ESPERA_PARA_FECHAR_V2_def)

lemma loop_V5_teste:
  "map_option (\<lambda>s. (contadorVeiculos_V5 s, ticketsEmitidos s, comandosServo s, agora s))
     (loop_V5 (ambiente_teste (\<lambda>t. t < 3000) (\<lambda>t. 3000 \<le> t)) (estado_teste_V5 0 7 False))
   = Some (8, [8], [500, 1495], 5000)"
  by (simp add: loop_V5_def Let_def ambiente_teste_def estado_teste_V5_def
        iniciarProcessoEntradaVeiculo_V5_def simularImpressaoTicket_V5_def abrirCancela_V5_def
        monitorarPassagemEntrada_V5_def monitorarPassagemEntrada_laco_V5.simps
        monitorarSaidaEAntifraude_V5_def monitorarSaidaEAntifraude_laco.simps
        fecharCancela_V5_eq placa_defs log_defs
        DISTANCIA_DETECCAO_CM_V5_def INTERVALO_RESET_CONTADOR_V5_def
        DURACAO_SIMULACAO_IMPRESSAO_V5_def ATRASO_FECHAMENTO_APOS_SAIDA_V5_def
        SERVO_POSICAO_FECHADA_def SERVO_POSICAO_ABERTA_def)

section \<open>The daily reset of V3 as \<^verbatim>\<open>loop()\<close> runs it\<close>

text \<open>\<^verbatim>\<open>loop()\<close> calls \<^verbatim>\<open>atualizarRelogio()\<close> and then \<^verbatim>\<open>verificarResetDiarioContador()\<close>.
  Neither moves the clock, so both see the same current date; the first sets an unset
  \<^verbatim>\<open>ultimaDataReset\<close> to that date.\<close>

lemma data_apos_relogio [simp]:
  "obterDataFormatada_V3 e (atualizarRelogio_V3 e s) = obterDataFormatada_V3 e s"
  by (simp add: obterDataFormatada_V3_def atualizarRelogio_V3_def)

lemma relogio_define_data:
  "obterDataFormatada_V3 e s \<noteq> [] \<Longrightarrow> ultimaDataReset_V3 (atualizarRelogio_V3 e s) \<noteq> []"
  by (simp add: atualizarRelogio_V3_def)

lemma relogio_ja_definido:
  "ultimaDataReset_V3 s \<noteq> [] \<Longrightarrow> atualizarRelogio_V3 e s = s"
  by (simp add: atualizarRelogio_V3_def)

lemma reset_V3_dispara:
  assumes "obterDataFormatada_V3 e s \<noteq> ultimaDataReset_V3 s" and "ultimaDataReset_V3 s \<noteq> []"
  shows "verificarResetDiarioContador_V3 e s
       = (println ''[INFO] Novo dia detectado! Resetando contador de veiculos.'' s)
           \<lparr>contadorVeiculos_V3 := 0, eeprom_V3 := 0,
            ultimaDataReset_V3 := obterDataFormatada_V3 e s\<rparr>"
  using assms by (simp add: verificarResetDiarioContador_V3_def Let_def executar_def)

lemma reset_V3_nao_dispara:
  assumes "obterDataFormatada_V3 e s = ultimaDataReset_V3 s \<or> ultimaDataReset_V3 s = []"
  shows "verificarResetDiarioContador_V3 e s = s"
  using assms by (auto simp add: verificarResetDiarioContador_V3_def Let_def)

lemma reset_V3_idempotente:
  "verificarResetDiarioContador_V3 e (verificarResetDiarioContador_V3 e s)
     = verificarResetDiarioContador_V3 e s"
proof (cases "obterDataFormatada_V3 e s \<noteq> ultimaDataReset_V3 s \<and> ultimaDataReset_V3 s \<noteq> []")
  case True
  let ?s' = "(println ''[INFO] Novo dia detectado! Resetando contador de veiculos.'' s)
           \<lparr>contadorVeiculos_V3 := 0, eeprom_V3 := 0,
            ultimaDataReset_V3 := obterDataFormatada_V3 e s\<rparr>"
  have a: "verificarResetDiarioContador_V3 e s = ?s'"
    using True reset_V3_dispara by blast
  have "obterDataFormatada_V3 e ?s' = ultimaDataReset_V3 ?s'"
    by (simp add: obterDataFormatada_V3_def println_def emitir_def)
  then have "verificarResetDiarioContador_V3 e ?s' = ?s'"
    by (intro reset_V3_nao_dispara disjI1)
  then show ?thesis by (simp only: a)
next
  case False
  then have "verificarResetDiarioContador_V3 e s = s"
    by (intro reset_V3_nao_dispara) blast
  then show ?thesis by simp
qed

lemma data_apos_reset [simp]:
  "obterDataFormatada_V3 e (verificarResetDiarioContador_V3 e s) = obterDataFormatada_V3 e s"
proof (cases "obterDataFormatada_V3 e s \<noteq> ultimaDataReset_V3 s \<and> ultimaDataReset_V3 s \<noteq> []")
  case True
  then show ?thesis
    by (simp add: reset_V3_dispara) (simp add: obterDataFormatada_V3_def println_def emitir_def)
next
  case False
  then have "verificarResetDiarioContador_V3 e s = s"
    by (intro reset_V3_nao_dispara) blast
  then show ?thesis by simp
qed

lemma reset_V3_mantem_data_definida:
  assumes "ultimaDataReset_V3 s \<noteq> []" and "obterDataFormatada_V3 e s \<noteq> []"
  shows "ultimaDataReset_V3 (verificarResetDiarioContador_V3 e s) \<noteq> []"
proof (cases "obterDataFormatada_V3 e s \<noteq> ultimaDataReset_V3 s")
  case True
  then show ?thesis using assms by (simp add: reset_V3_dispara)
next
  case False
  then show ?thesis using assms by (simp add: reset_V3_nao_dispara)
qed

section \<open>V4 from power-on to the limit of its counter\<close>









section \<open>The claims\<close>

text \<open>
  Claim C6. The two failure resolutions of V3 close the gate differently. On a poll that
  times out (in the entry wait or in the exit wait) the program runs
  \<^verbatim>\<open>emitirAvisoFechamento\<close>: the buzzer is switched on \<open>BEEP_AVISO_TIMEOUT_V3 = 5\<close> times,
  for 200 ms each, one beep per second, and the servo is commanded shut only after the last
  beep, 5000 ms after the poll. On a poll that detects a second vehicle (exit sensor clear,
  entry sensor active) the servo is commanded shut at the time of the poll itself, with no
  buzzer event and no wait before the command.
\<close>

theorem fechamento_assimetrico_V3:
  "(sensorEntrada e (agora s) \<and> millis s - t0 > TIMEOUT_OPERACAO_V3 \<longrightarrow>
      monitorarPassagemEntrada_laco e t0 s = (True, emitirAvisoFechamento_V3 s))
   \<and> (\<not> sensorSaida e (agora s) \<and> \<not> sensorEntrada e (agora s)
        \<and> millis s - t0 > TIMEOUT_OPERACAO_V3 \<longrightarrow>
      monitorarPassagemSaida_laco e t0 s = (True, emitirAvisoFechamento_V3 s))
   \<and> (\<not> sensorSaida e (agora s) \<and> sensorEntrada e (agora s) \<longrightarrow>
      monitorarPassagemSaida_laco e t0 s =
        (True, s\<lparr>agora := agora s + 500,
           eventos := eventos s @
             [(agora s, Serial (Texto ''[ALERTA] Fraude detectada! Veiculo nao autorizado tentou entrar. Fechando cancela.'')),
              (agora s, LedAmarelo False), (agora s, LedVerde False),
              (agora s, LedVermelho True), (agora s, Servo SERVO_POSICAO_FECHADA),
              (agora s, Serial (Texto ''[ACAO] Cancela Fechada.''))],
           estadoCancelaAberta_V3 := False\<rparr>))
   \<and> emitirAvisoFechamento_V3 s = s\<lparr>agora := agora s + 5500,
        eventos := eventos s @
          [(agora s, Serial (Texto ''[ALERTA] A cancela sera fechada em 5 segundos!'')),
           (agora s, Buzzer True), (agora s + 200, Buzzer False),
           (agora s + 1000, Buzzer True), (agora s + 1200, Buzzer False),
           (agora s + 2000, Buzzer True), (agora s + 2200, Buzzer False),
           (agora s + 3000, Buzzer True), (agora s + 3200, Buzzer False),
           (agora s + 4000, Buzzer True), (agora s + 4200, Buzzer False),
           (agora s + 5000, LedAmarelo False), (agora s + 5000, LedVerde False),
           (agora s + 5000, LedVermelho True), (agora s + 5000, Servo SERVO_POSICAO_FECHADA),
           (agora s + 5000, Serial (Texto ''[ACAO] Cancela Fechada.''))],
        estadoCancelaAberta_V3 := False\<rparr>
   \<and> length (filter (\<lambda>x. snd x = Buzzer True) (eventos (emitirAvisoFechamento_V3 s)))
       = length (filter (\<lambda>x. snd x = Buzzer True) (eventos s)) + BEEP_AVISO_TIMEOUT_V3"
  by (simp add: monitorarPassagemEntrada_laco.simps monitorarPassagemSaida_laco.simps
        fecharCancela_V3_eq emitirAvisoFechamento_V3_eq println_def emitir_def
        BEEP_AVISO_TIMEOUT_V3_def)

theorem fechamento_assimetrico_V3_witness:
  "(sensorEntrada (ambiente_teste (\<lambda>t. True) (\<lambda>t. False)) 40000
      \<and> millis (estado_teste_V3 40000 7 True) - 0 > TIMEOUT_OPERACAO_V3
      \<and> monitorarPassagemEntrada_laco (ambiente_teste (\<lambda>t. True) (\<lambda>t. False)) 0
           (estado_teste_V3 40000 7 True)
         = (True, emitirAvisoFechamento_V3 (estado_teste_V3 40000 7 True)))
   \<and> (\<not> sensorSaida (ambiente_teste (\<lambda>t. False) (\<lambda>t. False)) 40000
      \<and> \<not> sensorEntrada (ambiente_teste (\<lambda>t. False) (\<lambda>t. False)) 40000
      \<and> monitorarPassagemSaida_laco (ambiente_teste (\<lambda>t. False) (\<lambda>t. False)) 0
           (estado_teste_V3 40000 7 True)
         = (True, emitirAvisoFechamento_V3 (estado_teste_V3 40000 7 True)))
   \<and> (\<not> sensorSaida (ambiente_teste (\<lambda>t. True) (\<lambda>t. False)) 40000
      \<and> sensorEntrada (ambiente_teste (\<lambda>t. True) (\<lambda>t. False)) 40000
      \<and> eventos (snd (monitorarPassagemSaida_laco (ambiente_teste (\<lambda>t. True) (\<lambda>t. False)) 0
           (estado_teste_V3 40000 7 True)))
         = [(40000, Serial (Texto ''[ALERTA] Fraude detectada! Veiculo nao autorizado tentou entrar. Fechando cancela.'')),
            (40000, LedAmarelo False), (40000, LedVerde False),
            (40000, LedVermelho True), (40000, Servo 1495),
            (40000, Serial (Texto ''[ACAO] Cancela Fechada.''))])"
  using fechamento_assimetrico_V3
          [of "ambiente_teste (\<lambda>t. True) (\<lambda>t. False)" "estado_teste_V3 40000 7 True" 0]
        fechamento_assimetrico_V3
          [of "ambiente_teste (\<lambda>t. False) (\<lambda>t. False)" "estado_teste_V3 40000 7 True" 0]
  by (simp add: ambiente_teste_def estado_teste_V3_def millis_def TIMEOUT_OPERACAO_V3_def
        SERVO_POSICAO_FECHADA_def)

text \<open>
  Claim C1, as the code has it. In the exit wait the first thing a poll looks at is the
  exit sensor: when it reports a vehicle the passage is a success, whatever the entry
  sensor reads on that poll (V3 and V4). Only when the exit sensor is clear does an
  active entry sensor resolve the poll as fraud; in V3 that check comes before the
  deadline, so fraud wins over an expired deadline, while V4 tests the deadline first, so
  there an expired deadline wins over fraud and fraud needs a deadline not yet passed.
\<close>

theorem precedencia_na_saida:
  "(sensorSaida e (agora s) \<longrightarrow>
      monitorarPassagemSaida_laco e t0 s =
        (False, fecharCancela_V3 (delay DELAY_POS_SAIDA_V3
           (println ''[INFO] Veiculo detectado no sensor de saida. Fechando em 2s.'' s))))
   \<and> (\<not> sensorSaida e (agora s) \<and> sensorEntrada e (agora s) \<longrightarrow>
      monitorarPassagemSaida_laco e t0 s =
        (True, fecharCancela_V3 (println ''[ALERTA] Fraude detectada! Veiculo nao autorizado tentou entrar. Fechando cancela.'' s)))
   \<and> (sensorSaida e (agora s4) \<longrightarrow>
      gerenciarSegurancaSaida_laco e t0 u s4 =
        fecharCancela_V4 (delay ATRASO_FECHAMENTO_V4
          (println ''Veiculo detectado na saida. Fechando a cancela em 2 segundos.'' s4)))
   \<and> (\<not> sensorSaida e (agora s4) \<and> millis s4 - t0 > TIMEOUT_OPERACAO_V4 \<longrightarrow>
      gerenciarSegurancaSaida_laco e t0 u s4 =
        (emitirAvisoSonoroFechamento_V4
           (println ''TIMEOUT: Veiculo nao alcancou a saida. Cancelando operacao.'' s4))
        \<lparr>timeoutSaidaOcorrido_V4 := True\<rparr>)
   \<and> (\<not> sensorSaida e (agora s4) \<and> \<not> millis s4 - t0 > TIMEOUT_OPERACAO_V4
        \<and> distanciaEntrada e (agora s4) \<le> DISTANCIA_PRESENCA_VEICULO_CM_V4 \<longrightarrow>
      gerenciarSegurancaSaida_laco e t0 u s4 =
        (fecharCancela_V4
           (println ''ANTI-FRAUDE: Segundo veiculo detectado na entrada. Fechando imediatamente!'' s4))
        \<lparr>timeoutSaidaOcorrido_V4 := True\<rparr>)"
  by (simp add: monitorarPassagemSaida_laco.simps gerenciarSegurancaSaida_laco.simps executar_def)

text \<open>Both sensors active on the first poll of the exit wait of V3: the wait returns
  \<open>False\<close> (success) after the 2 s settle delay, and no fraud is reported. Entry sensor
  active on a poll of the exit wait of V4 taken 36 s after the wait began: the program
  announces a timeout and beeps five times before it shuts the gate.\<close>

theorem precedencia_na_saida_counterexample:
  "sensorEntrada (ambiente_teste (\<lambda>t. True) (\<lambda>t. True)) (agora (estado_teste_V3 4000 7 True))
   \<and> sensorSaida (ambiente_teste (\<lambda>t. True) (\<lambda>t. True)) (agora (estado_teste_V3 4000 7 True))
   \<and> monitorarPassagemSaida_V3 (ambiente_teste (\<lambda>t. True) (\<lambda>t. True)) (estado_teste_V3 4000 7 True)
       = (False, (estado_teste_V3 4000 7 True)\<lparr>agora := 6500,
            eventos :=
              [(4000, Serial (Texto ''[INFO] Veiculo detectado no sensor de saida. Fechando em 2s.'')),
               (6000, LedAmarelo False), (6000, LedVerde False), (6000, LedVermelho True),
               (6000, Servo 1495), (6000, Serial (Texto ''[ACAO] Cancela Fechada.''))],
            estadoCancelaAberta_V3 := False\<rparr>)
   \<and> distanciaEntrada (ambiente_teste (\<lambda>t. True) (\<lambda>t. False)) (agora (estado_teste_V4 40000 7 True))
        \<le> DISTANCIA_PRESENCA_VEICULO_CM_V4
   \<and> \<not> sensorSaida (ambiente_teste (\<lambda>t. True) (\<lambda>t. False)) (agora (estado_teste_V4 40000 7 True))
   \<and> millis (estado_teste_V4 40000 7 True) - 4000 > TIMEOUT_OPERACAO_V4
   \<and> eventos (gerenciarSegurancaSaida_laco (ambiente_teste (\<lambda>t. True) (\<lambda>t. False)) 4000 0
         (estado_teste_V4 40000 7 True))
       = [(40000, Serial (Texto ''TIMEOUT: Veiculo nao alcancou a saida. Cancelando operacao.'')),
          (40000, Serial (Texto ''AVISO: A cancela fechara em 5 segundos!'')),
          (40000, Buzzer True), (40250, Buzzer False),
          (40500, Buzzer True), (40750, Buzzer False),
          (41000, Buzzer True), (41250, Buzzer False),
          (41500, Buzzer True), (41750, Buzzer False),
          (42000, Buzzer True), (42250, Buzzer False),
          (42500, LedAmarelo False), (42500, LedVerde False),
          (42500, LedVermelho True), (42500, Servo 1495),
          (42500, Serial (Texto ''-> Cancela fechada.''))]"
  by (simp add: monitorarPassagemSaida_V3_def monitorarPassagemSaida_laco.simps
        gerenciarSegurancaSaida_laco.simps executar_def ambiente_teste_def estado_teste_V3_def
        estado_teste_V4_def fecharCancela_V3_eq emitirAvisoSonoroFechamento_V4_eq
        println_def emitir_def delay_def millis_def DELAY_POS_SAIDA_V3_def
        SERVO_POSICAO_FECHADA_def TIMEOUT_OPERACAO_V4_def DISTANCIA_PRESENCA_VEICULO_CM_V4_def)

theorem precedencia_na_saida_witness:
  "sensorSaida (ambiente_teste (\<lambda>t. True) (\<lambda>t. True)) (agora (estado_teste_V3 4000 7 True))
   \<and> fst (monitorarPassagemSaida_laco (ambiente_teste (\<lambda>t. True) (\<lambda>t. True)) 4000
            (estado_teste_V3 4000 7 True)) = False
   \<and> \<not> sensorSaida (ambiente_teste (\<lambda>t. True) (\<lambda>t. False)) (agora (estado_teste_V3 40000 7 True))
   \<and> sensorEntrada (ambiente_teste (\<lambda>t. True) (\<lambda>t. False)) (agora (estado_teste_V3 40000 7 True))
   \<and> fst (monitorarPassagemSaida_laco (ambiente_teste (\<lambda>t. True) (\<lambda>t. False)) 4000
            (estado_teste_V3 40000 7 True)) = True
   \<and> sensorSaida (ambiente_teste (\<lambda>t. True) (\<lambda>t. True)) (agora (estado_teste_V4 4000 7 True))
   \<and> \<not> timeoutSaidaOcorrido_V4
          (gerenciarSegurancaSaida_laco (ambiente_teste (\<lambda>t. True) (\<lambda>t. True)) 4000 0
             (estado_teste_V4 4000 7 True))
   \<and> millis (estado_teste_V4 40000 7 True) - 4000 > TIMEOUT_OPERACAO_V4
   \<and> timeoutSaidaOcorrido_V4
          (gerenciarSegurancaSaida_laco (ambiente_teste (\<lambda>t. True) (\<lambda>t. False)) 4000 0
             (estado_teste_V4 40000 7 True))
   \<and> \<not> millis (estado_teste_V4 5000 7 True) - 4000 > TIMEOUT_OPERACAO_V4
   \<and> distanciaEntrada (ambiente_teste (\<lambda>t. True) (\<lambda>t. False)) (agora (estado_teste_V4 5000 7 True))
        \<le> DISTANCIA_PRESENCA_VEICULO_CM_V4
   \<and> eventos (gerenciarSegurancaSaida_laco (ambiente_teste (\<lambda>t. True) (\<lambda>t. False)) 4000 0
          (estado_teste_V4 5000 7 True))
       = [(5000, Serial (Texto
             ''ANTI-FRAUDE: Segundo veiculo detectado na entrada. Fechando imediatamente!'')),
          (5000, LedAmarelo False), (5000, LedVerde False), (5000, LedVermelho True),
          (5000, Servo 1495), (5000, Serial (Texto ''-> Cancela fechada.''))]"
  using precedencia_na_saida [of "ambiente_teste (\<lambda>t. True) (\<lambda>t. True)"
          "estado_teste_V3 4000 7 True" 4000 "estado_teste_V4 4000 7 True" 0]
        precedencia_na_saida [of "ambiente_teste (\<lambda>t. True) (\<lambda>t. False)"
          "estado_teste_V3 40000 7 True" 4000 "estado_teste_V4 40000 7 True" 0]
        precedencia_na_saida [of "ambiente_teste (\<lambda>t. True) (\<lambda>t. False)"
          "estado_teste_V3 40000 7 True" 4000 "estado_teste_V4 5000 7 True" 0]
  by (simp add: ambiente_teste_def estado_teste_V3_def estado_teste_V4_def
        fecharCancela_V4_eq emitirAvisoSonoroFechamento_V4_eq
        println_def emitir_def delay_def millis_def
        SERVO_POSICAO_FECHADA_def TIMEOUT_OPERACAO_V4_def DISTANCIA_PRESENCA_VEICULO_CM_V4_def)

text \<open>
  Claim C2, as the code has it. The number printed on the ticket is the stored counter
  plus one in both revisions. V3 prints \<^verbatim>\<open>contadorVeiculos + 1\<close> and leaves the counter as
  it was; V4 increments \<^verbatim>\<open>contadorVeiculosDia\<close> first and prints it, so when the ticket is
  shown the stored counter of V4 already holds the new number.
\<close>

theorem numeracao_do_ticket:
  "eventos (simularImpressaoTicket_V3 e s) = eventos s @
        [(agora s, Serial (Texto ''Imprimindo ticket...'')),
         (agora s, LedAmarelo True),
         (agora s + 1500, Serial (Texto ''| ==================== |'')),
         (agora s + 1500, Serial (Texto ''|   Ticket de Entrada'')),
         (agora s + 1500,
            Serial (TicketData (obterDataFormatada_V3 e (s\<lparr>agora := agora s + 1500\<rparr>)))),
         (agora s + 1500,
            Serial (TicketHora (obterHoraFormatada_V3 e (s\<lparr>agora := agora s + 1500\<rparr>)))),
         (agora s + 1500, Serial (TicketNumero (contadorVeiculos_V3 s + 1))),
         (agora s + 1500, Serial (Texto ''| ==================== |'')),
         (agora s + 3000, LedAmarelo False),
         (agora s + 3000, Serial (Texto ''Ticket impresso. Retire-o para liberar a passagem.''))]
   \<and> contadorVeiculos_V3 (simularImpressaoTicket_V3 e s) = contadorVeiculos_V3 s
   \<and> eventos (emitirTicket_V4 e s4) = eventos s4 @
        [(agora s4, Serial (Texto ''Emitindo ticket...'')),
         (agora s4, LedAmarelo True),
         (agora s4 + 1500, Serial (Texto ''| ==================== |'')),
         (agora s4 + 1500, Serial (Texto ''|   TICKET DE ENTRADA  |'')),
         (agora s4 + 1500, Serial (TicketData (dataAtual_V4 (sincronizarDataHora_V4 e s4)))),
         (agora s4 + 1500, Serial (TicketHora (horaAtual_V4 (sincronizarDataHora_V4 e s4)))),
         (agora s4 + 1500, Serial (TicketNumero (contadorVeiculosDia_V4 s4 + 1))),
         (agora s4 + 1500, Serial (Texto ''| ==================== |'')),
         (agora s4 + 3000, LedAmarelo False),
         (agora s4 + 3000, Serial (Texto ''-> Ticket emitido.''))]
   \<and> contadorVeiculosDia_V4 (emitirTicket_V4 e s4) = contadorVeiculosDia_V4 s4 + 1"
  by (simp add: simularImpressaoTicket_V3_def emitirTicket_V4_def placa_defs
        DURACAO_IMPRESSAO_V3_def DURACAO_EMISSAO_TICKET_V4_def
        obterDataFormatada_V3_def obterHoraFormatada_V3_def sincronizarDataHora_V4_def Let_def)

text \<open>V4 with seven vehicles counted: once the ticket has been issued the stored counter
  is eight, before anything is known about the passage.\<close>

theorem numeracao_do_ticket_counterexample:
  "contadorVeiculosDia_V4 (estado_teste_V4 0 7 False) = 7
   \<and> contadorVeiculosDia_V4
        (emitirTicket_V4 (ambiente_teste (\<lambda>t. True) (\<lambda>t. False)) (estado_teste_V4 0 7 False)) = 8"
  by (simp add: emitirTicket_V4_def placa_defs sincronizarDataHora_V4_def Let_def
        estado_teste_V4_def)

text \<open>
  Claim C8. The program applies the daily reset at the start of every pass of \<^verbatim>\<open>loop()\<close>:
  V3 right after \<^verbatim>\<open>atualizarRelogio()\<close>, V4 right after \<^verbatim>\<open>sincronizarDataHora()\<close>. The
  current date is never the empty string (it is \<^verbatim>\<open>__DATE__\<close> or what \<^verbatim>\<open>strftime\<close> prints), so
  when V3 applies the reset \<^verbatim>\<open>ultimaDataReset\<close> is set. Applied with a current date that
  differs from the stored one, the reset sets the counter and its EEPROM copy to 0 and the
  stored date to the current date; applied with the same date it changes nothing; and
  applied again with the same current date, in the same pass or in the next one, it
  changes nothing.
\<close>

theorem reset_diario:
  "(obterDataFormatada_V3 e s0 \<noteq> [] \<longrightarrow>
      (obterDataFormatada_V3 e s0 \<noteq> ultimaDataReset_V3 (atualizarRelogio_V3 e s0) \<longrightarrow>
         contadorVeiculos_V3 (verificarResetDiarioContador_V3 e (atualizarRelogio_V3 e s0)) = 0
         \<and> eeprom_V3 (verificarResetDiarioContador_V3 e (atualizarRelogio_V3 e s0)) = 0
         \<and> ultimaDataReset_V3 (verificarResetDiarioContador_V3 e (atualizarRelogio_V3 e s0))
             = obterDataFormatada_V3 e s0)
      \<and> (obterDataFormatada_V3 e s0 = ultimaDataReset_V3 (atualizarRelogio_V3 e s0) \<longrightarrow>
         verificarResetDiarioContador_V3 e (atualizarRelogio_V3 e s0) = atualizarRelogio_V3 e s0)
      \<and> verificarResetDiarioContador_V3 e (atualizarRelogio_V3 e
           (verificarResetDiarioContador_V3 e (atualizarRelogio_V3 e s0)))
         = verificarResetDiarioContador_V3 e (atualizarRelogio_V3 e s0))
   \<and> verificarResetDiarioContador_V3 e (verificarResetDiarioContador_V3 e s)
       = verificarResetDiarioContador_V3 e s
   \<and> (dataAtual_V4 s4 \<noteq> ultimaDataResetContador_V4 s4 \<longrightarrow>
      contadorVeiculosDia_V4 (resetDiario_V4 s4) = 0
      \<and> eeprom_V4 (resetDiario_V4 s4) = 0
      \<and> ultimaDataResetContador_V4 (resetDiario_V4 s4) = dataAtual_V4 s4)
   \<and> (dataAtual_V4 s4 = ultimaDataResetContador_V4 s4 \<longrightarrow> resetDiario_V4 s4 = s4)
   \<and> resetDiario_V4 (resetDiario_V4 s4) = resetDiario_V4 s4"
proof -
  let ?s = "atualizarRelogio_V3 e s0"
  have v3: "obterDataFormatada_V3 e s0 \<noteq> [] \<longrightarrow>
      (obterDataFormatada_V3 e s0 \<noteq> ultimaDataReset_V3 ?s \<longrightarrow>
         contadorVeiculos_V3 (verificarResetDiarioContador_V3 e ?s) = 0
         \<and> eeprom_V3 (verificarResetDiarioContador_V3 e ?s) = 0
         \<and> ultimaDataReset_V3 (verificarResetDiarioContador_V3 e ?s)
             = obterDataFormatada_V3 e s0)
      \<and> (obterDataFormatada_V3 e s0 = ultimaDataReset_V3 ?s \<longrightarrow>
         verificarResetDiarioContador_V3 e ?s = ?s)
      \<and> verificarResetDiarioContador_V3 e (atualizarRelogio_V3 e
           (verificarResetDiarioContador_V3 e ?s))
         = verificarResetDiarioContador_V3 e ?s"
  proof (intro impI conjI)
    assume d: "obterDataFormatada_V3 e s0 \<noteq> []"
    assume n: "obterDataFormatada_V3 e s0 \<noteq> ultimaDataReset_V3 ?s"
    have u: "ultimaDataReset_V3 ?s \<noteq> []" using d by (rule relogio_define_data)
    have n': "obterDataFormatada_V3 e ?s \<noteq> ultimaDataReset_V3 ?s" using n by simp
    note r = reset_V3_dispara [OF n' u]
    show "contadorVeiculos_V3 (verificarResetDiarioContador_V3 e ?s) = 0"
      by (simp add: r)
    show "eeprom_V3 (verificarResetDiarioContador_V3 e ?s) = 0"
      by (simp add: r)
    show "ultimaDataReset_V3 (verificarResetDiarioContador_V3 e ?s) = obterDataFormatada_V3 e s0"
      by (simp add: r)
  next
    assume "obterDataFormatada_V3 e s0 = ultimaDataReset_V3 ?s"
    then have "obterDataFormatada_V3 e ?s = ultimaDataReset_V3 ?s \<or> ultimaDataReset_V3 ?s = []"
      by simp
    then show "verificarResetDiarioContador_V3 e ?s = ?s" by (rule reset_V3_nao_dispara)
  next
    assume d: "obterDataFormatada_V3 e s0 \<noteq> []"
    have u: "ultimaDataReset_V3 ?s \<noteq> []" using d by (rule relogio_define_data)
    have d': "obterDataFormatada_V3 e ?s \<noteq> []" using d by simp
    have "ultimaDataReset_V3 (verificarResetDiarioContador_V3 e ?s) \<noteq> []"
      using u d' by (rule reset_V3_mantem_data_definida)
    then have "atualizarRelogio_V3 e (verificarResetDiarioContador_V3 e ?s)
        = verificarResetDiarioContador_V3 e ?s" by (rule relogio_ja_definido)
    then show "verificarResetDiarioContador_V3 e (atualizarRelogio_V3 e
           (verificarResetDiarioContador_V3 e ?s)) = verificarResetDiarioContador_V3 e ?s"
      by (simp only: reset_V3_idempotente)
  qed
  have v4: "(dataAtual_V4 s4 \<noteq> ultimaDataResetContador_V4 s4 \<longrightarrow>
      contadorVeiculosDia_V4 (resetDiario_V4 s4) = 0
      \<and> eeprom_V4 (resetDiario_V4 s4) = 0
      \<and> ultimaDataResetContador_V4 (resetDiario_V4 s4) = dataAtual_V4 s4)
   \<and> (dataAtual_V4 s4 = ultimaDataResetContador_V4 s4 \<longrightarrow> resetDiario_V4 s4 = s4)
   \<and> resetDiario_V4 (resetDiario_V4 s4) = resetDiario_V4 s4"
    by (simp add: resetDiario_V4_def placa_defs)
  show ?thesis using v3 reset_V3_idempotente [of e s] v4 by blast
qed

theorem reset_diario_witness:
  "obterDataFormatada_V3 (ambiente_teste (\<lambda>t. False) (\<lambda>t. False))
       ((estado_teste_V3 0 7 False)\<lparr>ultimaDataReset_V3 := ''Jul 09 2025''\<rparr>) = ''Jul 10 2025''
   \<and> contadorVeiculos_V3
        (verificarResetDiarioContador_V3 (ambiente_teste (\<lambda>t. False) (\<lambda>t. False))
           (atualizarRelogio_V3 (ambiente_teste (\<lambda>t. False) (\<lambda>t. False))
              ((estado_teste_V3 0 7 False)\<lparr>ultimaDataReset_V3 := ''Jul 09 2025''\<rparr>))) = 0
   \<and> ultimaDataReset_V3
        (verificarResetDiarioContador_V3 (ambiente_teste (\<lambda>t. False) (\<lambda>t. False))
           (atualizarRelogio_V3 (ambiente_teste (\<lambda>t. False) (\<lambda>t. False))
              ((estado_teste_V3 0 7 False)\<lparr>ultimaDataReset_V3 := ''Jul 09 2025''\<rparr>)))
       = ''Jul 10 2025''
   \<and> atualizarRelogio_V3 (ambiente_teste (\<lambda>t. False) (\<lambda>t. False))
        ((estado_teste_V3 0 7 False)\<lparr>ultimaDataReset_V3 := []\<rparr>) = estado_teste_V3 0 7 False
   \<and> verificarResetDiarioContador_V3 (ambiente_teste (\<lambda>t. False) (\<lambda>t. False))
        (atualizarRelogio_V3 (ambiente_teste (\<lambda>t. False) (\<lambda>t. False))
           ((estado_teste_V3 0 7 False)\<lparr>ultimaDataReset_V3 := []\<rparr>))
       = estado_teste_V3 0 7 False
   \<and> dataAtual_V4 ((estado_teste_V4 0 7 False)\<lparr>dataAtual_V4 := ''Jul 11 2025''\<rparr>)
       \<noteq> ultimaDataResetContador_V4 ((estado_teste_V4 0 7 False)\<lparr>dataAtual_V4 := ''Jul 11 2025''\<rparr>)
   \<and> contadorVeiculosDia_V4
        (resetDiario_V4 ((estado_teste_V4 0 7 False)\<lparr>dataAtual_V4 := ''Jul 11 2025''\<rparr>)) = 0
   \<and> ultimaDataResetContador_V4
        (resetDiario_V4 ((estado_teste_V4 0 7 False)\<lparr>dataAtual_V4 := ''Jul 11 2025''\<rparr>))
       = ''Jul 11 2025''
   \<and> resetDiario_V4 (estado_teste_V4 0 7 False) = estado_teste_V4 0 7 False"
proof -
  let ?e = "ambiente_teste (\<lambda>t. False) (\<lambda>t. False)"
  let ?a = "(estado_teste_V3 0 7 False)\<lparr>ultimaDataReset_V3 := ''Jul 09 2025''\<rparr>"
  let ?b = "(estado_teste_V3 0 7 False)\<lparr>ultimaDataReset_V3 := []\<rparr>"
  let ?c = "(estado_teste_V4 0 7 False)\<lparr>dataAtual_V4 := ''Jul 11 2025''\<rparr>"
  let ?d = "estado_teste_V4 0 7 False"
  have da: "obterDataFormatada_V3 ?e ?a = ''Jul 10 2025''"
    by (simp add: obterDataFormatada_V3_def ambiente_teste_def)
  have db: "obterDataFormatada_V3 ?e ?b = ''Jul 10 2025''"
    by (simp add: obterDataFormatada_V3_def ambiente_teste_def)
  have ra: "atualizarRelogio_V3 ?e ?a = ?a" by (simp add: atualizarRelogio_V3_def)
  have rb: "atualizarRelogio_V3 ?e ?b = estado_teste_V3 0 7 False"
    by (simp add: atualizarRelogio_V3_def db) (simp add: estado_teste_V3_def)
  have h1: "obterDataFormatada_V3 ?e ?a \<noteq> []" by (simp add: da)
  have h2: "obterDataFormatada_V3 ?e ?a \<noteq> ultimaDataReset_V3 (atualizarRelogio_V3 ?e ?a)"
    by (simp add: da ra)
  have h3: "obterDataFormatada_V3 ?e ?b \<noteq> []" by (simp add: db)
  have h4: "obterDataFormatada_V3 ?e ?b = ultimaDataReset_V3 (atualizarRelogio_V3 ?e ?b)"
    by (simp add: db rb) (simp add: estado_teste_V3_def)
  have h5: "dataAtual_V4 ?c \<noteq> ultimaDataResetContador_V4 ?c"
    by (simp add: estado_teste_V4_def)
  have h6: "dataAtual_V4 ?d = ultimaDataResetContador_V4 ?d"
    by (simp add: estado_teste_V4_def)
  have c1: "contadorVeiculos_V3 (verificarResetDiarioContador_V3 ?e (atualizarRelogio_V3 ?e ?a)) = 0
      \<and> ultimaDataReset_V3 (verificarResetDiarioContador_V3 ?e (atualizarRelogio_V3 ?e ?a))
          = obterDataFormatada_V3 ?e ?a"
    using reset_diario [of ?e ?a ?a ?c] h1 h2 by blast
  have c2: "verificarResetDiarioContador_V3 ?e (atualizarRelogio_V3 ?e ?b)
      = atualizarRelogio_V3 ?e ?b"
    using reset_diario [of ?e ?b ?a ?c] h3 h4 by blast
  have c3: "contadorVeiculosDia_V4 (resetDiario_V4 ?c) = 0
      \<and> ultimaDataResetContador_V4 (resetDiario_V4 ?c) = dataAtual_V4 ?c"
    using reset_diario [of ?e ?a ?a ?c] h5 by blast
  have c4: "resetDiario_V4 ?d = ?d"
    using reset_diario [of ?e ?a ?a ?d] h6 by blast
  have w1: "ultimaDataReset_V3 (verificarResetDiarioContador_V3 ?e (atualizarRelogio_V3 ?e ?a))
      = ''Jul 10 2025''" using c1 da by simp
  have w2: "verificarResetDiarioContador_V3 ?e (atualizarRelogio_V3 ?e ?b)
      = estado_teste_V3 0 7 False" using c2 rb by simp
  have w3: "ultimaDataResetContador_V4 (resetDiario_V4 ?c) = ''Jul 11 2025''"
    using c3 by simp
  show ?thesis using da c1 w1 rb w2 h5 c3 w3 c4 by blast
qed


text \<open>
  Claim C5. A passage starts (a ticket is printed) only on a pass of \<^verbatim>\<open>loop()\<close> that
  reads the entry sensor active and the button pressed while the gate is shut. V2 and V5
  test all three in the admission condition. V3 tests the sensor and the button only, but
  its gate is shut whenever \<^verbatim>\<open>loop()\<close> is entered, so in none of the three revisions is a
  vehicle admitted while the gate is open. For V3 a pass that never returns (the ticket is
  never taken) counts as an admission too.
\<close>

theorem admissao_exige_tres_condicoes:
  "(alcancavel_V3 e s3
      \<and> (case loop_V3 e s3 of None \<Rightarrow> True
          | Some s' \<Rightarrow> ticketsEmitidos s' \<noteq> ticketsEmitidos s3) \<longrightarrow>
      sensorEntrada e (agora s3) \<and> botaoTicket e (agora s3) \<and> \<not> estadoCancelaAberta_V3 s3)
   \<and> (ticketsEmitidos (loop_V2 e s2) \<noteq> ticketsEmitidos s2 \<longrightarrow>
      sensorEntrada e (agora s2) \<and> botaoTicket e (agora s2) \<and> \<not> estadoCancelaAberta_V2 s2)
   \<and> (loop_V5 e s5 = Some s5' \<and> ticketsEmitidos s5' \<noteq> ticketsEmitidos s5 \<longrightarrow>
      distanciaEntrada e (agora s5) \<le> DISTANCIA_DETECCAO_CM_V5
      \<and> botaoTicket e (agora s5) \<and> \<not> cancelaAberta_V5 s5)"
proof (intro conjI impI)
  assume a: "alcancavel_V3 e s3
      \<and> (case loop_V3 e s3 of None \<Rightarrow> True
          | Some s' \<Rightarrow> ticketsEmitidos s' \<noteq> ticketsEmitidos s3)"
  then have "sensorEntrada e (agora s3) \<and> botaoTicket e (agora s3)"
    using loop_V3_sem_pedido [of e s3] by (cases "loop_V3 e s3") auto
  then show "sensorEntrada e (agora s3)" and "botaoTicket e (agora s3)" by simp_all
  show "\<not> estadoCancelaAberta_V3 s3" using a alcancavel_V3_fechada by blast
next
  assume "ticketsEmitidos (loop_V2 e s2) \<noteq> ticketsEmitidos s2"
  then have "sensorEntrada e (agora s2) \<and> botaoTicket e (agora s2) \<and> \<not> estadoCancelaAberta_V2 s2"
    using loop_V2_sem_pedido [of e s2] by blast
  then show "sensorEntrada e (agora s2)" and "botaoTicket e (agora s2)"
    and "\<not> estadoCancelaAberta_V2 s2" by simp_all
next
  assume "loop_V5 e s5 = Some s5' \<and> ticketsEmitidos s5' \<noteq> ticketsEmitidos s5"
  then have "distanciaEntrada e (agora s5) \<le> DISTANCIA_DETECCAO_CM_V5
      \<and> botaoTicket e (agora s5) \<and> \<not> cancelaAberta_V5 s5"
    using loop_V5_sem_pedido [of e s5 s5'] by blast
  then show "distanciaEntrada e (agora s5) \<le> DISTANCIA_DETECCAO_CM_V5"
    and "botaoTicket e (agora s5)" and "\<not> cancelaAberta_V5 s5" by simp_all
qed

theorem admissao_exige_tres_condicoes_witness:
  "alcancavel_V3 ambiente_passagem (setup_V3 ambiente_passagem (estadoInicial_V3 0))
   \<and> ticketsEmitidos (setup_V3 ambiente_passagem (estadoInicial_V3 0)) = []
   \<and> map_option ticketsEmitidos
        (loop_V3 ambiente_passagem (setup_V3 ambiente_passagem (estadoInicial_V3 0))) = Some [1]
   \<and> sensorEntrada ambiente_passagem (agora (setup_V3 ambiente_passagem (estadoInicial_V3 0)))
   \<and> botaoTicket ambiente_passagem (agora (setup_V3 ambiente_passagem (estadoInicial_V3 0)))
   \<and> \<not> estadoCancelaAberta_V3 (setup_V3 ambiente_passagem (estadoInicial_V3 0))
   \<and> ticketsEmitidos (estado_teste_V2 0 7 False) = []
   \<and> ticketsEmitidos (loop_V2 (ambiente_teste (\<lambda>t. t < 3500) (\<lambda>t. 3500 \<le> t))
                         (estado_teste_V2 0 7 False)) = [8]
   \<and> sensorEntrada (ambiente_teste (\<lambda>t. t < 3500) (\<lambda>t. 3500 \<le> t)) (agora (estado_teste_V2 0 7 False))
   \<and> botaoTicket (ambiente_teste (\<lambda>t. t < 3500) (\<lambda>t. 3500 \<le> t)) (agora (estado_teste_V2 0 7 False))
   \<and> \<not> estadoCancelaAberta_V2 (estado_teste_V2 0 7 False)
   \<and> ticketsEmitidos (estado_teste_V5 0 7 False) = []
   \<and> map_option ticketsEmitidos
        (loop_V5 (ambiente_teste (\<lambda>t. t < 3000) (\<lambda>t. 3000 \<le> t)) (estado_teste_V5 0 7 False))
       = Some [8]
   \<and> distanciaEntrada (ambiente_teste (\<lambda>t. t < 3000) (\<lambda>t. 3000 \<le> t)) (agora (estado_teste_V5 0 7 False))
       \<le> DISTANCIA_DETECCAO_CM_V5
   \<and> botaoTicket (ambiente_teste (\<lambda>t. t < 3000) (\<lambda>t. 3000 \<le> t)) (agora (estado_teste_V5 0 7 False))
   \<and> \<not> cancelaAberta_V5 (estado_teste_V5 0 7 False)"
proof -
  let ?e3 = ambiente_passagem and ?s3 = "setup_V3 ambiente_passagem (estadoInicial_V3 0)"
  let ?e2 = "ambiente_teste (\<lambda>t. t < 3500) (\<lambda>t. 3500 \<le> t)" and ?s2 = "estado_teste_V2 0 7 False"
  let ?e5 = "ambiente_teste (\<lambda>t. t < 3000) (\<lambda>t. 3000 \<le> t)" and ?s5 = "estado_teste_V5 0 7 False"
  have h3a: "alcancavel_V3 ?e3 ?s3" by (rule alcancavel_V3.inicio)
  have t3: "ticketsEmitidos ?s3 = []" by (simp add: setup_V3_teste log_defs)
  obtain s3' where l3: "loop_V3 ?e3 ?s3 = Some s3'" and t3': "ticketsEmitidos s3' = [1]"
    using loop_V3_teste by auto
  have h3b: "(case loop_V3 ?e3 ?s3 of None \<Rightarrow> True
          | Some s' \<Rightarrow> ticketsEmitidos s' \<noteq> ticketsEmitidos ?s3)"
    by (simp add: l3 t3 t3')
  have t2: "ticketsEmitidos ?s2 = []" by (simp add: estado_teste_V2_def log_defs)
  have h2: "ticketsEmitidos (loop_V2 ?e2 ?s2) \<noteq> ticketsEmitidos ?s2"
    using loop_V2_teste by (simp add: t2)
  have t5: "ticketsEmitidos ?s5 = []" by (simp add: estado_teste_V5_def log_defs)
  obtain s5' where l5: "loop_V5 ?e5 ?s5 = Some s5'" and t5': "ticketsEmitidos s5' = [8]"
    using loop_V5_teste by auto
  have h5: "loop_V5 ?e5 ?s5 = Some s5' \<and> ticketsEmitidos s5' \<noteq> ticketsEmitidos ?s5"
    by (simp add: l5 t5 t5')
  show ?thesis
    using admissao_exige_tres_condicoes [of ?e3 ?s3 ?s2 ?s5 s5'] h3a h3b
          admissao_exige_tres_condicoes [of ?e2 ?s3 ?s2 ?s5 s5'] h2
          admissao_exige_tres_condicoes [of ?e5 ?s3 ?s2 ?s5 s5'] h5
          t3 t2 t5 l3 t3' l5 t5' loop_V2_teste
    by simp
qed

lemma passagem_V3_fraude_teste:
  "monitorarPassagemEntrada_V3 (ambiente_teste (\<lambda>t. 4010 \<le> t) (\<lambda>t. False))
       (estado_teste_V3 4000 7 True)
     = (False, println ''[INFO] Veiculo liberou o sensor de entrada.'' (estado_teste_V3 4000 7 True))
   \<and> fst (monitorarPassagemSaida_V3 (ambiente_teste (\<lambda>t. 4010 \<le> t) (\<lambda>t. False))
       (println ''[INFO] Veiculo liberou o sensor de entrada.'' (estado_teste_V3 4000 7 True)))"
  by (simp add: monitorarPassagemEntrada_V3_def monitorarPassagemEntrada_laco.simps
        monitorarPassagemSaida_V3_def monitorarPassagemSaida_laco.simps
        ambiente_teste_def estado_teste_V3_def placa_defs TIMEOUT_OPERACAO_V3_def)

text \<open>
  Claim C9. The exit wait reports a fraud and a timeout in the same way. In V3 it returns
  \<open>True\<close> for both, and \<^verbatim>\<open>loop()\<close> then prints the same timeout message and leaves the
  counter alone; in V4 it sets \<^verbatim>\<open>timeoutSaidaOcorrido\<close> for both and leaves
  \<^verbatim>\<open>timeoutEntradaOcorrido\<close> as it was, and \<^verbatim>\<open>loop()\<close>, which reads only the two flags,
  prints the same cancellation message and applies the same guarded decrement.
\<close>

theorem falha_sem_distincao:
  "(\<not> sensorSaida e (agora s) \<and> sensorEntrada e (agora s) \<longrightarrow>
      fst (monitorarPassagemSaida_laco e t0 s) = True)
   \<and> (\<not> sensorSaida e (agora s) \<and> \<not> sensorEntrada e (agora s)
        \<and> millis s - t0 > TIMEOUT_OPERACAO_V3 \<longrightarrow>
      fst (monitorarPassagemSaida_laco e t0 s) = True)
   \<and> (\<not> fst (monitorarPassagemEntrada_V3 e s)
        \<and> fst (monitorarPassagemSaida_V3 e (snd (monitorarPassagemEntrada_V3 e s))) \<longrightarrow>
      passagem_V3 e s =
        println ''[AVISO] Operacao cancelada por timeout na saida.''
          (snd (monitorarPassagemSaida_V3 e (snd (monitorarPassagemEntrada_V3 e s))))
      \<and> contadorVeiculos_V3 (passagem_V3 e s) = contadorVeiculos_V3 s)
   \<and> (\<not> sensorSaida e (agora s4) \<and> \<not> millis s4 - t0 > TIMEOUT_OPERACAO_V4
        \<and> distanciaEntrada e (agora s4) \<le> DISTANCIA_PRESENCA_VEICULO_CM_V4 \<longrightarrow>
      timeoutSaidaOcorrido_V4 (gerenciarSegurancaSaida_laco e t0 u s4)
      \<and> timeoutEntradaOcorrido_V4 (gerenciarSegurancaSaida_laco e t0 u s4)
          = timeoutEntradaOcorrido_V4 s4)
   \<and> (\<not> sensorSaida e (agora s4) \<and> millis s4 - t0 > TIMEOUT_OPERACAO_V4 \<longrightarrow>
      timeoutSaidaOcorrido_V4 (gerenciarSegurancaSaida_laco e t0 u s4)
      \<and> timeoutEntradaOcorrido_V4 (gerenciarSegurancaSaida_laco e t0 u s4)
          = timeoutEntradaOcorrido_V4 s4)
   \<and> (timeoutSaidaOcorrido_V4 s4 \<longrightarrow>
      registrarResultado_V4 s4 =
        (println ''Operacao cancelada por timeout. O veiculo nao sera registrado.'' s4)
          \<lparr>contadorVeiculosDia_V4 :=
              (if contadorVeiculosDia_V4 s4 > 0 then contadorVeiculosDia_V4 s4 - 1
               else contadorVeiculosDia_V4 s4),
           timeoutEntradaOcorrido_V4 := False, timeoutSaidaOcorrido_V4 := False\<rparr>)"
proof -
  have v3: "\<not> fst (monitorarPassagemEntrada_V3 e s)
        \<and> fst (monitorarPassagemSaida_V3 e (snd (monitorarPassagemEntrada_V3 e s))) \<longrightarrow>
      passagem_V3 e s =
        println ''[AVISO] Operacao cancelada por timeout na saida.''
          (snd (monitorarPassagemSaida_V3 e (snd (monitorarPassagemEntrada_V3 e s))))
      \<and> contadorVeiculos_V3 (passagem_V3 e s) = contadorVeiculos_V3 s"
  proof (intro impI conjI)
    assume a: "\<not> fst (monitorarPassagemEntrada_V3 e s)
        \<and> fst (monitorarPassagemSaida_V3 e (snd (monitorarPassagemEntrada_V3 e s)))"
    show "passagem_V3 e s =
        println ''[AVISO] Operacao cancelada por timeout na saida.''
          (snd (monitorarPassagemSaida_V3 e (snd (monitorarPassagemEntrada_V3 e s))))"
      using a by (simp add: passagem_V3_casos)
    show "contadorVeiculos_V3 (passagem_V3 e s) = contadorVeiculos_V3 s"
      using a by (simp add: passagem_V3_contador)
  qed
  have resto: "(\<not> sensorSaida e (agora s) \<and> sensorEntrada e (agora s) \<longrightarrow>
      fst (monitorarPassagemSaida_laco e t0 s) = True)
   \<and> (\<not> sensorSaida e (agora s) \<and> \<not> sensorEntrada e (agora s)
        \<and> millis s - t0 > TIMEOUT_OPERACAO_V3 \<longrightarrow>
      fst (monitorarPassagemSaida_laco e t0 s) = True)
   \<and> (\<not> sensorSaida e (agora s4) \<and> \<not> millis s4 - t0 > TIMEOUT_OPERACAO_V4
        \<and> distanciaEntrada e (agora s4) \<le> DISTANCIA_PRESENCA_VEICULO_CM_V4 \<longrightarrow>
      timeoutSaidaOcorrido_V4 (gerenciarSegurancaSaida_laco e t0 u s4)
      \<and> timeoutEntradaOcorrido_V4 (gerenciarSegurancaSaida_laco e t0 u s4)
          = timeoutEntradaOcorrido_V4 s4)
   \<and> (\<not> sensorSaida e (agora s4) \<and> millis s4 - t0 > TIMEOUT_OPERACAO_V4 \<longrightarrow>
      timeoutSaidaOcorrido_V4 (gerenciarSegurancaSaida_laco e t0 u s4)
      \<and> timeoutEntradaOcorrido_V4 (gerenciarSegurancaSaida_laco e t0 u s4)
          = timeoutEntradaOcorrido_V4 s4)
   \<and> (timeoutSaidaOcorrido_V4 s4 \<longrightarrow>
      registrarResultado_V4 s4 =
        (println ''Operacao cancelada por timeout. O veiculo nao sera registrado.'' s4)
          \<lparr>contadorVeiculosDia_V4 :=
              (if contadorVeiculosDia_V4 s4 > 0 then contadorVeiculosDia_V4 s4 - 1
               else contadorVeiculosDia_V4 s4),
           timeoutEntradaOcorrido_V4 := False, timeoutSaidaOcorrido_V4 := False\<rparr>)"
    by (simp add: monitorarPassagemSaida_laco.simps gerenciarSegurancaSaida_laco.simps
          executar_def emitirAvisoSonoroFechamento_V4_eq fecharCancela_V4_eq
          registrarResultado_V4_def Let_def println_def emitir_def)
  show ?thesis
    using v3 resto by blast
qed

theorem falha_sem_distincao_witness:
  "\<not> sensorSaida (ambiente_teste (\<lambda>t. True) (\<lambda>t. False)) (agora (estado_teste_V3 40000 7 True))
   \<and> sensorEntrada (ambiente_teste (\<lambda>t. True) (\<lambda>t. False)) (agora (estado_teste_V3 40000 7 True))
   \<and> fst (monitorarPassagemSaida_laco (ambiente_teste (\<lambda>t. True) (\<lambda>t. False)) 4000
            (estado_teste_V3 40000 7 True))
   \<and> \<not> sensorEntrada (ambiente_teste (\<lambda>t. False) (\<lambda>t. False)) (agora (estado_teste_V3 40000 7 True))
   \<and> millis (estado_teste_V3 40000 7 True) - 4000 > TIMEOUT_OPERACAO_V3
   \<and> fst (monitorarPassagemSaida_laco (ambiente_teste (\<lambda>t. False) (\<lambda>t. False)) 4000
            (estado_teste_V3 40000 7 True))
   \<and> \<not> fst (monitorarPassagemEntrada_V3 (ambiente_teste (\<lambda>t. 4010 \<le> t) (\<lambda>t. False))
              (estado_teste_V3 4000 7 True))
   \<and> contadorVeiculos_V3 (passagem_V3 (ambiente_teste (\<lambda>t. 4010 \<le> t) (\<lambda>t. False))
        (estado_teste_V3 4000 7 True)) = 7
   \<and> \<not> millis (estado_teste_V4 5000 7 True) - 4000 > TIMEOUT_OPERACAO_V4
   \<and> distanciaEntrada (ambiente_teste (\<lambda>t. True) (\<lambda>t. False)) (agora (estado_teste_V4 5000 7 True))
       \<le> DISTANCIA_PRESENCA_VEICULO_CM_V4
   \<and> timeoutSaidaOcorrido_V4
        (gerenciarSegurancaSaida_laco (ambiente_teste (\<lambda>t. True) (\<lambda>t. False)) 4000 0
           (estado_teste_V4 5000 7 True))
   \<and> millis (estado_teste_V4 40000 7 True) - 4000 > TIMEOUT_OPERACAO_V4
   \<and> timeoutSaidaOcorrido_V4
        (gerenciarSegurancaSaida_laco (ambiente_teste (\<lambda>t. False) (\<lambda>t. False)) 4000 0
           (estado_teste_V4 40000 7 True))
   \<and> timeoutSaidaOcorrido_V4 ((estado_teste_V4 5000 8 False)\<lparr>timeoutSaidaOcorrido_V4 := True\<rparr>)
   \<and> contadorVeiculosDia_V4
        (registrarResultado_V4 ((estado_teste_V4 5000 8 False)\<lparr>timeoutSaidaOcorrido_V4 := True\<rparr>))
       = 7"
proof -
  let ?e1 = "ambiente_teste (\<lambda>t. True) (\<lambda>t. False)"
  let ?e2 = "ambiente_teste (\<lambda>t. False) (\<lambda>t. False)"
  let ?e3 = "ambiente_teste (\<lambda>t. 4010 \<le> t) (\<lambda>t. False)"
  let ?s = "estado_teste_V3 40000 7 True" and ?s' = "estado_teste_V3 4000 7 True"
  let ?f = "estado_teste_V4 5000 7 True" and ?g = "estado_teste_V4 40000 7 True"
  let ?r = "(estado_teste_V4 5000 8 False)\<lparr>timeoutSaidaOcorrido_V4 := True\<rparr>"
  have h1: "\<not> sensorSaida ?e1 (agora ?s) \<and> sensorEntrada ?e1 (agora ?s)"
    by (simp add: ambiente_teste_def)
  have h2: "\<not> sensorSaida ?e2 (agora ?s) \<and> \<not> sensorEntrada ?e2 (agora ?s)
      \<and> millis ?s - 4000 > TIMEOUT_OPERACAO_V3"
    by (simp add: ambiente_teste_def estado_teste_V3_def millis_def TIMEOUT_OPERACAO_V3_def)
  have h3: "\<not> fst (monitorarPassagemEntrada_V3 ?e3 ?s')
      \<and> fst (monitorarPassagemSaida_V3 ?e3 (snd (monitorarPassagemEntrada_V3 ?e3 ?s')))"
    using passagem_V3_fraude_teste by simp
  have h4: "\<not> sensorSaida ?e1 (agora ?f) \<and> \<not> millis ?f - 4000 > TIMEOUT_OPERACAO_V4
      \<and> distanciaEntrada ?e1 (agora ?f) \<le> DISTANCIA_PRESENCA_VEICULO_CM_V4"
    by (simp add: ambiente_teste_def estado_teste_V4_def millis_def TIMEOUT_OPERACAO_V4_def
          DISTANCIA_PRESENCA_VEICULO_CM_V4_def)
  have h5: "\<not> sensorSaida ?e2 (agora ?g) \<and> millis ?g - 4000 > TIMEOUT_OPERACAO_V4"
    by (simp add: ambiente_teste_def estado_teste_V4_def millis_def TIMEOUT_OPERACAO_V4_def)
  have h6: "timeoutSaidaOcorrido_V4 ?r" by simp
  have c1: "fst (monitorarPassagemSaida_laco ?e1 4000 ?s)"
    using falha_sem_distincao [of ?e1 ?s 4000 ?f 0] h1 by blast
  have c2: "fst (monitorarPassagemSaida_laco ?e2 4000 ?s)"
    using falha_sem_distincao [of ?e2 ?s 4000 ?g 0] h2 by blast
  have c3: "contadorVeiculos_V3 (passagem_V3 ?e3 ?s') = contadorVeiculos_V3 ?s'"
    using falha_sem_distincao [of ?e3 ?s' 4000 ?r 0] h3 by blast
  have c4: "timeoutSaidaOcorrido_V4 (gerenciarSegurancaSaida_laco ?e1 4000 0 ?f)"
    using falha_sem_distincao [of ?e1 ?s 4000 ?f 0] h4 by blast
  have c5: "timeoutSaidaOcorrido_V4 (gerenciarSegurancaSaida_laco ?e2 4000 0 ?g)"
    using falha_sem_distincao [of ?e2 ?s 4000 ?g 0] h5 by blast
  have c6: "registrarResultado_V4 ?r =
        (println ''Operacao cancelada por timeout. O veiculo nao sera registrado.'' ?r)
          \<lparr>contadorVeiculosDia_V4 :=
              (if contadorVeiculosDia_V4 ?r > 0 then contadorVeiculosDia_V4 ?r - 1
               else contadorVeiculosDia_V4 ?r),
           timeoutEntradaOcorrido_V4 := False, timeoutSaidaOcorrido_V4 := False\<rparr>"
    using falha_sem_distincao [of ?e3 ?s' 4000 ?r 0] h6 by blast
  have c3': "contadorVeiculos_V3 (passagem_V3 ?e3 ?s') = 7"
    using c3 by (simp add: estado_teste_V3_def)
  have c6': "contadorVeiculosDia_V4 (registrarResultado_V4 ?r) = 7"
    unfolding c6 by (simp add: estado_teste_V4_def)
  show ?thesis
    using h1 h2 h3 h4 h5 h6 c1 c2 c3' c4 c5 c6' by blast
qed

text \<open>
  Claim C10. Every way out of a passage shuts the gate. In V3 the entry wait shuts it
  exactly when it times out and otherwise leaves it as it was; the exit wait shuts it on
  success, on fraud and on timeout; so after lines 159--174 of \<^verbatim>\<open>loop()\<close> the gate is
  shut and the servo has been commanded shut exactly once. In V5 a whole
  \<^verbatim>\<open>iniciarProcessoEntradaVeiculo\<close> commands the servo open once and shut once and ends with
  the gate shut. Hence the gate of V3 is shut whenever \<^verbatim>\<open>loop()\<close> is entered.
\<close>

theorem transito_fecha_cancela:
  "estadoCancelaAberta_V3 (snd (monitorarPassagemEntrada_V3 e s))
     = (\<not> fst (monitorarPassagemEntrada_V3 e s) \<and> estadoCancelaAberta_V3 s)
   \<and> comandosServo (snd (monitorarPassagemEntrada_V3 e s))
     = (if fst (monitorarPassagemEntrada_V3 e s)
        then comandosServo s @ [SERVO_POSICAO_FECHADA] else comandosServo s)
   \<and> \<not> estadoCancelaAberta_V3 (snd (monitorarPassagemSaida_V3 e s))
   \<and> comandosServo (snd (monitorarPassagemSaida_V3 e s))
     = comandosServo s @ [SERVO_POSICAO_FECHADA]
   \<and> \<not> estadoCancelaAberta_V3 (passagem_V3 e s)
   \<and> comandosServo (passagem_V3 e s) = comandosServo s @ [SERVO_POSICAO_FECHADA]
   \<and> \<not> cancelaAberta_V5 (iniciarProcessoEntradaVeiculo_V5 e s5)
   \<and> comandosServo (iniciarProcessoEntradaVeiculo_V5 e s5)
     = comandosServo s5 @ [SERVO_POSICAO_ABERTA, SERVO_POSICAO_FECHADA]
   \<and> (alcancavel_V3 e s \<longrightarrow> \<not> estadoCancelaAberta_V3 s)"
  using entrada_laco_V3_quadro [of e "millis s" s] saida_laco_V3_quadro [of e "millis s" s]
    passagem_V3_fecha [of e s] passagem_V3_servo [of e s] iniciarProcesso_V5_quadro [of e s5]
    alcancavel_V3_fechada [of e s]
  by (simp add: monitorarPassagemEntrada_V3_def monitorarPassagemSaida_V3_def)

theorem transito_fecha_cancela_witness:
  "alcancavel_V3 ambiente_passagem
     (the (loop_V3 ambiente_passagem (setup_V3 ambiente_passagem (estadoInicial_V3 0))))
   \<and> contadorVeiculos_V3
       (the (loop_V3 ambiente_passagem (setup_V3 ambiente_passagem (estadoInicial_V3 0)))) = 1
   \<and> comandosServo
       (the (loop_V3 ambiente_passagem (setup_V3 ambiente_passagem (estadoInicial_V3 0))))
      = [1495, 500, 1495]
   \<and> \<not> estadoCancelaAberta_V3
       (the (loop_V3 ambiente_passagem (setup_V3 ambiente_passagem (estadoInicial_V3 0))))"
proof -
  let ?s0 = "setup_V3 ambiente_passagem (estadoInicial_V3 0)"
  obtain s1 where l: "loop_V3 ambiente_passagem ?s0 = Some s1"
    and c: "contadorVeiculos_V3 s1 = 1" and d: "comandosServo s1 = [1495, 500, 1495]"
    using loop_V3_teste by auto
  have a: "alcancavel_V3 ambiente_passagem s1"
    using alcancavel_V3.inicio l by (rule alcancavel_V3.passo)
  show ?thesis
    using transito_fecha_cancela [of ambiente_passagem s1] a c d by (simp add: l)
qed

text \<open>
  Claim C3, as the code has it. V2 keeps one deadline for the whole passage: every poll of
  its single loop, in the entry phase and in the exit phase alike, tests the time elapsed
  since \<^verbatim>\<open>timestampInicioPassagem\<close>, and leaving the entry phase keeps that timestamp. So
  a passage of V2 that is still unresolved at the poll 30050 ms after the gate opened times
  out there, whether the vehicle never left the entry sensor or left it at poll \<open>k1\<close>
  (after \<open>50 * k1\<close> ms) and did not reach the exit: the exit phase has only what the entry
  phase left of the 30 s. It succeeds if the exit sensor turns active at a poll \<open>m\<close> after
  \<open>k1\<close> and not later than 30000 ms after the gate opened. V3
  gives each phase a budget of its own: \<^verbatim>\<open>monitorarPassagemSaida\<close> reads \<^verbatim>\<open>millis()\<close> anew,
  so, whatever time the entry wait took, the exit wait succeeds if the exit sensor turns
  active at one of its first 3002 polls (up to 30010 ms after the exit wait began) with no
  second vehicle before, and times out 30010 ms after the exit wait began otherwise.
\<close>

theorem orcamento_de_tempo_por_fase:
  "(estadoCancelaAberta_V2 s2 \<and> millis s2 - t0 > TIMEOUT_OPERACAO_V2 \<longrightarrow>
      gerenciarPassagem_laco_V2 e t0 passou s2
        = (True, acionarAvisoSonoroFechamento_V2
             (println ''ERRO: Timeout! O veiculo demorou demais para passar.'' s2)))
   \<and> (estadoCancelaAberta_V2 s2 \<and> \<not> millis s2 - t0 > TIMEOUT_OPERACAO_V2
        \<and> \<not> sensorEntrada e (agora s2) \<longrightarrow>
      gerenciarPassagem_laco_V2 e t0 False s2
        = gerenciarPassagem_laco_V2 e t0 True
            (delay 50 (println ''Veiculo liberou o sensor de entrada. Aguardando saida...'' s2)))
   \<and> (estadoCancelaAberta_V2 sv \<and> (\<forall>j\<le>600. sensorEntrada e (agora sv + 50 * j)) \<longrightarrow>
      gerenciarPassagem_laco_V2 e (millis sv) False sv
        = (True, acionarAvisoSonoroFechamento_V2
             (println ''ERRO: Timeout! O veiculo demorou demais para passar.''
                (sv\<lparr>agora := agora sv + 30050\<rparr>))))
   \<and> (estadoCancelaAberta_V2 sv \<and> (\<forall>j<k1. sensorEntrada e (agora sv + 50 * j)) \<and> k1 \<le> 600
        \<and> \<not> sensorEntrada e (agora sv + 50 * k1)
        \<and> (\<forall>j. k1 < j \<and> j \<le> 600 \<longrightarrow>
              \<not> sensorEntrada e (agora sv + 50 * j) \<and> \<not> sensorSaida e (agora sv + 50 * j)) \<longrightarrow>
      gerenciarPassagem_laco_V2 e (millis sv) False sv
        = (True, acionarAvisoSonoroFechamento_V2
             (println ''ERRO: Timeout! O veiculo demorou demais para passar.''
                ((println ''Veiculo liberou o sensor de entrada. Aguardando saida...''
                    (sv\<lparr>agora := agora sv + 50 * k1\<rparr>))\<lparr>agora := agora sv + 30050\<rparr>))))
   \<and> (estadoCancelaAberta_V2 sv \<and> (\<forall>j<k1. sensorEntrada e (agora sv + 50 * j))
        \<and> k1 < m \<and> m \<le> 600 \<and> \<not> sensorEntrada e (agora sv + 50 * k1)
        \<and> (\<forall>j. k1 < j \<and> j < m \<longrightarrow>
              \<not> sensorEntrada e (agora sv + 50 * j) \<and> \<not> sensorSaida e (agora sv + 50 * j))
        \<and> \<not> sensorEntrada e (agora sv + 50 * m) \<and> sensorSaida e (agora sv + 50 * m) \<longrightarrow>
      gerenciarPassagem_laco_V2 e (millis sv) False sv
        = (False, fecharCancela_V2 (delay ESPERA_PARA_FECHAR_V2
             (println ''Veiculo passando pelo sensor de saida.''
                ((println ''Veiculo liberou o sensor de entrada. Aguardando saida...''
                    (sv\<lparr>agora := agora sv + 50 * k1\<rparr>))\<lparr>agora := agora sv + 50 * m\<rparr>)))))
   \<and> ((\<forall>j<k. \<not> sensorSaida e (agora s + 10 * j) \<and> \<not> sensorEntrada e (agora s + 10 * j))
        \<and> k \<le> 3001 \<and> sensorSaida e (agora s + 10 * k) \<longrightarrow>
      monitorarPassagemSaida_V3 e s
        = (False, fecharCancela_V3 (delay DELAY_POS_SAIDA_V3
             (println ''[INFO] Veiculo detectado no sensor de saida. Fechando em 2s.''
                (s\<lparr>agora := agora s + 10 * k\<rparr>)))))
   \<and> ((\<forall>j\<le>3001. \<not> sensorSaida e (agora s + 10 * j) \<and> \<not> sensorEntrada e (agora s + 10 * j))
        \<longrightarrow>
      monitorarPassagemSaida_V3 e s
        = (True, emitirAvisoFechamento_V3 (s\<lparr>agora := agora s + 30010\<rparr>)))"
proof (intro conjI impI)
  assume "estadoCancelaAberta_V2 s2 \<and> millis s2 - t0 > TIMEOUT_OPERACAO_V2"
  then show "gerenciarPassagem_laco_V2 e t0 passou s2
        = (True, acionarAvisoSonoroFechamento_V2
             (println ''ERRO: Timeout! O veiculo demorou demais para passar.'' s2))"
    by (subst gerenciarPassagem_laco_V2.simps) simp
next
  assume "estadoCancelaAberta_V2 s2 \<and> \<not> millis s2 - t0 > TIMEOUT_OPERACAO_V2
        \<and> \<not> sensorEntrada e (agora s2)"
  then show "gerenciarPassagem_laco_V2 e t0 False s2
        = gerenciarPassagem_laco_V2 e t0 True
            (delay 50 (println ''Veiculo liberou o sensor de entrada. Aguardando saida...'' s2))"
    by (subst gerenciarPassagem_laco_V2.simps) simp
next
  assume "estadoCancelaAberta_V2 sv \<and> (\<forall>j\<le>600. sensorEntrada e (agora sv + 50 * j))"
  then show "gerenciarPassagem_laco_V2 e (millis sv) False sv
        = (True, acionarAvisoSonoroFechamento_V2
             (println ''ERRO: Timeout! O veiculo demorou demais para passar.''
                (sv\<lparr>agora := agora sv + 30050\<rparr>)))"
    using passagem_V2_expirada_na_entrada [of e sv] by blast
next
  assume "estadoCancelaAberta_V2 sv \<and> (\<forall>j<k1. sensorEntrada e (agora sv + 50 * j)) \<and> k1 \<le> 600
        \<and> \<not> sensorEntrada e (agora sv + 50 * k1)
        \<and> (\<forall>j. k1 < j \<and> j \<le> 600 \<longrightarrow>
              \<not> sensorEntrada e (agora sv + 50 * j) \<and> \<not> sensorSaida e (agora sv + 50 * j))"
  then show "gerenciarPassagem_laco_V2 e (millis sv) False sv
        = (True, acionarAvisoSonoroFechamento_V2
             (println ''ERRO: Timeout! O veiculo demorou demais para passar.''
                ((println ''Veiculo liberou o sensor de entrada. Aguardando saida...''
                    (sv\<lparr>agora := agora sv + 50 * k1\<rparr>))\<lparr>agora := agora sv + 30050\<rparr>)))"
    using passagem_V2_expirada [of k1 e sv] by blast
next
  assume "estadoCancelaAberta_V2 sv \<and> (\<forall>j<k1. sensorEntrada e (agora sv + 50 * j))
        \<and> k1 < m \<and> m \<le> 600 \<and> \<not> sensorEntrada e (agora sv + 50 * k1)
        \<and> (\<forall>j. k1 < j \<and> j < m \<longrightarrow>
              \<not> sensorEntrada e (agora sv + 50 * j) \<and> \<not> sensorSaida e (agora sv + 50 * j))
        \<and> \<not> sensorEntrada e (agora sv + 50 * m) \<and> sensorSaida e (agora sv + 50 * m)"
  then show "gerenciarPassagem_laco_V2 e (millis sv) False sv
        = (False, fecharCancela_V2 (delay ESPERA_PARA_FECHAR_V2
             (println ''Veiculo passando pelo sensor de saida.''
                ((println ''Veiculo liberou o sensor de entrada. Aguardando saida...''
                    (sv\<lparr>agora := agora sv + 50 * k1\<rparr>))\<lparr>agora := agora sv + 50 * m\<rparr>))))"
    using passagem_V2_concluida [of k1 e sv m] by blast
next
  assume "(\<forall>j<k. \<not> sensorSaida e (agora s + 10 * j) \<and> \<not> sensorEntrada e (agora s + 10 * j))
        \<and> k \<le> 3001 \<and> sensorSaida e (agora s + 10 * k)"
  then show "monitorarPassagemSaida_V3 e s
        = (False, fecharCancela_V3 (delay DELAY_POS_SAIDA_V3
             (println ''[INFO] Veiculo detectado no sensor de saida. Fechando em 2s.''
                (s\<lparr>agora := agora s + 10 * k\<rparr>))))"
    using saida_V3_alcancada [of k e s] by blast
next
  assume "\<forall>j\<le>3001. \<not> sensorSaida e (agora s + 10 * j) \<and> \<not> sensorEntrada e (agora s + 10 * j)"
  then show "monitorarPassagemSaida_V3 e s
        = (True, emitirAvisoFechamento_V3 (s\<lparr>agora := agora s + 30010\<rparr>))"
    by (rule saida_V3_expirada)
qed

text \<open>V3, gate open at time 0: the vehicle leaves the entry sensor after 20000 ms and
  reaches the exit sensor 20000 ms later, 40000 ms after the gate opened. The passage is a
  success and the vehicle is counted.\<close>

theorem orcamento_de_tempo_por_fase_counterexample:
  "agora (estado_teste_V3 0 7 True) = 0
   \<and> monitorarPassagemEntrada_V3 (ambiente_teste (\<lambda>t. t < 20000) (\<lambda>t. 40000 \<le> t))
        (estado_teste_V3 0 7 True)
      = (False, (estado_teste_V3 0 7 True)
           \<lparr>agora := 20000,
            eventos := [(20000, Serial (Texto ''[INFO] Veiculo liberou o sensor de entrada.''))]\<rparr>)
   \<and> agora (passagem_V3 (ambiente_teste (\<lambda>t. t < 20000) (\<lambda>t. 40000 \<le> t))
        (estado_teste_V3 0 7 True)) = 42500
   \<and> contadorVeiculos_V3 (passagem_V3 (ambiente_teste (\<lambda>t. t < 20000) (\<lambda>t. 40000 \<le> t))
        (estado_teste_V3 0 7 True)) = 8
   \<and> eventos (passagem_V3 (ambiente_teste (\<lambda>t. t < 20000) (\<lambda>t. 40000 \<le> t))
        (estado_teste_V3 0 7 True))
      = [(20000, Serial (Texto ''[INFO] Veiculo liberou o sensor de entrada.'')),
         (40000, Serial (Texto ''[INFO] Veiculo detectado no sensor de saida. Fechando em 2s.'')),
         (42000, LedAmarelo False), (42000, LedVerde False), (42000, LedVermelho True),
         (42000, Servo 1495), (42000, Serial (Texto ''[ACAO] Cancela Fechada.'')),
         (42500, Serial (TotalVeiculos 8)),
         (42500, Serial (Texto ''Sistema pronto para o proximo veiculo.''))]"
proof -
  let ?e = "ambiente_teste (\<lambda>t. t < 20000) (\<lambda>t. 40000 \<le> t)" and ?s = "estado_teste_V3 0 7 True"
  let ?s1 = "println ''[INFO] Veiculo liberou o sensor de entrada.'' (?s\<lparr>agora := agora ?s + 10 * 2000\<rparr>)"
  have a: "\<forall>j<2000. sensorEntrada ?e (agora ?s + 10 * j)"
    by (simp add: ambiente_teste_def estado_teste_V3_def)
  have b: "\<not> sensorEntrada ?e (agora ?s + 10 * 2000)"
    by (simp add: ambiente_teste_def estado_teste_V3_def)
  have r1: "monitorarPassagemEntrada_V3 ?e ?s = (False, ?s1)"
    using entrada_V3_liberada [OF a _ b] by simp
  have c: "\<forall>j<2000. \<not> sensorSaida ?e (agora ?s1 + 10 * j) \<and> \<not> sensorEntrada ?e (agora ?s1 + 10 * j)"
    by (simp add: ambiente_teste_def estado_teste_V3_def)
  have d: "sensorSaida ?e (agora ?s1 + 10 * 2000)"
    by (simp add: ambiente_teste_def estado_teste_V3_def)
  have r2: "monitorarPassagemSaida_V3 ?e ?s1
        = (False, fecharCancela_V3 (delay DELAY_POS_SAIDA_V3
             (println ''[INFO] Veiculo detectado no sensor de saida. Fechando em 2s.''
                (?s1\<lparr>agora := agora ?s1 + 10 * 2000\<rparr>))))"
    using saida_V3_alcancada [OF c _ d] by simp
  have r3: "passagem_V3 ?e ?s = executar
             [(\<lambda>s. s\<lparr>contadorVeiculos_V3 := contadorVeiculos_V3 s + 1\<rparr>),
              (\<lambda>s. s\<lparr>eeprom_V3 := contadorVeiculos_V3 s\<rparr>),
                            (\<lambda>s. emitir (Serial (TotalVeiculos (contadorVeiculos_V3 s))) s),
              println ''Sistema pronto para o proximo veiculo.'']
             (fecharCancela_V3 (delay DELAY_POS_SAIDA_V3
               (println ''[INFO] Veiculo detectado no sensor de saida. Fechando em 2s.''
                (?s1\<lparr>agora := agora ?s1 + 10 * 2000\<rparr>))))"
    by (simp only: passagem_V3_casos r1 fst_conv snd_conv r2 if_False)
  show ?thesis
    unfolding r1 r3
    by (simp add: estado_teste_V3_def fecharCancela_V3_eq placa_defs DELAY_POS_SAIDA_V3_def
          SERVO_POSICAO_FECHADA_def)
qed

theorem orcamento_de_tempo_por_fase_witness:
  "estadoCancelaAberta_V2 (estado_teste_V2 40000 7 True)
   \<and> millis (estado_teste_V2 40000 7 True) - 3500 > TIMEOUT_OPERACAO_V2
   \<and> fst (gerenciarPassagem_laco_V2 (ambiente_teste (\<lambda>t. False) (\<lambda>t. True)) 3500 True
            (estado_teste_V2 40000 7 True)) = True
   \<and> \<not> millis (estado_teste_V2 20000 7 True) - 3500 > TIMEOUT_OPERACAO_V2
   \<and> \<not> sensorEntrada (ambiente_teste (\<lambda>t. False) (\<lambda>t. True)) (agora (estado_teste_V2 20000 7 True))
   \<and> gerenciarPassagem_laco_V2 (ambiente_teste (\<lambda>t. False) (\<lambda>t. True)) 3500 False
        (estado_teste_V2 20000 7 True)
      = gerenciarPassagem_laco_V2 (ambiente_teste (\<lambda>t. False) (\<lambda>t. True)) 3500 True
          (delay 50 (println ''Veiculo liberou o sensor de entrada. Aguardando saida...''
             (estado_teste_V2 20000 7 True)))
   \<and> gerenciarPassagem_laco_V2 (ambiente_teste (\<lambda>t. True) (\<lambda>t. False))
        (millis (estado_teste_V2 0 7 True)) False (estado_teste_V2 0 7 True)
      = (True, acionarAvisoSonoroFechamento_V2
           (println ''ERRO: Timeout! O veiculo demorou demais para passar.''
              ((estado_teste_V2 0 7 True)\<lparr>agora := 30050\<rparr>)))
   \<and> gerenciarPassagem_laco_V2 (ambiente_teste (\<lambda>t. t < 20000) (\<lambda>t. 40000 \<le> t))
        (millis (estado_teste_V2 0 7 True)) False (estado_teste_V2 0 7 True)
      = (True, acionarAvisoSonoroFechamento_V2
           (println ''ERRO: Timeout! O veiculo demorou demais para passar.''
              ((estado_teste_V2 0 7 True)
                 \<lparr>agora := 30050,
                  eventos := [(20000, Serial (Texto
                     ''Veiculo liberou o sensor de entrada. Aguardando saida...''))]\<rparr>)))
   \<and> fst (gerenciarPassagem_laco_V2 (ambiente_teste (\<lambda>t. t < 20000) (\<lambda>t. 25000 \<le> t))
        (millis (estado_teste_V2 0 7 True)) False (estado_teste_V2 0 7 True)) = False
   \<and> fst (monitorarPassagemSaida_V3 (ambiente_teste (\<lambda>t. False) (\<lambda>t. 40000 \<le> t))
            (estado_teste_V3 20000 7 True)) = False
   \<and> monitorarPassagemSaida_V3 (ambiente_teste (\<lambda>t. False) (\<lambda>t. False))
        (estado_teste_V3 20000 7 True)
      = (True, emitirAvisoFechamento_V3 ((estado_teste_V3 20000 7 True)\<lparr>agora := 50010\<rparr>))"
proof -
  let ?e = "ambiente_teste (\<lambda>t. False) (\<lambda>t. True)"
  let ?f = "ambiente_teste (\<lambda>t. False) (\<lambda>t. 40000 \<le> t)"
  let ?g = "ambiente_teste (\<lambda>t. False) (\<lambda>t. False)"
  let ?p = "ambiente_teste (\<lambda>t. True) (\<lambda>t. False)"
  let ?q = "ambiente_teste (\<lambda>t. t < 20000) (\<lambda>t. 40000 \<le> t)"
  let ?r = "ambiente_teste (\<lambda>t. t < 20000) (\<lambda>t. 25000 \<le> t)"
  let ?a = "estado_teste_V2 40000 7 True" and ?b = "estado_teste_V2 20000 7 True"
  let ?c = "estado_teste_V2 0 7 True"
  let ?s = "estado_teste_V3 20000 7 True"
  have h1: "estadoCancelaAberta_V2 ?a \<and> millis ?a - 3500 > TIMEOUT_OPERACAO_V2"
    by (simp add: estado_teste_V2_def millis_def TIMEOUT_OPERACAO_V2_def)
  have h2: "estadoCancelaAberta_V2 ?b \<and> \<not> millis ?b - 3500 > TIMEOUT_OPERACAO_V2
      \<and> \<not> sensorEntrada ?e (agora ?b)"
    by (simp add: estado_teste_V2_def millis_def TIMEOUT_OPERACAO_V2_def ambiente_teste_def)
  have h3: "(\<forall>j<2000. \<not> sensorSaida ?f (agora ?s + 10 * j) \<and> \<not> sensorEntrada ?f (agora ?s + 10 * j))
      \<and> 2000 \<le> (3001::nat) \<and> sensorSaida ?f (agora ?s + 10 * 2000)"
    by (simp add: ambiente_teste_def estado_teste_V3_def)
  have h4: "\<forall>j\<le>3001. \<not> sensorSaida ?g (agora ?s + 10 * j) \<and> \<not> sensorEntrada ?g (agora ?s + 10 * j)"
    by (simp add: ambiente_teste_def)
  have h5: "estadoCancelaAberta_V2 ?c \<and> (\<forall>j\<le>600. sensorEntrada ?p (agora ?c + 50 * j))"
    by (simp add: ambiente_teste_def estado_teste_V2_def)
  have h6: "estadoCancelaAberta_V2 ?c \<and> (\<forall>j<400. sensorEntrada ?q (agora ?c + 50 * j))
        \<and> 400 \<le> (600::nat) \<and> \<not> sensorEntrada ?q (agora ?c + 50 * 400)
        \<and> (\<forall>j. 400 < j \<and> j \<le> 600 \<longrightarrow>
              \<not> sensorEntrada ?q (agora ?c + 50 * j) \<and> \<not> sensorSaida ?q (agora ?c + 50 * j))"
    by (simp add: ambiente_teste_def estado_teste_V2_def)
  have h7: "estadoCancelaAberta_V2 ?c \<and> (\<forall>j<400. sensorEntrada ?r (agora ?c + 50 * j))
        \<and> 400 < (500::nat) \<and> 500 \<le> (600::nat) \<and> \<not> sensorEntrada ?r (agora ?c + 50 * 400)
        \<and> (\<forall>j. 400 < j \<and> j < 500 \<longrightarrow>
              \<not> sensorEntrada ?r (agora ?c + 50 * j) \<and> \<not> sensorSaida ?r (agora ?c + 50 * j))
        \<and> \<not> sensorEntrada ?r (agora ?c + 50 * 500) \<and> sensorSaida ?r (agora ?c + 50 * 500)"
    by (simp add: ambiente_teste_def estado_teste_V2_def)
  have r1: "gerenciarPassagem_laco_V2 ?e 3500 True ?a
        = (True, acionarAvisoSonoroFechamento_V2
             (println ''ERRO: Timeout! O veiculo demorou demais para passar.'' ?a))"
    by (rule orcamento_de_tempo_por_fase [where ?s2.0 = ?a and ?t0.0 = 3500 and e = ?e
        and passou = True and sv = ?c and ?k1.0 = 400 and m = 500 and k = 2000 and s = ?s,
        THEN conjunct1, THEN mp, OF h1])
  have r2: "gerenciarPassagem_laco_V2 ?e 3500 False ?b
        = gerenciarPassagem_laco_V2 ?e 3500 True
            (delay 50 (println ''Veiculo liberou o sensor de entrada. Aguardando saida...'' ?b))"
    by (rule orcamento_de_tempo_por_fase [where ?s2.0 = ?b and ?t0.0 = 3500 and e = ?e
        and passou = True and sv = ?c and ?k1.0 = 400 and m = 500 and k = 2000 and s = ?s,
        THEN conjunct2, THEN conjunct1, THEN mp, OF h2])
  have r3: "monitorarPassagemSaida_V3 ?f ?s
        = (False, fecharCancela_V3 (delay DELAY_POS_SAIDA_V3
             (println ''[INFO] Veiculo detectado no sensor de saida. Fechando em 2s.''
                (?s\<lparr>agora := agora ?s + 10 * 2000\<rparr>))))"
    by (rule orcamento_de_tempo_por_fase [where ?s2.0 = ?a and ?t0.0 = 3500 and e = ?f
        and passou = True and sv = ?c and ?k1.0 = 400 and m = 500 and k = 2000 and s = ?s,
        THEN conjunct2, THEN conjunct2, THEN conjunct2, THEN conjunct2, THEN conjunct2, THEN conjunct1, THEN mp, OF h3])
  have r4: "monitorarPassagemSaida_V3 ?g ?s
        = (True, emitirAvisoFechamento_V3 (?s\<lparr>agora := agora ?s + 30010\<rparr>))"
    by (rule orcamento_de_tempo_por_fase [where ?s2.0 = ?a and ?t0.0 = 3500 and e = ?g
        and passou = True and sv = ?c and ?k1.0 = 400 and m = 500 and k = 2000 and s = ?s,
        THEN conjunct2, THEN conjunct2, THEN conjunct2, THEN conjunct2, THEN conjunct2, THEN conjunct2, THEN mp, OF h4])
  have r5: "gerenciarPassagem_laco_V2 ?p (millis ?c) False ?c
        = (True, acionarAvisoSonoroFechamento_V2
             (println ''ERRO: Timeout! O veiculo demorou demais para passar.''
                (?c\<lparr>agora := agora ?c + 30050\<rparr>)))"
    by (rule orcamento_de_tempo_por_fase [where ?s2.0 = ?a and ?t0.0 = 3500 and e = ?p
        and passou = True and sv = ?c and ?k1.0 = 400 and m = 500 and k = 2000 and s = ?s,
        THEN conjunct2, THEN conjunct2, THEN conjunct1, THEN mp, OF h5])
  have r6: "gerenciarPassagem_laco_V2 ?q (millis ?c) False ?c
        = (True, acionarAvisoSonoroFechamento_V2
             (println ''ERRO: Timeout! O veiculo demorou demais para passar.''
                ((println ''Veiculo liberou o sensor de entrada. Aguardando saida...''
                    (?c\<lparr>agora := agora ?c + 50 * 400\<rparr>))\<lparr>agora := agora ?c + 30050\<rparr>)))"
    by (rule orcamento_de_tempo_por_fase [where ?s2.0 = ?a and ?t0.0 = 3500 and e = ?q
        and passou = True and sv = ?c and ?k1.0 = 400 and m = 500 and k = 2000 and s = ?s,
        THEN conjunct2, THEN conjunct2, THEN conjunct2, THEN conjunct1, THEN mp, OF h6])
  have r7: "gerenciarPassagem_laco_V2 ?r (millis ?c) False ?c
        = (False, fecharCancela_V2 (delay ESPERA_PARA_FECHAR_V2
             (println ''Veiculo passando pelo sensor de saida.''
                ((println ''Veiculo liberou o sensor de entrada. Aguardando saida...''
                    (?c\<lparr>agora := agora ?c + 50 * 400\<rparr>))\<lparr>agora := agora ?c + 50 * 500\<rparr>))))"
    by (rule orcamento_de_tempo_por_fase [where ?s2.0 = ?a and ?t0.0 = 3500 and e = ?r
        and passou = True and sv = ?c and ?k1.0 = 400 and m = 500 and k = 2000 and s = ?s,
        THEN conjunct2, THEN conjunct2, THEN conjunct2, THEN conjunct2, THEN conjunct1, THEN mp, OF h7])
  have w1: "fst (gerenciarPassagem_laco_V2 ?e 3500 True ?a) = True" using r1 by simp
  have w3: "fst (monitorarPassagemSaida_V3 ?f ?s) = False" using r3 by simp
  have w4: "monitorarPassagemSaida_V3 ?g ?s
      = (True, emitirAvisoFechamento_V3 (?s\<lparr>agora := 50010\<rparr>))"
    using r4 by (simp add: estado_teste_V3_def)
  have w5: "gerenciarPassagem_laco_V2 ?p (millis ?c) False ?c
      = (True, acionarAvisoSonoroFechamento_V2
           (println ''ERRO: Timeout! O veiculo demorou demais para passar.''
              (?c\<lparr>agora := 30050\<rparr>)))"
    using r5 by (simp add: estado_teste_V2_def)
  have w6: "gerenciarPassagem_laco_V2 ?q (millis ?c) False ?c
      = (True, acionarAvisoSonoroFechamento_V2
           (println ''ERRO: Timeout! O veiculo demorou demais para passar.''
              (?c\<lparr>agora := 30050,
                  eventos := [(20000, Serial (Texto
                     ''Veiculo liberou o sensor de entrada. Aguardando saida...''))]\<rparr>)))"
    unfolding r6 by (simp add: estado_teste_V2_def println_def emitir_def)
  have w7: "fst (gerenciarPassagem_laco_V2 ?r (millis ?c) False ?c) = False" using r7 by simp
  show ?thesis using h1 h2 r2 w1 w3 w4 w5 w6 w7 by blast
qed

text \<open>
  Claim C7, as the code has it. Time is measured from the start of the entry wait. While
  the entry sensor reads active at every poll the wait goes on: in V3 (a poll every 10 ms,
  test \<^verbatim>\<open>> 30000\<close>) up to and including the poll at 30000 ms, in V1 (a poll every 50 ms,
  test \<^verbatim>\<open>>= 30000\<close>) up to the poll at 29950 ms; so after 29999 ms neither has resolved.
  The wait times out at the next poll, at 30010 ms in V3 and at 30000 ms in V1, and only
  if the sensor still reads active there; a sensor that reads clear at that poll or at an
  earlier one ends the wait without a timeout.
\<close>

theorem limite_do_tempo_de_entrada:
  "((\<forall>j<k. sensorEntrada e (agora s + 10 * j)) \<and> 10 * k \<le> 30010 \<longrightarrow>
      monitorarPassagemEntrada_V3 e s
        = monitorarPassagemEntrada_laco e (millis s) (s\<lparr>agora := agora s + 10 * k\<rparr>))
   \<and> ((\<forall>j<k. sensorEntrada e (agora s + 10 * j)) \<and> k \<le> 3001
        \<and> \<not> sensorEntrada e (agora s + 10 * k) \<longrightarrow>
      monitorarPassagemEntrada_V3 e s
        = (False, println ''[INFO] Veiculo liberou o sensor de entrada.''
                    (s\<lparr>agora := agora s + 10 * k\<rparr>)))
   \<and> ((\<forall>j\<le>3001. sensorEntrada e (agora s + 10 * j)) \<longrightarrow>
      monitorarPassagemEntrada_V3 e s
        = (True, emitirAvisoFechamento_V3 (s\<lparr>agora := agora s + 30010\<rparr>)))
   \<and> ((\<forall>j<k1. sensorEntrada e (agora s1 + 50 * j)) \<and> k1 \<le> 600
        \<and> \<not> sensorEntrada e (agora s1 + 50 * k1) \<longrightarrow>
      gerenciarEntradaVeiculo_V1 e s1
        = (True, println ''INFO: Veiculo liberou o sensor de entrada.''
             ((println ''INFO: Aguardando veiculo passar pelo sensor de entrada...'' s1)
                \<lparr>agora := agora s1 + 50 * k1\<rparr>)))
   \<and> ((\<forall>j\<le>600. sensorEntrada e (agora s1 + 50 * j)) \<longrightarrow>
      gerenciarEntradaVeiculo_V1 e s1
        = (False, acionarAlertaEFechar_V1
             (println ''ERRO: Timeout na entrada. Cancelando operacao.''
                ((println ''INFO: Aguardando veiculo passar pelo sensor de entrada...'' s1)
                   \<lparr>agora := agora s1 + 30000\<rparr>))))"
proof (intro conjI impI)
  assume a: "(\<forall>j<k. sensorEntrada e (agora s + 10 * j)) \<and> 10 * k \<le> 30010"
  then have "\<forall>j<k. sensorEntrada e (agora s + 10 * j)" by simp
  from espera_entrada_V3 [OF this, of "millis s"] a
  show "monitorarPassagemEntrada_V3 e s
        = monitorarPassagemEntrada_laco e (millis s) (s\<lparr>agora := agora s + 10 * k\<rparr>)"
    by (simp add: monitorarPassagemEntrada_V3_def)
next
  assume "(\<forall>j<k. sensorEntrada e (agora s + 10 * j)) \<and> k \<le> 3001
        \<and> \<not> sensorEntrada e (agora s + 10 * k)"
  then show "monitorarPassagemEntrada_V3 e s
        = (False, println ''[INFO] Veiculo liberou o sensor de entrada.''
                    (s\<lparr>agora := agora s + 10 * k\<rparr>))"
    using entrada_V3_liberada [of k e s] by blast
next
  assume "\<forall>j\<le>3001. sensorEntrada e (agora s + 10 * j)"
  then show "monitorarPassagemEntrada_V3 e s
        = (True, emitirAvisoFechamento_V3 (s\<lparr>agora := agora s + 30010\<rparr>))"
    by (rule entrada_V3_expirada)
next
  assume "(\<forall>j<k1. sensorEntrada e (agora s1 + 50 * j)) \<and> k1 \<le> 600
        \<and> \<not> sensorEntrada e (agora s1 + 50 * k1)"
  then show "gerenciarEntradaVeiculo_V1 e s1
        = (True, println ''INFO: Veiculo liberou o sensor de entrada.''
             ((println ''INFO: Aguardando veiculo passar pelo sensor de entrada...'' s1)
                \<lparr>agora := agora s1 + 50 * k1\<rparr>))"
    using entrada_V1_liberada [of k1 e s1] by blast
next
  assume "\<forall>j\<le>600. sensorEntrada e (agora s1 + 50 * j)"
  then show "gerenciarEntradaVeiculo_V1 e s1
        = (False, acionarAlertaEFechar_V1
             (println ''ERRO: Timeout na entrada. Cancelando operacao.''
                ((println ''INFO: Aguardando veiculo passar pelo sensor de entrada...'' s1)
                   \<lparr>agora := agora s1 + 30000\<rparr>)))"
    by (rule entrada_V1_expirada)
qed

text \<open>V3 with the entry sensor active from 0 to 30001 ms and clear afterwards: the poll
  at 30000 ms goes on waiting, the poll at 30010 ms finds the sensor clear, and the wait
  returns \<open>False\<close>: no timeout.\<close>

theorem limite_do_tempo_de_entrada_counterexample:
  "sensorEntrada (ambiente_teste (\<lambda>t. t \<le> 30001) (\<lambda>t. False)) 0
   \<and> sensorEntrada (ambiente_teste (\<lambda>t. t \<le> 30001) (\<lambda>t. False)) 30001
   \<and> monitorarPassagemEntrada_V3 (ambiente_teste (\<lambda>t. t \<le> 30001) (\<lambda>t. False))
        (estado_teste_V3 0 7 True)
      = (False, (estado_teste_V3 0 7 True)
           \<lparr>agora := 30010,
            eventos := [(30010, Serial (Texto ''[INFO] Veiculo liberou o sensor de entrada.''))]\<rparr>)"
proof -
  let ?e = "ambiente_teste (\<lambda>t. t \<le> 30001) (\<lambda>t. False)" and ?s = "estado_teste_V3 0 7 True"
  have a: "\<forall>j<3001. sensorEntrada ?e (agora ?s + 10 * j)"
    by (simp add: ambiente_teste_def estado_teste_V3_def)
  have b: "\<not> sensorEntrada ?e (agora ?s + 10 * 3001)"
    by (simp add: ambiente_teste_def estado_teste_V3_def)
  have "monitorarPassagemEntrada_V3 ?e ?s
      = (False, println ''[INFO] Veiculo liberou o sensor de entrada.''
                  (?s\<lparr>agora := agora ?s + 10 * 3001\<rparr>))"
    using entrada_V3_liberada [OF a _ b] by simp
  then show ?thesis
    by (simp add: ambiente_teste_def estado_teste_V3_def println_def emitir_def)
qed

theorem limite_do_tempo_de_entrada_witness:
  "monitorarPassagemEntrada_V3 (ambiente_teste (\<lambda>t. t < 30000) (\<lambda>t. False)) (estado_teste_V3 0 7 True)
      = monitorarPassagemEntrada_laco (ambiente_teste (\<lambda>t. t < 30000) (\<lambda>t. False)) 0
          ((estado_teste_V3 0 7 True)\<lparr>agora := 30000\<rparr>)
   \<and> fst (monitorarPassagemEntrada_V3 (ambiente_teste (\<lambda>t. t < 30000) (\<lambda>t. False))
            (estado_teste_V3 0 7 True)) = False
   \<and> monitorarPassagemEntrada_V3 (ambiente_teste (\<lambda>t. True) (\<lambda>t. False)) (estado_teste_V3 0 7 True)
      = (True, emitirAvisoFechamento_V3 ((estado_teste_V3 0 7 True)\<lparr>agora := 30010\<rparr>))
   \<and> fst (gerenciarEntradaVeiculo_V1 (ambiente_teste (\<lambda>t. t < 30000) (\<lambda>t. False))
            (estado_teste_V1 0 7 True)) = True
   \<and> fst (gerenciarEntradaVeiculo_V1 (ambiente_teste (\<lambda>t. t \<le> 30001) (\<lambda>t. False))
            (estado_teste_V1 0 7 True)) = False"
proof -
  let ?e = "ambiente_teste (\<lambda>t. t < 30000) (\<lambda>t. False)" and ?s = "estado_teste_V3 0 7 True"
  let ?f = "ambiente_teste (\<lambda>t. True) (\<lambda>t. False)" and ?s1 = "estado_teste_V1 0 7 True"
  let ?g = "ambiente_teste (\<lambda>t. t \<le> 30001) (\<lambda>t. False)"
  have a: "(\<forall>j<3000. sensorEntrada ?e (agora ?s + 10 * j)) \<and> 10 * 3000 \<le> (30010::nat)"
    by (simp add: ambiente_teste_def estado_teste_V3_def)
  have b: "(\<forall>j<3000. sensorEntrada ?e (agora ?s + 10 * j)) \<and> 3000 \<le> (3001::nat)
      \<and> \<not> sensorEntrada ?e (agora ?s + 10 * 3000)"
    by (simp add: ambiente_teste_def estado_teste_V3_def)
  have c: "\<forall>j\<le>3001. sensorEntrada ?f (agora ?s + 10 * j)"
    by (simp add: ambiente_teste_def)
  have d: "(\<forall>j<600. sensorEntrada ?e (agora ?s1 + 50 * j)) \<and> 600 \<le> (600::nat)
      \<and> \<not> sensorEntrada ?e (agora ?s1 + 50 * 600)"
    by (simp add: ambiente_teste_def estado_teste_V1_def)
  have f: "\<forall>j\<le>600. sensorEntrada ?g (agora ?s1 + 50 * j)"
    by (simp add: ambiente_teste_def estado_teste_V1_def)
  have r1: "monitorarPassagemEntrada_V3 ?e ?s
      = monitorarPassagemEntrada_laco ?e (millis ?s) (?s\<lparr>agora := agora ?s + 10 * 3000\<rparr>)"
    using limite_do_tempo_de_entrada [of 3000 ?e ?s 600 ?s1] a by blast
  have r2: "monitorarPassagemEntrada_V3 ?e ?s
        = (False, println ''[INFO] Veiculo liberou o sensor de entrada.''
                    (?s\<lparr>agora := agora ?s + 10 * 3000\<rparr>))"
    using limite_do_tempo_de_entrada [of 3000 ?e ?s 600 ?s1] b by blast
  have r3: "monitorarPassagemEntrada_V3 ?f ?s
        = (True, emitirAvisoFechamento_V3 (?s\<lparr>agora := agora ?s + 30010\<rparr>))"
    using limite_do_tempo_de_entrada [of 3000 ?f ?s 600 ?s1] c by blast
  have r4: "gerenciarEntradaVeiculo_V1 ?e ?s1
        = (True, println ''INFO: Veiculo liberou o sensor de entrada.''
             ((println ''INFO: Aguardando veiculo passar pelo sensor de entrada...'' ?s1)
                \<lparr>agora := agora ?s1 + 50 * 600\<rparr>))"
    using limite_do_tempo_de_entrada [of 3000 ?e ?s 600 ?s1] d by blast
  have r5: "gerenciarEntradaVeiculo_V1 ?g ?s1
        = (False, acionarAlertaEFechar_V1
             (println ''ERRO: Timeout na entrada. Cancelando operacao.''
                ((println ''INFO: Aguardando veiculo passar pelo sensor de entrada...'' ?s1)
                   \<lparr>agora := agora ?s1 + 30000\<rparr>)))"
    using limite_do_tempo_de_entrada [of 3000 ?g ?s 600 ?s1] f by blast
  have w1: "monitorarPassagemEntrada_V3 ?e ?s
      = monitorarPassagemEntrada_laco ?e 0 (?s\<lparr>agora := 30000\<rparr>)"
    using r1 by (simp add: estado_teste_V3_def millis_def)
  have w2: "fst (monitorarPassagemEntrada_V3 ?e ?s) = False" using r2 by simp
  have w3: "monitorarPassagemEntrada_V3 ?f ?s
      = (True, emitirAvisoFechamento_V3 (?s\<lparr>agora := 30010\<rparr>))"
    using r3 by (simp add: estado_teste_V3_def)
  have w4: "fst (gerenciarEntradaVeiculo_V1 ?e ?s1) = True" using r4 by simp
  have w5: "fst (gerenciarEntradaVeiculo_V1 ?g ?s1) = False" using r5 by simp
  show ?thesis using w1 w2 w3 w4 w5 by blast
qed

end
